(* ===== verification/Chat_Prelude.thy ===== *)
theory Chat_Prelude
  imports Main "HOL-Library.AList" "HOL-Library.Sublist"
begin

text \<open>
  Shared vocabulary of the chat-relay development: the names of the model's basic types,
  the bounded-suffix operation that the history buffer refines, the JavaScript values
  a handler receives and their truthiness, and the generic lemmas on lists and association lists that the
  component theories use through \<open>simp\<close> and the collection \<open>chat_simps\<close>.
\<close>

named_theorems chat_simps "rewrite rules shared by the chat component proofs"

type_synonym conn = nat
  \<comment> \<open>a socket.io \<open>socket.id\<close>, assigned by the transport; only compared for equality\<close>

type_synonym clock = "nat \<times> nat"
  \<comment> \<open>the two clock readings of one handler run: \<open>Date.now()\<close> and \<open>new Date()\<close>, in ms\<close>

subsection \<open>The last \<open>n\<close> elements of a list\<close>

definition last_n :: "nat \<Rightarrow> 'a list \<Rightarrow> 'a list" where
  "last_n n xs = drop (length xs - n) xs"

subsection \<open>JavaScript values\<close>

text \<open>
  The values a socket.io handler can receive as an argument: what \<^verbatim>\<open>JSON\<close> carries,
  plus \<^verbatim>\<open>undefined\<close> for a missing argument. Numbers are \<open>JNum\<close> when they are
  integral. An object, an array or a fractional number is \<open>JObject\<close> with its string
  conversion; the code uses such a value only through its truthiness (always true), its
  string conversion, and a strict comparison with a string (always false).
\<close>

datatype jsval =
    JUndefined
  | JNull
  | JBool bool
  | JNum int
  | JStr string
  | JObject string

text \<open>JavaScript truthiness, as in \<^verbatim>\<open>if (username)\<close> and \<^verbatim>\<open>isTyping ? ... : ...\<close>.\<close>

fun js_truthy :: "jsval \<Rightarrow> bool" where
  "js_truthy JUndefined = False"
| "js_truthy JNull = False"
| "js_truthy (JBool b) = b"
| "js_truthy (JNum i) = (i \<noteq> 0)"
| "js_truthy (JStr s) = (s \<noteq> [])"
| "js_truthy (JObject s) = True"

text \<open>The value of an optional Map entry: \<^verbatim>\<open>map.get(key)\<close> is \<^verbatim>\<open>undefined\<close> when absent.\<close>

definition js_of_option :: "jsval option \<Rightarrow> jsval" where
  "js_of_option v = (case v of None \<Rightarrow> JUndefined | Some x \<Rightarrow> x)"

text \<open>The value is a string (\<^verbatim>\<open>typeof v === 'string'\<close>).\<close>

fun is_str :: "jsval \<Rightarrow> bool" where
  "is_str (JStr s) = True"
| "is_str _ = False"

subsection \<open>Lemmas on JavaScript values\<close>

lemma is_str_iff: "is_str v \<longleftrightarrow> (\<exists>s. v = JStr s)"
  by (cases v) simp_all

lemma js_of_option_simps [simp]:
  "js_of_option None = JUndefined"
  "js_of_option (Some v) = v"
  by (simp_all add: js_of_option_def)

subsection \<open>Lemmas on the last \<open>n\<close> elements\<close>

lemma length_last_n [chat_simps]: "length (last_n n xs) = min n (length xs)"
  by (simp add: last_n_def)

lemma last_n_short [chat_simps]: "length xs \<le> n \<Longrightarrow> last_n n xs = xs"
  by (simp add: last_n_def)

lemma last_n_suffix: "suffix (last_n n xs) xs"
  by (simp add: last_n_def suffix_drop)

lemma last_n_append_last_n:
  "last_n n (last_n n xs @ ys) = last_n n (xs @ ys)"
proof (cases "length xs \<le> n")
  case True
  then show ?thesis by (simp add: last_n_short)
next
  case False
  then have "xs = take (length xs - n) xs @ last_n n xs"
    by (simp add: last_n_def)
  then have "last_n n (xs @ ys) = last_n n (take (length xs - n) xs @ last_n n xs @ ys)"
    by (metis append.assoc)
  also have "\<dots> = last_n n (last_n n xs @ ys)"
    using False by (simp add: last_n_def)
  finally show ?thesis by simp
qed

subsection \<open>Lists\<close>

lemma in_set_tlD: "x \<in> set (tl ys) \<Longrightarrow> x \<in> set ys"
  by (cases ys) auto

subsection \<open>Association lists with distinct keys\<close>

lemma distinct_keys_update [chat_simps]:
  "distinct (map fst al) \<Longrightarrow> distinct (map fst (AList.update k v al))"
  by (rule distinct_update)

lemma distinct_keys_delete [chat_simps]:
  "distinct (map fst al) \<Longrightarrow> distinct (map fst (AList.delete k al))"
  by (rule distinct_delete)

lemma length_update_new:
  "k \<notin> fst ` set al \<Longrightarrow> length (AList.update k v al) = Suc (length al)"
  by (induction al) auto

lemma length_update_old:
  "k \<in> fst ` set al \<Longrightarrow> length (AList.update k v al) = length al"
  by (induction al) auto

lemma length_delete_distinct:
  "distinct (map fst al) \<Longrightarrow> k \<in> fst ` set al \<Longrightarrow>
   Suc (length (AList.delete k al)) = length al"
proof (induction al)
  case Nil
  then show ?case by simp
next
  case (Cons e al)
  show ?case
  proof (cases "fst e = k")
    case True
    with Cons.prems have "k \<notin> fst ` set al" by auto
    with True show ?thesis by simp
  next
    case False
    with Cons show ?thesis by simp
  qed
qed

lemma set_update_entries:
  "set (AList.update k v al) \<subseteq> insert (k, v) (set al)"
  by (induction al) auto

lemma set_delete_entries:
  "set (AList.delete k al) = {e \<in> set al. fst e \<noteq> k}"
  by (auto simp: AList.delete_eq)

end
