(* ===== verification/History.thy ===== *)
theory History
  imports Chat_Prelude
begin

text \<open>
  The history buffer of the server (\<^verbatim>\<open>src/nodeServer/index.js\<close>, lines 33--35 and
  64--68): the message record the server builds in the \<^verbatim>\<open>send-message\<close> handler, the
  bound \<^verbatim>\<open>MAX_MESSAGES\<close>, and the push-then-shift update of \<^verbatim>\<open>chatMessages\<close>.
  The abstract specification of the buffer is \<open>last_n MAX_MESSAGES\<close> of everything
  appended; \<open>push_message\<close> refines it, keeps the bound, and preserves insertion order.
\<close>

text \<open>
  The object literal \<^verbatim>\<open>messageData\<close> of the send handler. \<open>msg_username\<close> is
  whatever \<^verbatim>\<open>users.get(socket.id)\<close> returned (\<open>JUndefined\<close> for a socket that never
  joined) and \<open>msg_text\<close> the handler's argument, both untyped; the ISO string of
  \<^verbatim>\<open>timestamp\<close> is kept as the instant (ms since the epoch) it prints.
\<close>

record message =
  msg_id :: nat
  msg_username :: jsval
  msg_text :: jsval
  msg_timestamp :: nat

definition MAX_MESSAGES :: nat where
  "MAX_MESSAGES = 50"

text \<open>
  \<^verbatim>\<open>chatMessages.push(messageData); if (chatMessages.length > MAX_MESSAGES) chatMessages.shift();\<close>
\<close>

definition push_message :: "message \<Rightarrow> message list \<Rightarrow> message list" where
  "push_message m chatMessages =
     (let pushed = chatMessages @ [m]
      in if length pushed > MAX_MESSAGES then tl pushed else pushed)"

text \<open>Appending a sequence of messages one send at a time.\<close>

fun push_all :: "message list \<Rightarrow> message list \<Rightarrow> message list" where
  "push_all [] chatMessages = chatMessages"
| "push_all (m # ms) chatMessages = push_all ms (push_message m chatMessages)"

text \<open>A message whose author and text are strings, as the client's renderer needs them.\<close>

definition authored :: "message \<Rightarrow> bool" where
  "authored m \<longleftrightarrow> is_str (msg_username m) \<and> is_str (msg_text m)"

subsection \<open>Lemmas\<close>

lemma push_message_length [chat_simps]:
  "length (push_message m xs) = (if length xs < MAX_MESSAGES then Suc (length xs) else length xs)"
  by (simp add: push_message_def Let_def MAX_MESSAGES_def)

lemma push_message_refines_last_n:
  assumes "length xs \<le> MAX_MESSAGES"
  shows "push_message m xs = last_n MAX_MESSAGES (xs @ [m])"
proof (cases "length xs < MAX_MESSAGES")
  case True
  then show ?thesis by (simp add: push_message_def last_n_short)
next
  case False
  with assms have len: "length xs = MAX_MESSAGES" by simp
  then have "xs \<noteq> []" by (auto simp: MAX_MESSAGES_def)
  with len show ?thesis
    by (simp add: push_message_def last_n_def drop_Suc MAX_MESSAGES_def)
qed

lemma push_message_bound:
  "length xs \<le> MAX_MESSAGES \<Longrightarrow> length (push_message m xs) \<le> MAX_MESSAGES"
  by (simp add: push_message_length)

lemma push_all_last_n:
  "length xs \<le> MAX_MESSAGES \<Longrightarrow> push_all ms xs = last_n MAX_MESSAGES (xs @ ms)"
proof (induction ms arbitrary: xs)
  case Nil
  then show ?case by (simp add: last_n_short)
next
  case (Cons m ms)
  have "push_all (m # ms) xs = push_all ms (last_n MAX_MESSAGES (xs @ [m]))"
    using Cons.prems by (simp add: push_message_refines_last_n)
  also have "\<dots> = last_n MAX_MESSAGES (last_n MAX_MESSAGES (xs @ [m]) @ ms)"
    by (rule Cons.IH) (simp add: length_last_n)
  also have "\<dots> = last_n MAX_MESSAGES (xs @ m # ms)"
    by (simp add: last_n_append_last_n)
  finally show ?case .
qed

subsection \<open>Properties\<close>

text \<open>C2. After more than MAX_MESSAGES sends into an empty buffer, the buffer holds exactly the last MAX_MESSAGES messages, in their original order.\<close>

theorem history_last_messages:
  assumes "MAX_MESSAGES < length ms"
  shows "push_all ms [] = drop (length ms - MAX_MESSAGES) ms \<and> length (push_all ms []) = MAX_MESSAGES"
proof -
  have "push_all ms [] = last_n MAX_MESSAGES ms"
    using push_all_last_n [of "[]" ms] by simp
  with assms show ?thesis by (simp add: last_n_def)
qed

theorem history_last_messages_witness:
  "MAX_MESSAGES < length (map (\<lambda>i. \<lparr>msg_id = i, msg_username = JStr ''a'', msg_text = JStr ''m'', msg_timestamp = i\<rparr>) [0..<51]) \<and>
   push_all (map (\<lambda>i. \<lparr>msg_id = i, msg_username = JStr ''a'', msg_text = JStr ''m'', msg_timestamp = i\<rparr>) [0..<51]) [] =
     map (\<lambda>i. \<lparr>msg_id = i, msg_username = JStr ''a'', msg_text = JStr ''m'', msg_timestamp = i\<rparr>) [1..<51]"
proof -
  let ?ms = "map (\<lambda>i. \<lparr>msg_id = i, msg_username = JStr ''a'', msg_text = JStr ''m'', msg_timestamp = i\<rparr>) [0..<51]"
  have h: "MAX_MESSAGES < length ?ms" by (simp add: MAX_MESSAGES_def)
  have "drop (length ?ms - MAX_MESSAGES) ?ms =
      map (\<lambda>i. \<lparr>msg_id = i, msg_username = JStr ''a'', msg_text = JStr ''m'', msg_timestamp = i\<rparr>) [1..<51]"
    by (simp add: MAX_MESSAGES_def drop_map upt_rec)
  then show ?thesis using history_last_messages [OF h] h by simp
qed

end
