(* ===== verification/Registry.thy ===== *)
theory Registry
  imports Chat_Prelude
begin

text \<open>
  The session registry of the server: \<^verbatim>\<open>const users = new Map()\<close> of
  \<^verbatim>\<open>src/nodeServer/index.js\<close> (line 31), keyed by \<^verbatim>\<open>socket.id\<close>. A JavaScript
  \<^verbatim>\<open>Map\<close> keeps its keys in insertion order, \<^verbatim>\<open>set\<close> on a present key replaces
  the value in place and \<^verbatim>\<open>delete\<close> removes the entry: that is an association list with
  distinct keys and \<open>AList.update\<close>/\<open>AList.delete\<close>. The four operations are the
  ones the handlers call: \<^verbatim>\<open>users.set\<close>, \<^verbatim>\<open>users.get\<close>, \<^verbatim>\<open>users.delete\<close> and
  \<^verbatim>\<open>users.size\<close>. The lemmas give the contract of each (lookup after insert and after
  delete, the size change) and the distinct-keys invariant.
\<close>

type_synonym users = "(conn \<times> jsval) list"

definition users_set :: "conn \<Rightarrow> jsval \<Rightarrow> users \<Rightarrow> users" where
  "users_set c username us = AList.update c username us"

definition users_get :: "conn \<Rightarrow> users \<Rightarrow> jsval option" where
  "users_get c us = map_of us c"

definition users_delete :: "conn \<Rightarrow> users \<Rightarrow> users" where
  "users_delete c us = AList.delete c us"

definition users_size :: "users \<Rightarrow> nat" where
  "users_size us = length us"

definition users_wf :: "users \<Rightarrow> bool" where
  "users_wf us \<longleftrightarrow> distinct (map fst us)"

subsection \<open>Contract of each operation\<close>

lemma users_get_set [chat_simps]:
  "users_get c' (users_set c u us) = (if c' = c then Some u else users_get c' us)"
  by (simp add: users_get_def users_set_def update_conv')

lemma users_get_delete [chat_simps]:
  "users_get c' (users_delete c us) = (if c' = c then None else users_get c' us)"
  by (simp add: users_get_def users_delete_def delete_conv')

lemma users_wf_set [chat_simps]: "users_wf us \<Longrightarrow> users_wf (users_set c u us)"
  by (simp add: users_wf_def users_set_def distinct_update)

lemma users_wf_delete [chat_simps]: "users_wf us \<Longrightarrow> users_wf (users_delete c us)"
  by (simp add: users_wf_def users_delete_def distinct_delete)

lemma users_get_None_iff: "users_get c us = None \<longleftrightarrow> c \<notin> fst ` set us"
  by (simp add: users_get_def map_of_eq_None_iff)

lemma users_size_set:
  "users_size (users_set c u us) =
     (if users_get c us = None then Suc (users_size us) else users_size us)"
  by (simp add: users_size_def users_set_def users_get_None_iff
      length_update_new length_update_old)

lemma users_size_delete:
  "users_wf us \<Longrightarrow> users_get c us \<noteq> None \<Longrightarrow>
   Suc (users_size (users_delete c us)) = users_size us"
  by (simp add: users_size_def users_delete_def users_wf_def users_get_None_iff
      length_delete_distinct)

lemma users_size_card: "users_wf us \<Longrightarrow> users_size us = card {c. users_get c us \<noteq> None}"
proof -
  assume "users_wf us"
  then have "users_size us = card (set (map fst us))"
    by (metis distinct_card length_map users_size_def users_wf_def)
  also have "set (map fst us) = {c. users_get c us \<noteq> None}"
    by (auto simp: users_get_None_iff)
  finally show ?thesis .
qed

lemma users_entries_set:
  "(c', u') \<in> set (users_set c u us) \<Longrightarrow> (c', u') = (c, u) \<or> (c', u') \<in> set us"
  using set_update_entries [of c u us] by (auto simp: users_set_def)

lemma users_entries_delete:
  "(c', u') \<in> set (users_delete c us) \<longleftrightarrow> (c', u') \<in> set us \<and> c' \<noteq> c"
  by (simp add: users_delete_def set_delete_entries)

lemma users_get_entry:
  "users_wf us \<Longrightarrow> users_get c us = Some u \<longleftrightarrow> (c, u) \<in> set us"
  by (simp add: users_get_def users_wf_def)

end
