(* ===== verification/Transport.thy ===== *)
theory Transport
  imports History
begin

text \<open>
  The interface between the server, the clients and socket.io. The event payloads
  are the ones the code passes to \<^verbatim>\<open>emit\<close> (\<^verbatim>\<open>src/nodeServer/index.js\<close> and
  \<^verbatim>\<open>src/nodeServer/public/client.js\<close>). socket.io is a library and is not under
  \<^verbatim>\<open>src/\<close>, so its delivery rules come from the spec (section 6): \<^verbatim>\<open>io.emit\<close> goes to
  every connected socket, \<^verbatim>\<open>socket.emit\<close> to one socket, and
  \<^verbatim>\<open>socket.broadcast.emit\<close> to every connected socket but the sender. A delivery is a
  pair of a recipient and an event; the outputs of one handler run are the list of its
  deliveries in the order they are issued.
\<close>

text \<open>
  Events the server emits (the second argument of each \<^verbatim>\<open>emit\<close> call). Names and
  typing flags are whatever the clients sent: the server relays them unchecked.
\<close>

datatype server_event =
    ChatHistory "message list"                \<comment> \<open>\<^verbatim>\<open>'chat-history'\<close>\<close>
  | NewMessage message                        \<comment> \<open>\<^verbatim>\<open>'new-message'\<close>\<close>
  | UserJoined jsval                          \<comment> \<open>\<^verbatim>\<open>'user-joined'\<close>\<close>
  | UserLeft jsval                            \<comment> \<open>\<^verbatim>\<open>'user-left'\<close>\<close>
  | UpdateOnlineCount nat                     \<comment> \<open>\<^verbatim>\<open>'update-online-count'\<close>\<close>
  | UserTyping jsval jsval                    \<comment> \<open>\<^verbatim>\<open>'user-typing'\<close>, \<^verbatim>\<open>{username, isTyping}\<close>\<close>

text \<open>
  Events a client emits and the server listens to (\<^verbatim>\<open>socket.on\<close>). The payload is any
  value the sending client chose; the client of \<^verbatim>\<open>client.js\<close> sends strings and booleans.
\<close>

datatype client_msg =
    Join jsval                                \<comment> \<open>\<^verbatim>\<open>'join'\<close>\<close>
  | SendMessage jsval                         \<comment> \<open>\<^verbatim>\<open>'send-message'\<close>\<close>
  | Typing jsval                              \<comment> \<open>\<^verbatim>\<open>'typing'\<close>\<close>

text \<open>
  What the transport hands to the server: a new connection (\<^verbatim>\<open>io.on('connection')\<close>),
  an event of a connected socket with the clock readings of the handler run, and the
  close of a connection (\<^verbatim>\<open>'disconnect'\<close>).
\<close>

datatype net_event =
    Connect conn
  | Recv conn clock client_msg
  | Disconnect conn

type_synonym delivery = "conn \<times> server_event"

definition io_emit :: "conn list \<Rightarrow> server_event \<Rightarrow> delivery list" where
  "io_emit conns ev = map (\<lambda>c. (c, ev)) conns"

definition socket_emit :: "conn \<Rightarrow> server_event \<Rightarrow> delivery list" where
  "socket_emit c ev = [(c, ev)]"

definition broadcast_emit :: "conn list \<Rightarrow> conn \<Rightarrow> server_event \<Rightarrow> delivery list" where
  "broadcast_emit conns c ev = map (\<lambda>c'. (c', ev)) (filter (\<lambda>c'. c' \<noteq> c) conns)"

text \<open>The events one connection receives, in order.\<close>

definition received :: "conn \<Rightarrow> delivery list \<Rightarrow> server_event list" where
  "received c ds = map snd (filter (\<lambda>d. fst d = c) ds)"

text \<open>The chat messages among a sequence of received events, in order.\<close>

fun new_messages :: "server_event list \<Rightarrow> message list" where
  "new_messages [] = []"
| "new_messages (NewMessage m # evs) = m # new_messages evs"
| "new_messages (_ # evs) = new_messages evs"

text \<open>Events a client can handle without a history replay and without an exception.\<close>

fun plain_event :: "server_event \<Rightarrow> bool" where
  "plain_event (ChatHistory ms) = False"
| "plain_event (NewMessage m) = authored m"
| "plain_event _ = True"

subsection \<open>Who receives what\<close>

lemma new_messages_append [chat_simps]:
  "new_messages (xs @ ys) = new_messages xs @ new_messages ys"
  by (induction xs rule: new_messages.induct) auto


lemma received_append [chat_simps]: "received c (xs @ ys) = received c xs @ received c ys"
  by (simp add: received_def)

lemma received_Nil [chat_simps]: "received c [] = []"
  by (simp add: received_def)

lemma received_io_emit [chat_simps]:
  "distinct conns \<Longrightarrow> received c (io_emit conns ev) = (if c \<in> set conns then [ev] else [])"
  by (induction conns) (auto simp: received_def io_emit_def filter_empty_conv)

lemma received_socket_emit [chat_simps]:
  "received c (socket_emit c' ev) = (if c = c' then [ev] else [])"
  by (simp add: received_def socket_emit_def)

lemma received_broadcast_emit [chat_simps]:
  "distinct conns \<Longrightarrow>
   received c (broadcast_emit conns c' ev) = (if c \<in> set conns \<and> c \<noteq> c' then [ev] else [])"
  by (induction conns) (auto simp: received_def broadcast_emit_def filter_empty_conv)

lemma broadcast_emit_not_sender [chat_simps]: "received c (broadcast_emit conns c ev) = []"
  by (simp add: received_def broadcast_emit_def filter_empty_conv)

lemma io_emit_recipients: "fst ` set (io_emit conns ev) = set conns"
  by (force simp: io_emit_def)

lemma io_emit_events: "snd ` set (io_emit conns ev) \<subseteq> {ev}"
  by (auto simp: io_emit_def)

end
