(* ===== verification/Server.thy ===== *)
theory Server
  imports History Registry Transport
begin

text \<open>
  The broadcast engine: the \<^verbatim>\<open>io.on('connection', ...)\<close> block of
  \<^verbatim>\<open>src/nodeServer/index.js\<close> (lines 37--93). The module-level state (\<^verbatim>\<open>users\<close>,
  \<^verbatim>\<open>chatMessages\<close>) and the transport's set of connected sockets form the record
  \<open>server\<close>; each \<^verbatim>\<open>socket.on\<close> handler is a function from the state to the new
  state and the deliveries it issues, in order. \<open>server_step\<close> is the transport's
  dispatch of one event, \<open>server_run\<close> a whole trace of events.
  The lemmas give each handler's behaviour on every branch, the invariant that every step
  keeps (bounded history, distinct keys, every registered user with a truthy name is
  connected), and the properties of whole runs: history contents, who receives typing
  signals, presence announcements, and the consequences of the missing guards.
\<close>

record server =
  conns :: "conn list"            \<comment> \<open>connected sockets, in connection order (socket.io)\<close>
  users :: users                  \<comment> \<open>\<^verbatim>\<open>const users = new Map()\<close>\<close>
  chatMessages :: "message list"  \<comment> \<open>\<^verbatim>\<open>const chatMessages = []\<close>\<close>

definition server_init :: server where
  "server_init = \<lparr>conns = [], users = [], chatMessages = []\<rparr>"

subsection \<open>The handlers\<close>

text \<open>\<^verbatim>\<open>socket.on('join', (username) => {...})\<close>, lines 41--52.\<close>

definition on_join :: "conn \<Rightarrow> jsval \<Rightarrow> server \<Rightarrow> server \<times> delivery list" where
  "on_join c username s =
     (let s1 = s\<lparr>users := users_set c username (users s)\<rparr>
      in (s1, io_emit (conns s1) (UserJoined username)
              @ socket_emit c (ChatHistory (chatMessages s1))
              @ io_emit (conns s1) (UpdateOnlineCount (users_size (users s1)))))"

text \<open>\<^verbatim>\<open>socket.on('send-message', (message) => {...})\<close>, lines 55--72.\<close>

definition on_send_message :: "clock \<Rightarrow> conn \<Rightarrow> jsval \<Rightarrow> server \<Rightarrow> server \<times> delivery list" where
  "on_send_message clk c message s =
     (let username = js_of_option (users_get c (users s));
          messageData = \<lparr>msg_id = fst clk, msg_username = username,
                         msg_text = message, msg_timestamp = snd clk\<rparr>;
          s1 = s\<lparr>chatMessages := push_message messageData (chatMessages s)\<rparr>
      in (s1, io_emit (conns s1) (NewMessage messageData)))"

text \<open>
  \<^verbatim>\<open>socket.on('disconnect', () => {...})\<close>, lines 75--86. When it runs, socket.io has
  already removed the socket from the connected set, so \<^verbatim>\<open>io.emit\<close> reaches the
  remaining connections only; \<open>server_step\<close> does that removal.
\<close>

definition on_disconnect :: "conn \<Rightarrow> server \<Rightarrow> server \<times> delivery list" where
  "on_disconnect c s =
     (let username = js_of_option (users_get c (users s))
      in if js_truthy username then
           (let s1 = s\<lparr>users := users_delete c (users s)\<rparr>
            in (s1, io_emit (conns s1) (UserLeft username)
                    @ io_emit (conns s1) (UpdateOnlineCount (users_size (users s1)))))
         else (s, []))"

text \<open>\<^verbatim>\<open>socket.on('typing', (isTyping) => {...})\<close>, lines 89--92.\<close>

definition on_typing :: "conn \<Rightarrow> jsval \<Rightarrow> server \<Rightarrow> server \<times> delivery list" where
  "on_typing c isTyping s =
     (s, broadcast_emit (conns s) c (UserTyping (js_of_option (users_get c (users s))) isTyping))"

text \<open>
  One event of the transport. A new connection joins the connected set (line 37; the
  handler itself only logs). Events of a socket that is not connected are never
  delivered by socket.io, so they change nothing.
\<close>

fun server_step :: "server \<Rightarrow> net_event \<Rightarrow> server \<times> delivery list" where
  "server_step s (Connect c) =
     (if c \<in> set (conns s) then (s, []) else (s\<lparr>conns := conns s @ [c]\<rparr>, []))"
| "server_step s (Recv c clk m) =
     (if c \<notin> set (conns s) then (s, [])
      else (case m of
              Join username \<Rightarrow> on_join c username s
            | SendMessage message \<Rightarrow> on_send_message clk c message s
            | Typing isTyping \<Rightarrow> on_typing c isTyping s))"
| "server_step s (Disconnect c) =
     (if c \<notin> set (conns s) then (s, [])
      else on_disconnect c (s\<lparr>conns := removeAll c (conns s)\<rparr>))"

text \<open>A trace of events, handled one at a time (the single-threaded event loop).\<close>

fun server_run :: "server \<Rightarrow> net_event list \<Rightarrow> server \<times> delivery list" where
  "server_run s [] = (s, [])"
| "server_run s (e # es) =
     (case server_step s e of
        (s1, out1) \<Rightarrow> (case server_run s1 es of (s2, out2) \<Rightarrow> (s2, out1 @ out2)))"

subsection \<open>The invariant\<close>

definition server_inv :: "server \<Rightarrow> bool" where
  "server_inv s \<longleftrightarrow>
     distinct (conns s) \<and> users_wf (users s) \<and>
     length (chatMessages s) \<le> MAX_MESSAGES \<and>
     (\<forall>(c, u) \<in> set (users s). js_truthy u \<longrightarrow> c \<in> set (conns s))"

text \<open>Traces in which no client joins with the empty name.\<close>

definition join_named :: "net_event \<Rightarrow> bool" where
  "join_named e = (case e of Recv c clk (Join username) \<Rightarrow> js_truthy username | _ \<Rightarrow> True)"

definition named_users :: "server \<Rightarrow> bool" where
  "named_users s \<longleftrightarrow> (\<forall>(c, u) \<in> set (users s). js_truthy u)"

text \<open>The states the server reaches from its start by any sequence of events.\<close>

inductive server_reachable :: "server \<Rightarrow> bool" where
  init: "server_reachable server_init"
| step: "server_reachable s \<Longrightarrow> server_reachable (fst (server_step s e))"

text \<open>Events every connection sees, as opposed to the private history and the typing relays.\<close>

definition public_event :: "server_event \<Rightarrow> bool" where
  "public_event ev = (case ev of ChatHistory _ \<Rightarrow> False | UserTyping _ _ \<Rightarrow> False | _ \<Rightarrow> True)"

text \<open>The life cycle of one connection (spec, section 4.3) and its allowed moves.\<close>

datatype phase = Connected | Joined | Disconnected

definition phase_of :: "server \<Rightarrow> conn \<Rightarrow> phase" where
  "phase_of s c =
     (if c \<notin> set (conns s) then Disconnected
      else if users_get c (users s) = None then Connected else Joined)"

inductive phase_step :: "phase \<Rightarrow> phase \<Rightarrow> bool" where
  stay: "phase_step p p"
| join: "phase_step Connected Joined"
| drop_connected: "phase_step Connected Disconnected"
| leave: "phase_step Joined Disconnected"
| connect: "phase_step Disconnected Connected"

text \<open>Whether an event is a join of connection \<open>c\<close>; traces in which every send-message from a connected socket comes from a registered one.\<close>

definition joins :: "conn \<Rightarrow> net_event \<Rightarrow> bool" where
  "joins c e = (case e of Recv c' clk (Join u) \<Rightarrow> c' = c | _ \<Rightarrow> False)"

fun joined_senders :: "server \<Rightarrow> net_event list \<Rightarrow> bool" where
  "joined_senders s [] = True"
| "joined_senders s (e # es) =
     ((case e of Recv c clk (SendMessage m) \<Rightarrow>
                 c \<in> set (conns s) \<longrightarrow> is_str (js_of_option (users_get c (users s))) \<and> is_str m
               | _ \<Rightarrow> True) \<and>
      joined_senders (fst (server_step s e)) es)"

lemmas handler_defs = on_join_def on_send_message_def on_disconnect_def on_typing_def

lemmas server_eval = server_init_def handler_defs io_emit_def socket_emit_def
  broadcast_emit_def users_set_def users_get_def users_delete_def users_size_def
  received_def push_message_def MAX_MESSAGES_def Let_def

lemma server_run_Cons_eq:
  "server_run s (e # es) =
     (fst (server_run (fst (server_step s e)) es),
      snd (server_step s e) @ snd (server_run (fst (server_step s e)) es))"
  by (simp split: prod.split)

declare server_run.simps(2) [simp del]

lemma server_inv_init: "server_inv server_init"
  by (simp add: server_inv_def server_init_def users_wf_def)

lemma server_inv_connect:
  "server_inv s \<Longrightarrow> c \<notin> set (conns s) \<Longrightarrow> server_inv (s\<lparr>conns := conns s @ [c]\<rparr>)"
  by (auto simp: server_inv_def)

lemma on_join_inv:
  assumes "server_inv s" and "c \<in> set (conns s)"
  shows "server_inv (fst (on_join c u s))"
  using assms by (auto simp: server_inv_def on_join_def users_wf_set dest: users_entries_set)

lemma on_send_message_inv:
  "server_inv s \<Longrightarrow> server_inv (fst (on_send_message clk c m s))"
  by (auto simp: server_inv_def on_send_message_def Let_def push_message_bound)

lemma on_typing_state [chat_simps]: "fst (on_typing c b s) = s"
  by (simp add: on_typing_def)

lemma on_disconnect_inv:
  assumes inv: "server_inv s"
  shows "server_inv (fst (on_disconnect c (s\<lparr>conns := removeAll c (conns s)\<rparr>)))"
proof (cases "js_truthy (js_of_option (users_get c (users s)))")
  case True
  with inv show ?thesis
    by (auto simp: server_inv_def on_disconnect_def users_wf_delete users_entries_delete
        distinct_removeAll)
next
  case False
  have "\<not> js_truthy u" if "(c, u) \<in> set (users s)" for u
  proof -
    from inv that have "users_get c (users s) = Some u"
      by (simp add: server_inv_def users_get_entry)
    with False show ?thesis by (simp add: js_of_option_def)
  qed
  with inv False show ?thesis
    by (fastforce simp: server_inv_def on_disconnect_def distinct_removeAll)
qed

lemma server_step_inv:
  "server_inv s \<Longrightarrow> server_inv (fst (server_step s e))"
  by (cases e) (auto simp: server_inv_connect on_join_inv on_send_message_inv
      on_disconnect_inv on_typing_state split: client_msg.split)

lemma server_run_inv:
  "server_inv s \<Longrightarrow> server_inv (fst (server_run s evs))"
proof (induction evs arbitrary: s)
  case Nil
  then show ?case by simp
next
  case (Cons e evs)
  from Cons.prems have "server_inv (fst (server_step s e))" by (rule server_step_inv)
  then have "server_inv (fst (server_run (fst (server_step s e)) evs))" by (rule Cons.IH)
  then show ?case by (simp add: server_run_Cons_eq)
qed

subsection \<open>History seen by a connected observer\<close>

lemma server_step_history:
  assumes inv: "server_inv s" and c: "c \<in> set (conns s)" and e: "e \<noteq> Disconnect c"
  shows "chatMessages (fst (server_step s e)) =
           last_n MAX_MESSAGES (chatMessages s @ new_messages (received c (snd (server_step s e))))"
proof -
  from inv have d: "distinct (conns s)" and len: "length (chatMessages s) \<le> MAX_MESSAGES"
    by (simp_all add: server_inv_def)
  show ?thesis
  proof (cases e)
    case (Recv c' clk m)
    with d len c show ?thesis
      by (cases m) (simp_all add: handler_defs Let_def chat_simps push_message_refines_last_n)
  qed (use d len c e in \<open>auto simp: on_disconnect_def Let_def chat_simps distinct_removeAll\<close>)
qed

lemma server_step_keeps_observer:
  "c \<in> set (conns s) \<Longrightarrow> e \<noteq> Disconnect c \<Longrightarrow> c \<in> set (conns (fst (server_step s e)))"
  by (cases e) (auto simp: handler_defs Let_def split: client_msg.split)

lemma server_run_history:
  assumes "server_inv s" and "c \<in> set (conns s)" and "Disconnect c \<notin> set evs"
  shows "chatMessages (fst (server_run s evs)) =
           last_n MAX_MESSAGES (chatMessages s @ new_messages (received c (snd (server_run s evs))))"
  using assms
proof (induction evs arbitrary: s)
  case Nil
  then show ?case by (simp add: server_inv_def chat_simps)
next
  case (Cons e evs)
  let ?s1 = "fst (server_step s e)"
  have inv1: "server_inv ?s1" using Cons.prems(1) by (rule server_step_inv)
  have c1: "c \<in> set (conns ?s1)"
    using Cons.prems(2,3) by (intro server_step_keeps_observer) auto
  have h1: "chatMessages ?s1 =
      last_n MAX_MESSAGES (chatMessages s @ new_messages (received c (snd (server_step s e))))"
    using Cons.prems by (intro server_step_history) auto
  have "chatMessages (fst (server_run ?s1 evs)) =
      last_n MAX_MESSAGES (chatMessages ?s1 @ new_messages (received c (snd (server_run ?s1 evs))))"
    using inv1 c1 Cons.prems(3) by (intro Cons.IH) auto
  then show ?case
    by (simp add: server_run_Cons_eq h1 last_n_append_last_n chat_simps)
qed

subsection \<open>Registered users and connected sockets\<close>

lemma server_step_named_users:
  assumes "named_users s" and "join_named e"
  shows "named_users (fst (server_step s e))"
proof (cases e)
  case (Recv c clk m)
  with assms show ?thesis
    by (cases m) (auto simp: named_users_def join_named_def handler_defs Let_def
        dest: users_entries_set)
next
  case (Disconnect c)
  with assms show ?thesis
    by (auto simp: named_users_def on_disconnect_def Let_def users_entries_delete)
qed (use assms in \<open>auto simp: named_users_def\<close>)
lemma server_run_named_users:
  "named_users s \<Longrightarrow> list_all join_named evs \<Longrightarrow> named_users (fst (server_run s evs))"
proof (induction evs arbitrary: s)
  case Nil
  then show ?case by simp
next
  case (Cons e evs)
  then have "named_users (fst (server_step s e))"
    by (intro server_step_named_users) simp_all
  with Cons show ?case by (simp add: server_run_Cons_eq)
qed
lemma named_users_connected:
  assumes inv: "server_inv s" and named: "named_users s" and reg: "users_get c (users s) = Some u"
  shows "c \<in> set (conns s)"
proof -
  from reg have "(c, u) \<in> set (users s)" by (simp add: users_get_def map_of_SomeD)
  moreover from this named have "js_truthy u" by (auto simp: named_users_def)
  ultimately show ?thesis using inv by (auto simp: server_inv_def)
qed
lemma server_run_reachable:
  "server_reachable s \<Longrightarrow> server_reachable (fst (server_run s evs))"
proof (induction evs arbitrary: s)
  case Nil
  then show ?case by simp
next
  case (Cons e evs)
  then show ?case by (simp add: server_run_Cons_eq server_reachable.step)
qed

subsection \<open>Behaviour of single events\<close>

lemma join_history_payload:
  assumes "(j, ChatHistory h) \<in> set (snd (server_step s (Recv j' clk (Join u))))"
  shows "h = chatMessages s"
  using assms by (auto simp: on_join_def io_emit_def socket_emit_def split: if_splits)

lemma server_step_Connect_init:
  "server_step server_init (Connect c) = (\<lparr>conns = [c], users = [], chatMessages = []\<rparr>, [])"
  by (simp add: server_init_def)

subsection \<open>Broadcast order, recipients, ids and life cycle\<close>

lemma step_public_same:
  assumes inv: "server_inv s" and c1: "c1 \<in> set (conns s)" and c2: "c2 \<in> set (conns s)"
    and e1: "e \<noteq> Disconnect c1" and e2: "e \<noteq> Disconnect c2"
  shows "filter public_event (received c1 (snd (server_step s e))) =
         filter public_event (received c2 (snd (server_step s e)))"
proof -
  from inv have d: "distinct (conns s)" by (simp add: server_inv_def)
  show ?thesis
  proof (cases e)
    case (Recv c clk m)
    with d c1 c2 show ?thesis
      by (cases m) (auto simp: handler_defs Let_def chat_simps public_event_def)
  next
    case (Disconnect c)
    with d c1 c2 e1 e2 show ?thesis
      by (auto simp: on_disconnect_def Let_def chat_simps public_event_def distinct_removeAll)
  qed (simp add: received_def)
qed

text \<open>C23. Two connections that stay connected receive the same public events (everything but their private chat-history and the typing relays) in the same order.\<close>

theorem broadcast_order_consistent:
  assumes "server_inv s" and "c1 \<in> set (conns s)" and "c2 \<in> set (conns s)"
    and "Disconnect c1 \<notin> set evs" and "Disconnect c2 \<notin> set evs"
  shows "filter public_event (received c1 (snd (server_run s evs))) =
         filter public_event (received c2 (snd (server_run s evs)))"
  using assms
proof (induction evs arbitrary: s)
  case Nil
  then show ?case by (simp add: received_def)
next
  case (Cons e evs)
  let ?s1 = "fst (server_step s e)"
  have h: "filter public_event (received c1 (snd (server_step s e))) =
           filter public_event (received c2 (snd (server_step s e)))"
    using Cons.prems by (intro step_public_same) auto
  have "filter public_event (received c1 (snd (server_run ?s1 evs))) =
        filter public_event (received c2 (snd (server_run ?s1 evs)))"
    using Cons.prems
    by (intro Cons.IH server_step_inv server_step_keeps_observer) auto
  with h show ?case by (simp add: server_run_Cons_eq chat_simps)
qed

lemma server_step_recipients:
  assumes "(c, ev) \<in> set (snd (server_step s e))"
  shows "c \<in> set (conns (fst (server_step s e)))"
  using assms
  by (cases e) (auto simp: handler_defs Let_def io_emit_def socket_emit_def broadcast_emit_def
      split: if_splits client_msg.splits)

lemma server_step_history_private:
  assumes "(c, ChatHistory h) \<in> set (snd (server_step s e))"
  shows "\<exists>clk u. e = Recv c clk (Join u)"
  using assms
  by (cases e) (auto simp: handler_defs Let_def io_emit_def socket_emit_def broadcast_emit_def
      split: if_splits client_msg.splits)


lemma set_push_message: "set (push_message m xs) \<subseteq> insert m (set xs)"
  by (auto simp: push_message_def Let_def dest: in_set_tlD)

lemma unconnected_unregistered:
  "server_inv s \<Longrightarrow> named_users s \<Longrightarrow> c \<notin> set (conns s) \<Longrightarrow> users_get c (users s) = None"
  by (cases "users_get c (users s)") (auto dest: named_users_connected)

lemma server_step_phase:
  assumes inv: "server_inv s" and named: "named_users s"
  shows "phase_step (phase_of s c) (phase_of (fst (server_step s e)) c)"
proof (cases e)
  case (Connect c')
  show ?thesis
  proof (cases "c' = c \<and> c \<notin> set (conns s)")
    case True
    with inv named have "users_get c (users s) = None" by (simp add: unconnected_unregistered)
    with True Connect show ?thesis by (auto simp: phase_of_def intro: phase_step.intros)
  next
    case False
    with Connect show ?thesis by (auto simp: phase_of_def intro: phase_step.intros)
  qed
next
  case (Recv c' clk m)
  show ?thesis
  proof (cases "c' \<in> set (conns s)")
    case True
    with Recv show ?thesis
      by (cases m) (auto simp: phase_of_def handler_defs Let_def chat_simps intro: phase_step.intros)
  next
    case False
    with Recv show ?thesis by (simp add: phase_step.stay)
  qed
next
  case (Disconnect c')
  show ?thesis
  proof (cases "c' \<in> set (conns s)")
    case True
    with Disconnect show ?thesis
      by (auto simp: phase_of_def on_disconnect_def Let_def chat_simps intro: phase_step.intros)
  next
    case False
    with Disconnect show ?thesis by (simp add: phase_step.stay)
  qed
qed

subsection \<open>A socket that is not connected\<close>

lemma server_step_frame:
  assumes "c \<notin> set (conns s)" and "e \<noteq> Connect c"
  shows "c \<notin> set (conns (fst (server_step s e))) \<and>
    users_get c (users (fst (server_step s e))) = users_get c (users s)"
proof (cases e)
  case (Recv c' clk m)
  with assms show ?thesis
    by (cases m) (auto simp: handler_defs Let_def users_get_set)
next
  case (Disconnect c')
  with assms show ?thesis
    by (auto simp: on_disconnect_def Let_def users_get_delete)
qed (use assms in auto)

lemma server_run_frame:
  "c \<notin> set (conns s) \<Longrightarrow> Connect c \<notin> set tr \<Longrightarrow>
   c \<notin> set (conns (fst (server_run s tr))) \<and> users_get c (users (fst (server_run s tr))) = users_get c (users s)"
proof (induction tr arbitrary: s)
  case Nil
  then show ?case by simp
next
  case (Cons e tr)
  from Cons.prems have "e \<noteq> Connect c" by auto
  from server_step_frame [OF Cons.prems(1) this] Cons.prems(2) Cons.IH [of "fst (server_step s e)"]
  show ?case by (simp add: server_run_Cons_eq)
qed

subsection \<open>Authored messages and what a non-joining connection receives\<close>

lemma joined_senders_append:
  "joined_senders s (xs @ ys) = (joined_senders s xs \<and> joined_senders (fst (server_run s xs)) ys)"
  by (induction xs arbitrary: s) (auto simp: server_run_Cons_eq)

lemma server_step_chat_authored:
  assumes "list_all authored (chatMessages s)" and "joined_senders s [e]"
  shows "list_all authored (chatMessages (fst (server_step s e)))"
proof (cases e)
  case (Recv c clk m)
  show ?thesis
  proof (cases m)
    case (SendMessage body)
    with Recv assms show ?thesis
      by (auto simp: on_send_message_def Let_def authored_def list_all_iff
          dest!: set_push_message [THEN subsetD])
  qed (use Recv assms in \<open>auto simp: handler_defs Let_def\<close>)
next
  case (Disconnect c)
  with assms show ?thesis by (auto simp: on_disconnect_def Let_def)
qed (use assms in auto)

lemma server_step_plain:
  assumes inv: "server_inv s" and "joined_senders s [e]" and "\<not> joins c e"
  shows "list_all plain_event (received c (snd (server_step s e)))"
proof -
  from inv have d: "distinct (conns s)" by (simp add: server_inv_def)
  show ?thesis
  proof (cases e)
    case (Recv c' clk m)
    with assms d show ?thesis
      by (cases m) (auto simp: handler_defs Let_def chat_simps authored_def joins_def)
  next
    case (Disconnect c')
    with d show ?thesis
      by (auto simp: on_disconnect_def Let_def chat_simps distinct_removeAll)
  qed (simp add: received_def)
qed

lemma server_run_plain:
  assumes "server_inv s" and "list_all authored (chatMessages s)" and "joined_senders s evs"
    and "list_all (\<lambda>e. \<not> joins c e) evs"
  shows "list_all plain_event (received c (snd (server_run s evs)))"
  using assms
proof (induction evs arbitrary: s)
  case Nil
  then show ?case by (simp add: received_def)
next
  case (Cons e evs)
  have "list_all plain_event (received c (snd (server_step s e)))"
    using Cons.prems by (intro server_step_plain) auto
  moreover have "list_all plain_event (received c (snd (server_run (fst (server_step s e)) evs)))"
    using Cons.prems
    by (intro Cons.IH server_step_inv server_step_chat_authored) auto
  ultimately show ?case by (simp add: server_run_Cons_eq chat_simps)
qed

lemma server_run_chat_authored:
  "list_all authored (chatMessages s) \<Longrightarrow> joined_senders s evs \<Longrightarrow>
   list_all authored (chatMessages (fst (server_run s evs)))"
proof (induction evs arbitrary: s)
  case Nil
  then show ?case by simp
next
  case (Cons e evs)
  from Cons.prems(2) have j1: "joined_senders s [e]" and j2: "joined_senders (fst (server_step s e)) evs"
    by simp_all
  from Cons.prems(1) j1 have "list_all authored (chatMessages (fst (server_step s e)))"
    by (rule server_step_chat_authored)
  with j2 show ?case by (simp add: server_run_Cons_eq Cons.IH)
qed

lemma join_received:
  assumes "server_inv s" and "c \<in> set (conns s)"
  shows "received c (snd (server_step s (Recv c clk (Join u)))) =
    [UserJoined u, ChatHistory (chatMessages s),
     UpdateOnlineCount (users_size (users_set c u (users s)))]"
  using assms by (simp add: on_join_def server_inv_def chat_simps)

subsection \<open>Properties\<close>

text \<open>C1. Whatever the trace of connections and events, the server's history buffer never holds more than MAX_MESSAGES messages.\<close>

theorem chat_history_bounded:
  "length (chatMessages (fst (server_run server_init evs))) \<le> MAX_MESSAGES"
  using server_run_inv [OF server_inv_init, of evs] by (simp add: server_inv_def)

text \<open>C3. A client that joins receives as chat-history exactly the last MAX_MESSAGES messages that an observer connected since server start has received as new-message events.\<close>

theorem join_snapshot_matches_observer:
  assumes "Disconnect c \<notin> set evs"
    and "(j, ChatHistory h) \<in> set (snd (server_step (fst (server_run server_init (Connect c # evs))) (Recv j clk (Join u))))"
  shows "h = last_n MAX_MESSAGES (new_messages (received c (snd (server_run server_init (Connect c # evs)))))"
proof -
  let ?s0 = "\<lparr>conns = [c], users = [], chatMessages = []\<rparr>"
  have inv0: "server_inv ?s0" by (simp add: server_inv_def users_wf_def)
  have "chatMessages (fst (server_run ?s0 evs)) =
      last_n MAX_MESSAGES ([] @ new_messages (received c (snd (server_run ?s0 evs))))"
    using server_run_history [OF inv0 _ assms(1)] by simp
  moreover have run: "server_run server_init (Connect c # evs) =
      (fst (server_run ?s0 evs), snd (server_run ?s0 evs))"
    by (simp only: server_run_Cons_eq server_step_Connect_init) simp
  moreover from assms(2) have "h = chatMessages (fst (server_run server_init (Connect c # evs)))"
    by (rule join_history_payload)
  ultimately show ?thesis by simp
qed

text \<open>C4. A typing signal is relayed to every other connected socket exactly once and never back to its sender.\<close>

theorem typing_not_echoed:
  assumes "server_inv s" and "c \<in> set (conns s)"
  shows "received c (snd (server_step s (Recv c clk (Typing b)))) = [] \<and>
    (\<forall>c' \<in> set (conns s). c' \<noteq> c \<longrightarrow>
       received c' (snd (server_step s (Recv c clk (Typing b)))) =
         [UserTyping (js_of_option (users_get c (users s))) b])"
  using assms by (simp add: on_typing_def server_inv_def chat_simps)

text \<open>A participant who joins as Alice and then disconnects is announced to an observer as joined and then left, with the count going up and back down.\<close>

theorem join_leave_scenario:
  "received 2 (snd (server_run server_init
     [Connect 2, Connect 1, Recv 1 (5, 5) (Join (JStr ''Alice'')), Disconnect 1])) =
   [UserJoined (JStr ''Alice''), UpdateOnlineCount 1, UserLeft (JStr ''Alice''), UpdateOnlineCount 0]"
  by (simp add: server_run.simps server_eval)

text \<open>C6. A join from a connected socket registers the name, broadcasts user-joined, sends the history to the joiner only, then broadcasts the new count.\<close>

theorem join_outputs:
  assumes "c \<in> set (conns s)"
  shows "server_step s (Recv c clk (Join u)) =
    (s\<lparr>users := users_set c u (users s)\<rparr>,
     io_emit (conns s) (UserJoined u) @ [(c, ChatHistory (chatMessages s))] @
     io_emit (conns s) (UpdateOnlineCount
       (if users_get c (users s) = None then Suc (users_size (users s)) else users_size (users s))))"
  using assms by (simp add: on_join_def socket_emit_def users_size_set)

text \<open>C7. When a joined participant disconnects, it is removed from the registry first, and the remaining connections get user-left followed by the decremented count.\<close>

theorem disconnect_outputs:
  assumes "server_inv s" and "c \<in> set (conns s)" and "users_get c (users s) = Some u" and "js_truthy u"
  shows "server_step s (Disconnect c) =
    (s\<lparr>conns := removeAll c (conns s), users := users_delete c (users s)\<rparr>,
     io_emit (removeAll c (conns s)) (UserLeft u) @
     io_emit (removeAll c (conns s)) (UpdateOnlineCount (users_size (users s) - 1)))"
proof -
  from assms(1,3) have "Suc (users_size (users_delete c (users s))) = users_size (users s)"
    by (intro users_size_delete) (simp_all add: server_inv_def)
  then have "users_size (users_delete c (users s)) = users_size (users s) - 1" by arith
  with assms show ?thesis by (simp add: on_disconnect_def)
qed

text \<open>C8. As long as nobody joins with the empty name, the online count the server reports equals the number of connected sockets that have joined.\<close>

theorem online_count_exact:
  assumes "list_all join_named evs"
  shows "users_size (users (fst (server_run server_init evs))) =
    card {c \<in> set (conns (fst (server_run server_init evs))). users_get c (users (fst (server_run server_init evs))) \<noteq> None}"
proof -
  let ?s = "fst (server_run server_init evs)"
  have inv: "server_inv ?s" by (rule server_run_inv [OF server_inv_init])
  have named: "named_users ?s"
    using assms by (intro server_run_named_users) (simp_all add: named_users_def server_init_def)
  have "{c. users_get c (users ?s) \<noteq> None} = {c \<in> set (conns ?s). users_get c (users ?s) \<noteq> None}"
    using named_users_connected [OF inv named] by auto
  moreover have "users_size (users ?s) = card {c. users_get c (users ?s) \<noteq> None}"
    using inv by (intro users_size_card) (simp add: server_inv_def)
  ultimately show ?thesis by simp
qed

text \<open>C9. A join with a falsy name (the empty string) is never undone: the disconnect of that socket announces nothing and leaves its registry entry, which then survives every later event as long as the same socket id does not connect again; from then on users.size, the count every later join and departure broadcasts, exceeds the number of connected sockets that have joined.\<close>

theorem empty_name_count_leak:
  assumes inv: "server_inv s" and c: "c \<in> set (conns s)" and u: "\<not> js_truthy u"
    and tr: "Connect c \<notin> set tr"
  shows "snd (server_step (fst (server_step s (Recv c clk (Join u)))) (Disconnect c)) = [] \<and>
    (let S = fst (server_run s (Recv c clk (Join u) # Disconnect c # tr))
     in users_get c (users S) = Some u \<and> c \<notin> set (conns S) \<and>
        card {c' \<in> set (conns S). users_get c' (users S) \<noteq> None} < users_size (users S))"
proof -
  let ?s1 = "fst (server_step s (Recv c clk (Join u)))"
  let ?s2 = "fst (server_step ?s1 (Disconnect c))"
  let ?S = "fst (server_run s (Recv c clk (Join u) # Disconnect c # tr))"
  have d: "server_step ?s1 (Disconnect c) = (?s1\<lparr>conns := removeAll c (conns s)\<rparr>, [])"
    using c u by (simp add: on_join_def on_disconnect_def Let_def users_get_set)
  have s2: "?s2 = s\<lparr>users := users_set c u (users s), conns := removeAll c (conns s)\<rparr>"
    using c u by (simp add: on_join_def on_disconnect_def Let_def users_get_set)
  have g2: "users_get c (users ?s2) = Some u" "c \<notin> set (conns ?s2)"
    unfolding s2 by (simp_all add: users_get_set)
  have S: "?S = fst (server_run ?s2 tr)" by (simp only: server_run_Cons_eq fst_conv)
  from server_run_frame [OF g2(2) tr] g2(1)
  have gS: "users_get c (users ?S) = Some u" "c \<notin> set (conns ?S)" by (simp_all add: S)
  have "server_inv ?S" using inv by (rule server_run_inv)
  then have wf: "users_wf (users ?S)" by (simp add: server_inv_def)
  have fin: "finite {c'. users_get c' (users ?S) \<noteq> None}"
    using finite_dom_map_of [of "users ?S"] by (simp add: users_get_def dom_def)
  have "{c' \<in> set (conns ?S). users_get c' (users ?S) \<noteq> None} \<subset> {c'. users_get c' (users ?S) \<noteq> None}"
    using gS by blast
  then have "card {c' \<in> set (conns ?S). users_get c' (users ?S) \<noteq> None} < users_size (users ?S)"
    using psubset_card_mono [OF fin] users_size_card [OF wf] by simp
  with d gS show ?thesis by (simp only: Let_def snd_conv) simp
qed

text \<open>C10. A send-message from a connected socket that never joined is not dropped: it is stored with an undefined author and broadcast to every connection.\<close>

theorem send_before_join_broadcast:
  assumes "c \<in> set (conns s)" and "users_get c (users s) = None"
  shows "server_step s (Recv c clk (SendMessage m)) =
    (s\<lparr>chatMessages := push_message
        \<lparr>msg_id = fst clk, msg_username = JUndefined, msg_text = m, msg_timestamp = snd clk\<rparr> (chatMessages s)\<rparr>,
     io_emit (conns s)
       (NewMessage \<lparr>msg_id = fst clk, msg_username = JUndefined, msg_text = m, msg_timestamp = snd clk\<rparr>))"
  using assms by (simp add: on_send_message_def Let_def)

text \<open>C11. A second join on the same connection silently replaces the registered name, keeps the count, and announces the new name again instead of rejecting the join.\<close>

theorem rejoin_overwrites_name:
  assumes "server_inv s" and "c \<in> set (conns s)" and "users_get c (users s) = Some u"
  shows "users_get c (users (fst (server_step s (Recv c clk (Join v))))) = Some v \<and>
    users_size (users (fst (server_step s (Recv c clk (Join v))))) = users_size (users s) \<and>
    received c (snd (server_step s (Recv c clk (Join v)))) =
      [UserJoined v, ChatHistory (chatMessages s), UpdateOnlineCount (users_size (users s))]"
  using assms by (simp add: on_join_def server_inv_def users_size_set chat_simps)

text \<open>C12. Every reachable server state satisfies the invariant: distinct connections, a well-formed registry, a bounded history, and every user registered under a non-empty name is connected.\<close>

theorem reachable_server_inv:
  "server_reachable s \<Longrightarrow> server_inv s"
proof (induction rule: server_reachable.induct)
  case init
  show ?case by (rule server_inv_init)
next
  case (step s e)
  from step.IH show ?case by (rule server_step_inv)
qed

text \<open>A disconnect of a socket that never joined only closes the connection: the registry and history are unchanged and nothing is announced.\<close>

theorem disconnect_before_join_silent:
  assumes "c \<in> set (conns s)" and "users_get c (users s) = None"
  shows "server_step s (Disconnect c) = (s\<lparr>conns := removeAll c (conns s)\<rparr>, [])"
  using assms by (simp add: on_disconnect_def)

text \<open>C5. Rejoin racing the close of the old socket: when a participant registered on one socket reconnects on a new socket and joins with the same name before the server has handled the close of the old one, every other connection sees the name join (count up by one) and then leave (count back down), although the participant is still connected and registered under that name on the new socket.\<close>

theorem stale_disconnect_after_rejoin:
  assumes inv: "server_inv s" and old: "c_old \<in> set (conns s)" and u: "users_get c_old (users s) = Some u"
    and tu: "js_truthy u" and new: "c_new \<notin> set (conns s)" and free: "users_get c_new (users s) = None"
    and o: "obs \<in> set (conns s)" "obs \<noteq> c_old"
  shows "received obs (snd (server_run s [Connect c_new, Recv c_new clk (Join u), Disconnect c_old])) =
      [UserJoined u, UpdateOnlineCount (Suc (users_size (users s))),
       UserLeft u, UpdateOnlineCount (users_size (users s))] \<and>
    c_new \<in> set (conns (fst (server_run s [Connect c_new, Recv c_new clk (Join u), Disconnect c_old]))) \<and>
    users_get c_new (users (fst (server_run s [Connect c_new, Recv c_new clk (Join u), Disconnect c_old]))) = Some u"
proof -
  have d: "distinct (conns s)" and wf: "users_wf (users s)" using inv by (simp_all add: server_inv_def)
  have ne: "c_new \<noteq> c_old" "obs \<noteq> c_new" using old new o by auto
  let ?us1 = "users_set c_new u (users s)"
  have wf1: "users_wf ?us1" using wf by (rule users_wf_set)
  have g1: "users_get c_old ?us1 = Some u" using u ne by (simp add: users_get_set)
  have sz1: "users_size ?us1 = Suc (users_size (users s))" using free by (simp add: users_size_set)
  have sz2: "Suc (users_size (users_delete c_old ?us1)) = users_size ?us1"
    using wf1 g1 by (intro users_size_delete) simp_all
  show ?thesis
    using d ne old new o tu g1 sz1 sz2
    by (simp add: server_run.simps handler_defs Let_def chat_simps distinct_removeAll)
qed

text \<open>C22. No cross-talk: every delivery of a step goes to a socket that is connected after the step, and a chat-history goes only to the socket whose join caused it.\<close>

theorem deliveries_only_connected:
  assumes "(c, ev) \<in> set (snd (server_step s e))"
  shows "c \<in> set (conns (fst (server_step s e))) \<and>
    (\<forall>h. ev = ChatHistory h \<longrightarrow> (\<exists>clk u. e = Recv c clk (Join u)))"
  using server_step_recipients [OF assms] server_step_history_private assms by blast

text \<open>C24. On traces without empty-name joins, each event moves a connection only along the life cycle of the spec: Connected to Joined, Connected or Joined to Disconnected, or a closed id back to Connected; a joined connection never falls back to Connected.\<close>

theorem phase_transitions_allowed:
  assumes "list_all join_named evs"
  shows "phase_step (phase_of (fst (server_run server_init evs)) c)
                    (phase_of (fst (server_step (fst (server_run server_init evs)) e)) c)"
proof -
  have "server_inv (fst (server_run server_init evs))" by (rule server_run_inv [OF server_inv_init])
  moreover have "named_users (fst (server_run server_init evs))"
    using assms by (intro server_run_named_users) (simp_all add: named_users_def server_init_def)
  ultimately show ?thesis by (rule server_step_phase)
qed

subsection \<open>Witnesses\<close>

theorem empty_name_count_leak_witness:
  "server_inv \<lparr>conns = [1, 2], users = [(2, JStr ''Bob'')], chatMessages = []\<rparr> \<and>
   (1::conn) \<in> set [1, 2] \<and> \<not> js_truthy (JStr '''') \<and>
   Connect 1 \<notin> set [Connect 3, Recv 3 (7, 7) (Join (JStr ''Cy''))] \<and>
   users_get 1 (users (fst (server_run \<lparr>conns = [1, 2], users = [(2, JStr ''Bob'')], chatMessages = []\<rparr>
     [Recv 1 (5, 5) (Join (JStr '''')), Disconnect 1, Connect 3, Recv 3 (7, 7) (Join (JStr ''Cy''))]))) = Some (JStr '''') \<and>
   card {c' \<in> set (conns (fst (server_run \<lparr>conns = [1, 2], users = [(2, JStr ''Bob'')], chatMessages = []\<rparr>
     [Recv 1 (5, 5) (Join (JStr '''')), Disconnect 1, Connect 3, Recv 3 (7, 7) (Join (JStr ''Cy''))]))).
       users_get c' (users (fst (server_run \<lparr>conns = [1, 2], users = [(2, JStr ''Bob'')], chatMessages = []\<rparr>
     [Recv 1 (5, 5) (Join (JStr '''')), Disconnect 1, Connect 3, Recv 3 (7, 7) (Join (JStr ''Cy''))]))) \<noteq> None} <
   users_size (users (fst (server_run \<lparr>conns = [1, 2], users = [(2, JStr ''Bob'')], chatMessages = []\<rparr>
     [Recv 1 (5, 5) (Join (JStr '''')), Disconnect 1, Connect 3, Recv 3 (7, 7) (Join (JStr ''Cy''))])))"
proof -
  let ?s = "\<lparr>conns = [1, 2], users = [(2, JStr ''Bob'')], chatMessages = []\<rparr>"
  have h1: "server_inv ?s" by (simp add: server_inv_def users_wf_def)
  have h2: "(1::conn) \<in> set (conns ?s)" by simp
  have h3: "\<not> js_truthy (JStr '''')" by simp
  have h4: "Connect 1 \<notin> set [Connect 3, Recv 3 (7, 7) (Join (JStr ''Cy''))]" by simp
  show ?thesis using empty_name_count_leak [OF h1 h2 h3 h4, of "(5, 5)"] h1 h3 h4 by (simp add: Let_def)
qed

theorem join_snapshot_matches_observer_witness:
  "Disconnect 1 \<notin> set [Connect 2, Recv 1 (3, 3) (Join (JStr ''Ann'')), Recv 1 (4, 4) (SendMessage (JStr ''hi''))] \<and>
   (2, ChatHistory [\<lparr>msg_id = 4, msg_username = JStr ''Ann'', msg_text = JStr ''hi'', msg_timestamp = 4\<rparr>])
     \<in> set (snd (server_step (fst (server_run server_init
          [Connect 1, Connect 2, Recv 1 (3, 3) (Join (JStr ''Ann'')), Recv 1 (4, 4) (SendMessage (JStr ''hi''))]))
          (Recv 2 (5, 5) (Join (JStr ''Bo''))))) \<and>
   [\<lparr>msg_id = 4, msg_username = JStr ''Ann'', msg_text = JStr ''hi'', msg_timestamp = 4\<rparr>] =
     last_n MAX_MESSAGES (new_messages (received 1 (snd (server_run server_init
          [Connect 1, Connect 2, Recv 1 (3, 3) (Join (JStr ''Ann'')), Recv 1 (4, 4) (SendMessage (JStr ''hi''))]))))"
proof -
  have h1: "Disconnect 1 \<notin> set [Connect 2, Recv 1 (3, 3) (Join (JStr ''Ann'')), Recv 1 (4, 4) (SendMessage (JStr ''hi''))]"
    by simp
  have h2: "(2, ChatHistory [\<lparr>msg_id = 4, msg_username = JStr ''Ann'', msg_text = JStr ''hi'', msg_timestamp = 4\<rparr>])
     \<in> set (snd (server_step (fst (server_run server_init
          [Connect 1, Connect 2, Recv 1 (3, 3) (Join (JStr ''Ann'')), Recv 1 (4, 4) (SendMessage (JStr ''hi''))]))
          (Recv 2 (5, 5) (Join (JStr ''Bo'')))))"
    by (simp add: server_run.simps server_eval)
  show ?thesis using join_snapshot_matches_observer [OF h1 h2] h1 h2 by simp
qed

theorem typing_not_echoed_witness:
  "server_inv \<lparr>conns = [1, 2], users = [(1, JStr ''Ann'')], chatMessages = []\<rparr> \<and> (1::conn) \<in> set [1, 2] \<and>
   received 1 (snd (server_step \<lparr>conns = [1, 2], users = [(1, JStr ''Ann'')], chatMessages = []\<rparr>
      (Recv 1 (0, 0) (Typing (JBool True))))) = [] \<and>
   received 2 (snd (server_step \<lparr>conns = [1, 2], users = [(1, JStr ''Ann'')], chatMessages = []\<rparr>
      (Recv 1 (0, 0) (Typing (JBool True))))) = [UserTyping (JStr ''Ann'') (JBool True)]"
proof -
  have h1: "server_inv \<lparr>conns = [1, 2], users = [(1, JStr ''Ann'')], chatMessages = []\<rparr>"
    by (simp add: server_inv_def users_wf_def)
  have h2: "(1::conn) \<in> set (conns \<lparr>conns = [1, 2], users = [(1, JStr ''Ann'')], chatMessages = []\<rparr>)"
    by simp
  show ?thesis using typing_not_echoed [OF h1 h2, of "(0, 0)" "JBool True"] h1
    by (simp add: users_get_def)
qed

theorem join_outputs_witness:
  "(2::conn) \<in> set [1, 2] \<and>
   server_step \<lparr>conns = [1, 2], users = [(1, JStr ''Ann'')], chatMessages = []\<rparr> (Recv 2 (0, 0) (Join (JStr ''Bo''))) =
     (\<lparr>conns = [1, 2], users = [(1, JStr ''Ann''), (2, JStr ''Bo'')], chatMessages = []\<rparr>,
      [(1, UserJoined (JStr ''Bo'')), (2, UserJoined (JStr ''Bo'')), (2, ChatHistory []),
       (1, UpdateOnlineCount 2), (2, UpdateOnlineCount 2)])"
proof -
  have h: "(2::conn) \<in> set (conns \<lparr>conns = [1, 2], users = [(1, JStr ''Ann'')], chatMessages = []\<rparr>)"
    by simp
  show ?thesis using join_outputs [OF h, of "(0, 0)" "JStr ''Bo''"]
    by (simp add: io_emit_def users_set_def users_get_def users_size_def)
qed

theorem disconnect_outputs_witness:
  "server_inv \<lparr>conns = [1, 2], users = [(1, JStr ''Ann'')], chatMessages = []\<rparr> \<and>
   server_step \<lparr>conns = [1, 2], users = [(1, JStr ''Ann'')], chatMessages = []\<rparr> (Disconnect 1) =
     (\<lparr>conns = [2], users = [], chatMessages = []\<rparr>, [(2, UserLeft (JStr ''Ann'')), (2, UpdateOnlineCount 0)])"
proof -
  let ?s = "\<lparr>conns = [1, 2], users = [(1, JStr ''Ann'')], chatMessages = []\<rparr>"
  have h1: "server_inv ?s" by (simp add: server_inv_def users_wf_def)
  have h2: "(1::conn) \<in> set (conns ?s)" by simp
  have h3: "users_get 1 (users ?s) = Some (JStr ''Ann'')" by (simp add: users_get_def)
  have h4: "js_truthy (JStr ''Ann'')" by simp
  show ?thesis using disconnect_outputs [OF h1 h2 h3 h4] h1
    by (simp add: io_emit_def users_delete_def users_size_def)
qed

theorem online_count_exact_witness:
  "list_all join_named [Connect 1, Connect 2, Recv 1 (0, 0) (Join (JStr ''Ann''))] \<and>
   users_size (users (fst (server_run server_init [Connect 1, Connect 2, Recv 1 (0, 0) (Join (JStr ''Ann''))]))) = 1"
proof -
  have h: "list_all join_named [Connect 1, Connect 2, Recv 1 (0, 0) (Join (JStr ''Ann''))]"
    by (simp add: join_named_def)
  have "card {c \<in> set [1, 2::conn]. users_get c [(1, JStr ''Ann'')] \<noteq> None} = 1"
  proof -
    have "{c \<in> set [1, 2::conn]. users_get c [(1, JStr ''Ann'')] \<noteq> None} = {1}"
      by (auto simp: users_get_def)
    then show ?thesis by simp
  qed
  then show ?thesis using online_count_exact [OF h] h
    by (simp add: server_run.simps server_eval)
qed

theorem send_before_join_broadcast_witness:
  "(1::conn) \<in> set [1] \<and> users_get 1 [] = None \<and>
   server_step \<lparr>conns = [1], users = [], chatMessages = []\<rparr> (Recv 1 (8, 8) (SendMessage (JStr ''x''))) =
     (\<lparr>conns = [1], users = [],
       chatMessages = [\<lparr>msg_id = 8, msg_username = JUndefined, msg_text = JStr ''x'', msg_timestamp = 8\<rparr>]\<rparr>,
      [(1, NewMessage \<lparr>msg_id = 8, msg_username = JUndefined, msg_text = JStr ''x'', msg_timestamp = 8\<rparr>)])"
proof -
  let ?s = "\<lparr>conns = [1], users = [], chatMessages = []\<rparr>"
  have h1: "(1::conn) \<in> set (conns ?s)" by simp
  have h2: "users_get 1 (users ?s) = None" by (simp add: users_get_def)
  show ?thesis using send_before_join_broadcast [OF h1 h2, of "(8, 8)" "JStr ''x''"] h2
    by (simp add: push_message_def MAX_MESSAGES_def io_emit_def)
qed

theorem rejoin_overwrites_name_witness:
  "server_inv \<lparr>conns = [1], users = [(1, JStr ''Ann'')], chatMessages = []\<rparr> \<and>
   users_get 1 (users (fst (server_step \<lparr>conns = [1], users = [(1, JStr ''Ann'')], chatMessages = []\<rparr>
      (Recv 1 (0, 0) (Join (JStr ''Eve'')))))) = Some (JStr ''Eve'') \<and>
   received 1 (snd (server_step \<lparr>conns = [1], users = [(1, JStr ''Ann'')], chatMessages = []\<rparr>
      (Recv 1 (0, 0) (Join (JStr ''Eve''))))) = [UserJoined (JStr ''Eve''), ChatHistory [], UpdateOnlineCount 1]"
proof -
  let ?s = "\<lparr>conns = [1], users = [(1, JStr ''Ann'')], chatMessages = []\<rparr>"
  have h1: "server_inv ?s" by (simp add: server_inv_def users_wf_def)
  have h2: "(1::conn) \<in> set (conns ?s)" by simp
  have h3: "users_get 1 (users ?s) = Some (JStr ''Ann'')" by (simp add: users_get_def)
  show ?thesis using rejoin_overwrites_name [OF h1 h2 h3, of "(0, 0)" "JStr ''Eve''"] h1
    by (simp add: users_size_def)
qed

theorem reachable_server_inv_witness:
  "server_reachable (fst (server_step server_init (Connect 1))) \<and>
   server_inv (fst (server_step server_init (Connect 1)))"
proof -
  have h: "server_reachable (fst (server_step server_init (Connect 1)))"
    by (rule server_reachable.step [OF server_reachable.init])
  show ?thesis using reachable_server_inv [OF h] h by simp
qed

theorem disconnect_before_join_silent_witness:
  "(1::conn) \<in> set [1, 2] \<and> users_get 1 [(2, JStr ''Bo'')] = None \<and>
   server_step \<lparr>conns = [1, 2], users = [(2, JStr ''Bo'')], chatMessages = []\<rparr> (Disconnect 1) =
     (\<lparr>conns = [2], users = [(2, JStr ''Bo'')], chatMessages = []\<rparr>, [])"
proof -
  let ?s = "\<lparr>conns = [1, 2], users = [(2, JStr ''Bo'')], chatMessages = []\<rparr>"
  have h1: "(1::conn) \<in> set (conns ?s)" by simp
  have h2: "users_get 1 (users ?s) = None" by (simp add: users_get_def)
  show ?thesis using disconnect_before_join_silent [OF h1 h2] h2 by simp
qed

theorem deliveries_only_connected_witness:
  "(2, ChatHistory []) \<in> set (snd (server_step \<lparr>conns = [1, 2], users = [(1, JStr ''Ann'')], chatMessages = []\<rparr>
      (Recv 2 (0, 0) (Join (JStr ''Bo''))))) \<and>
   (2::conn) \<in> set (conns (fst (server_step \<lparr>conns = [1, 2], users = [(1, JStr ''Ann'')], chatMessages = []\<rparr>
      (Recv 2 (0, 0) (Join (JStr ''Bo''))))))"
proof -
  have h: "(2, ChatHistory []) \<in> set (snd (server_step \<lparr>conns = [1, 2], users = [(1, JStr ''Ann'')], chatMessages = []\<rparr>
      (Recv 2 (0, 0) (Join (JStr ''Bo'')))))"
    by (simp add: server_eval)
  show ?thesis using deliveries_only_connected [OF h] h by simp
qed

theorem broadcast_order_consistent_witness:
  "server_inv \<lparr>conns = [1, 2], users = [], chatMessages = []\<rparr> \<and>
   Disconnect 1 \<notin> set [Recv 1 (1, 1) (Join (JStr ''A'')), Recv 2 (2, 2) (Typing (JBool True)), Recv 2 (3, 3) (Join (JStr ''B''))] \<and>
   Disconnect 2 \<notin> set [Recv 1 (1, 1) (Join (JStr ''A'')), Recv 2 (2, 2) (Typing (JBool True)), Recv 2 (3, 3) (Join (JStr ''B''))] \<and>
   filter public_event (received 1 (snd (server_run \<lparr>conns = [1, 2], users = [], chatMessages = []\<rparr>
     [Recv 1 (1, 1) (Join (JStr ''A'')), Recv 2 (2, 2) (Typing (JBool True)), Recv 2 (3, 3) (Join (JStr ''B''))]))) =
   [UserJoined (JStr ''A''), UpdateOnlineCount 1, UserJoined (JStr ''B''), UpdateOnlineCount 2]"
proof -
  let ?s = "\<lparr>conns = [1, 2], users = [], chatMessages = []\<rparr>"
  let ?evs = "[Recv 1 (1, 1) (Join (JStr ''A'')), Recv 2 (2, 2) (Typing (JBool True)), Recv 2 (3, 3) (Join (JStr ''B''))]"
  have h1: "server_inv ?s" by (simp add: server_inv_def users_wf_def)
  have h2: "(1::conn) \<in> set (conns ?s)" and h3: "(2::conn) \<in> set (conns ?s)" by simp_all
  have h4: "Disconnect 1 \<notin> set ?evs" and h5: "Disconnect 2 \<notin> set ?evs" by simp_all
  have "filter public_event (received 2 (snd (server_run ?s ?evs))) =
      [UserJoined (JStr ''A''), UpdateOnlineCount 1, UserJoined (JStr ''B''), UpdateOnlineCount 2]"
    by (simp add: server_run.simps server_eval public_event_def)
  with broadcast_order_consistent [OF h1 h2 h3 h4 h5] h1 h4 h5 show ?thesis by simp
qed

theorem phase_transitions_allowed_witness:
  "list_all join_named [Connect 1] \<and>
   phase_step (phase_of (fst (server_run server_init [Connect 1])) 1)
              (phase_of (fst (server_step (fst (server_run server_init [Connect 1])) (Recv 1 (0, 0) (Join (JStr ''A''))))) 1) \<and>
   phase_of (fst (server_run server_init [Connect 1])) 1 = Connected"
proof -
  have h: "list_all join_named [Connect 1]" by (simp add: join_named_def)
  have "phase_of (fst (server_run server_init [Connect 1])) 1 = Connected"
    by (simp add: server_run.simps server_eval phase_of_def)
  with phase_transitions_allowed [OF h, of 1 "Recv 1 (0, 0) (Join (JStr ''A''))"] h show ?thesis by simp
qed

theorem stale_disconnect_after_rejoin_witness:
  "server_inv \<lparr>conns = [1, 2], users = [(1, JStr ''Bo''), (2, JStr ''Ann'')], chatMessages = []\<rparr> \<and>
   (1::conn) \<in> set [1, 2] \<and> users_get 1 [(1, JStr ''Bo''), (2, JStr ''Ann'')] = Some (JStr ''Bo'') \<and>
   js_truthy (JStr ''Bo'') \<and> (3::conn) \<notin> set [1, 2] \<and> users_get 3 [(1, JStr ''Bo''), (2, JStr ''Ann'')] = None \<and>
   received 2 (snd (server_run \<lparr>conns = [1, 2], users = [(1, JStr ''Bo''), (2, JStr ''Ann'')], chatMessages = []\<rparr>
     [Connect 3, Recv 3 (9, 9) (Join (JStr ''Bo'')), Disconnect 1])) =
   [UserJoined (JStr ''Bo''), UpdateOnlineCount 3, UserLeft (JStr ''Bo''), UpdateOnlineCount 2]"
proof -
  let ?s = "\<lparr>conns = [1, 2], users = [(1, JStr ''Bo''), (2, JStr ''Ann'')], chatMessages = []\<rparr>"
  have h1: "server_inv ?s" by (simp add: server_inv_def users_wf_def)
  have h2: "(1::conn) \<in> set (conns ?s)" by simp
  have h3: "users_get 1 (users ?s) = Some (JStr ''Bo'')" by (simp add: users_get_def)
  have h4: "js_truthy (JStr ''Bo'')" by simp
  have h5: "(3::conn) \<notin> set (conns ?s)" by simp
  have h6: "users_get 3 (users ?s) = None" by (simp add: users_get_def)
  have h7: "(2::conn) \<in> set (conns ?s)" "(2::conn) \<noteq> 1" by simp_all
  show ?thesis using stale_disconnect_after_rejoin [OF h1 h2 h3 h4 h5 h6 h7, of "(9, 9)"] h1 h3 h6
    by (simp add: users_size_def)
qed

end
