(* ===== verification/Network.thy ===== *)
theory Network
  imports Server
begin

text \<open>
  The server together with the transport that carries its deliveries. The spec
  (sections 1, 5 and 7) assumes per connection reliable, ordered, at-most-once
  delivery. A failed link loses what was not yet delivered; the failure is isolated to
  its recipient, and nothing is redelivered. Here the transport is a step relation
  beside the server. \<open>issued\<close> is every delivery the server has issued, \<open>got c\<close> is what
  the socket of \<open>c\<close> has handed to the client's listeners, and \<open>broken\<close> holds the links
  that failed. The property of the server is the bound on the fan-out of one step. The
  other lemmas are facts of the transport model itself, whatever the handlers do: every
  client has received a prefix of what the server addressed to it on a real trace, and
  an intact link can always be brought up to date whatever the other links do.
\<close>

record net =
  issued :: "delivery list"
  got :: "conn \<Rightarrow> server_event list"
  broken :: "conn set"

definition net_init :: net where
  "net_init = \<lparr>issued = [], got = (\<lambda>c. []), broken = {}\<rparr>"

text \<open>The next event of the connection's queue: what is addressed to it and not yet handed over.\<close>

definition next_event :: "net \<Rightarrow> conn \<Rightarrow> server_event option" where
  "next_event n c =
     (let q = received c (issued n)
      in if length (got n c) < length q then Some (q ! length (got n c)) else None)"

inductive net_step :: "server \<times> net \<Rightarrow> server \<times> net \<Rightarrow> bool" where
  serve: "net_step (s, n) (fst (server_step s e), n\<lparr>issued := issued n @ snd (server_step s e)\<rparr>)"
| deliver: "c \<notin> broken n \<Longrightarrow> next_event n c = Some ev \<Longrightarrow>
    net_step (s, n) (s, n\<lparr>got := (got n)(c := got n c @ [ev])\<rparr>)"
| break: "net_step (s, n) (s, n\<lparr>broken := insert c (broken n)\<rparr>)"

inductive net_reachable :: "server \<times> net \<Rightarrow> bool" where
  init: "net_reachable (server_init, net_init)"
| step: "net_reachable sn \<Longrightarrow> net_step sn sn' \<Longrightarrow> net_reachable sn'"

subsection \<open>Lemmas\<close>

lemma server_run_snoc:
  "server_run s (es @ [e]) =
     (fst (server_step (fst (server_run s es)) e),
      snd (server_run s es) @ snd (server_step (fst (server_run s es)) e))"
  by (induction es arbitrary: s) (simp_all add: server_run_Cons_eq)

lemma prefix_snoc_nth:
  assumes "prefix xs ys" and "length xs < length ys"
  shows "prefix (xs @ [ys ! length xs]) ys"
proof -
  from assms(1) obtain zs where ys: "ys = xs @ zs" by (auto simp: prefix_def)
  with assms(2) obtain z zs' where "zs = z # zs'" by (cases zs) auto
  with ys show ?thesis by simp
qed

lemma next_event_Some:
  "next_event n c = Some ev \<Longrightarrow>
   length (got n c) < length (received c (issued n)) \<and> ev = received c (issued n) ! length (got n c)"
  by (simp add: next_event_def Let_def split: if_splits)

lemma net_step_trace:
  assumes "net_step (s, n) (s', n')"
    and "server_run server_init tr = (s, issued n)" and "\<forall>c. prefix (got n c) (received c (issued n))"
  shows "\<exists>tr'. server_run server_init tr' = (s', issued n') \<and> (\<forall>c. prefix (got n' c) (received c (issued n')))"
  using assms(1)
proof (cases rule: net_step.cases)
  case (serve e)
  then have st: "s' = fst (server_step s e)" "n' = n\<lparr>issued := issued n @ snd (server_step s e)\<rparr>"
    by simp_all
  have "server_run server_init (tr @ [e]) = (s', issued n')"
    using st assms(2) by (simp add: server_run_snoc)
  moreover have "\<forall>c. prefix (got n' c) (received c (issued n'))"
    using st assms(3) by (auto simp: received_append intro: prefix_prefix)
  ultimately show ?thesis by blast
next
  case (deliver c ev)
  then have st: "s' = s" "n' = n\<lparr>got := (got n)(c := got n c @ [ev])\<rparr>"
    and nb: "next_event n c = Some ev" by simp_all
  from next_event_Some [OF nb]
  have "prefix (got n c @ [ev]) (received c (issued n))"
    using assms(3) prefix_snoc_nth by blast
  then have "\<forall>c'. prefix (got n' c') (received c' (issued n'))"
    using st assms(3) by simp
  with st assms(2) show ?thesis by (intro exI [of _ tr]) simp
next
  case (break c)
  then have "s' = s" "n' = n\<lparr>broken := insert c (broken n)\<rparr>" by simp_all
  with assms(2,3) show ?thesis by auto
qed

lemma net_reachable_trace:
  "net_reachable (s, n) \<Longrightarrow>
   \<exists>tr. server_run server_init tr = (s, issued n) \<and> (\<forall>c. prefix (got n c) (received c (issued n)))"
proof (induction "(s, n)" arbitrary: s n rule: net_reachable.induct)
  case init
  have "server_run server_init [] = (server_init, issued net_init)" by (simp add: net_init_def)
  then show ?case by (intro exI [of _ "[]"]) (simp add: net_init_def)
next
  case (step sn)
  obtain s0 n0 where sn: "sn = (s0, n0)" by fastforce
  with step.hyps(2) obtain tr where "server_run server_init tr = (s0, issued n0)"
    and "\<forall>c. prefix (got n0 c) (received c (issued n0))" by blast
  with step.hyps(3) sn show ?case by (intro net_step_trace) auto
qed

lemma catch_up:
  assumes "c \<notin> broken n" and "prefix (got n c) (received c (issued n))"
    and "length (received c (issued n)) - length (got n c) = k"
  shows "\<exists>n'. net_step\<^sup>*\<^sup>* (s, n) (s, n') \<and> issued n' = issued n \<and> broken n' = broken n \<and>
    got n' c = received c (issued n) \<and> (\<forall>c'. c' \<noteq> c \<longrightarrow> got n' c' = got n c')"
  using assms
proof (induction k arbitrary: n)
  case 0
  from 0 obtain zs where q: "received c (issued n) = got n c @ zs" by (auto simp: prefix_def)
  with 0 have "got n c = received c (issued n)" by simp
  then show ?case by blast
next
  case (Suc k)
  let ?q = "received c (issued n)"
  have lt: "length (got n c) < length ?q" using Suc.prems(3) by arith
  let ?n1 = "n\<lparr>got := (got n)(c := got n c @ [?q ! length (got n c)])\<rparr>"
  have ne: "next_event n c = Some (?q ! length (got n c))"
    using lt by (simp add: next_event_def)
  have st: "net_step (s, n) (s, ?n1)" using net_step.deliver [OF Suc.prems(1) ne] .
  have p1: "prefix (got ?n1 c) (received c (issued ?n1))"
    using prefix_snoc_nth [OF Suc.prems(2) lt] by simp
  have k1: "length (received c (issued ?n1)) - length (got ?n1 c) = k"
    using Suc.prems(3) by simp
  obtain n' where r: "net_step\<^sup>*\<^sup>* (s, ?n1) (s, n')" and rest: "issued n' = issued ?n1"
    "broken n' = broken ?n1" "got n' c = received c (issued ?n1)"
    "\<forall>c'. c' \<noteq> c \<longrightarrow> got n' c' = got ?n1 c'"
    using Suc.IH [of ?n1] Suc.prems(1) p1 k1 by auto
  have "net_step\<^sup>*\<^sup>* (s, n) (s, n')" using st r by (rule converse_rtranclp_into_rtranclp)
  with rest show ?case by auto
qed

lemma net_reachable_serve:
  "net_reachable (s, n) \<Longrightarrow> server_step s e = (s', out) \<Longrightarrow>
   net_reachable (s', n\<lparr>issued := issued n @ out\<rparr>)"
  using net_reachable.step [OF _ net_step.serve [of s n e]] by simp

lemma net_reachable_break:
  "net_reachable (s, n) \<Longrightarrow> net_reachable (s, n\<lparr>broken := insert c (broken n)\<rparr>)"
  using net_reachable.step [OF _ net_step.break] by blast

subsection \<open>Fan-out of one step\<close>

lemma length_io_emit [chat_simps]: "length (io_emit cs ev) = length cs"
  by (simp add: io_emit_def)

lemma step_fanout_total:
  "length (snd (server_step s e)) \<le> 2 * length (conns s) + 1"
proof (cases e)
  case (Connect c)
  then show ?thesis by simp
next
  case (Recv c clk m)
  have "length (filter P (conns s)) \<le> Suc (2 * length (conns s))" for P
    using length_filter_le [of P "conns s"] by linarith
  with Recv show ?thesis
    by (cases m) (simp_all add: handler_defs Let_def socket_emit_def broadcast_emit_def chat_simps)
next
  case (Disconnect c)
  have "length (removeAll c (conns s)) \<le> length (conns s)" by (simp add: removeAll_filter_not_eq)
  then have "length (removeAll c (conns s)) + length (removeAll c (conns s)) \<le> Suc (2 * length (conns s))"
    by linarith
  with Disconnect show ?thesis
    by (simp add: on_disconnect_def Let_def chat_simps)
qed

subsection \<open>Properties\<close>

text \<open>C34. Bounded fan-out: one event makes the server issue at most 2n+1 deliveries for n connected sockets, and at most three to any one connection (a join: user-joined, chat-history, the count).\<close>

theorem step_fanout_bounded:
  assumes "server_inv s"
  shows "length (snd (server_step s e)) \<le> 2 * length (conns s) + 1 \<and>
    (\<forall>c. length (received c (snd (server_step s e))) \<le> 3)"
proof -
  have d: "distinct (conns s)" using assms by (simp add: server_inv_def)
  then have d': "distinct (removeAll c' (conns s))" for c' by (simp add: distinct_removeAll)
  have "length (received c (snd (server_step s e))) \<le> 3" for c
  proof (cases e)
    case (Connect c')
    then show ?thesis by (simp add: chat_simps)
  next
    case (Recv c' clk m)
    show ?thesis
      using Recv
      by (cases m) (simp_all add: handler_defs Let_def received_append received_Nil
          received_io_emit [OF d] received_broadcast_emit [OF d] received_socket_emit)
  next
    case (Disconnect c')
    show ?thesis
      using Disconnect
      by (simp add: on_disconnect_def Let_def received_append received_Nil received_io_emit [OF d'])
  qed
  with step_fanout_total show ?thesis by blast
qed

subsection \<open>Witnesses\<close>

theorem step_fanout_bounded_witness:
  "server_inv \<lparr>conns = [1, 2], users = [], chatMessages = []\<rparr> \<and>
   length (snd (server_step \<lparr>conns = [1, 2], users = [], chatMessages = []\<rparr> (Recv 1 (0, 0) (Join (JStr ''A'')))))
     \<le> 2 * length (conns \<lparr>conns = [1, 2], users = [], chatMessages = []\<rparr>) + 1 \<and>
   length (received 1 (snd (server_step \<lparr>conns = [1, 2], users = [], chatMessages = []\<rparr>
     (Recv 1 (0, 0) (Join (JStr ''A'')))))) = 3"
proof -
  have h: "server_inv \<lparr>conns = [1, 2], users = [], chatMessages = []\<rparr>"
    by (simp add: server_inv_def users_wf_def)
  have "length (received 1 (snd (server_step \<lparr>conns = [1, 2], users = [], chatMessages = []\<rparr>
     (Recv 1 (0, 0) (Join (JStr ''A'')))))) = 3"
    by (simp add: server_eval)
  with step_fanout_bounded [OF h, of "Recv 1 (0, 0) (Join (JStr ''A''))"] h show ?thesis by simp
qed

end
