(* ===== verification/Client_Render.thy ===== *)
theory Client_Render
  imports Chat_Prelude
begin

text \<open>
  The string functions of the browser client (\<^verbatim>\<open>src/nodeServer/public/client.js\<close>):
  \<^verbatim>\<open>escapeHtml\<close>, \<^verbatim>\<open>generateAvatar\<close> with \<^verbatim>\<open>encodeURIComponent\<close>,
  \<^verbatim>\<open>formatTimestamp\<close>, \<^verbatim>\<open>trim\<close>, and the HTML that \<^verbatim>\<open>addMessageToChat\<close>
  writes for one message. Characters are bytes; a non-ASCII code point is its UTF-8 bytes.
  The lemmas: \<open>escape_html\<close> equals character-wise escaping, it never outputs a
  markup character and the browser's decoding inverts it; \<open>trim\<close> is idempotent;
  the username is written into the \<^verbatim>\<open>alt\<close> attribute unescaped.
\<close>

text \<open>White space as \<^verbatim>\<open>String.prototype.trim\<close> removes it, on the single-byte characters of the model.\<close>

definition js_space :: "char \<Rightarrow> bool" where
  "js_space c \<longleftrightarrow> of_char c = (32::nat) \<or> (9 \<le> (of_char c :: nat) \<and> (of_char c :: nat) \<le> 13)"

text \<open>\<^verbatim>\<open>s.trim()\<close>: the string without leading and trailing white space.\<close>

definition trim :: "string \<Rightarrow> string" where
  "trim s = rev (dropWhile js_space (rev (dropWhile js_space s)))"

text \<open>The characters \<^verbatim>\<open>encodeURIComponent\<close> leaves unchanged: letters, digits and \<^verbatim>\<open>- _ . ! ~ * ' ( )\<close>.\<close>

definition uri_unreserved :: "char \<Rightarrow> bool" where
  "uri_unreserved c \<longleftrightarrow>
     (let n = (of_char c :: nat)
      in (65 \<le> n \<and> n \<le> 90) \<or> (97 \<le> n \<and> n \<le> 122) \<or> (48 \<le> n \<and> n \<le> 57) \<or>
         n \<in> {45, 95, 46, 33, 126, 42, 39, 40, 41})"

definition hex_digit :: "nat \<Rightarrow> char" where
  "hex_digit d = ''0123456789ABCDEF'' ! (d mod 16)"

text \<open>\<^verbatim>\<open>encodeURIComponent\<close> on a byte string: every other byte becomes \<^verbatim>\<open>%XY\<close>.\<close>

definition encode_uri_component :: "string \<Rightarrow> string" where
  "encode_uri_component s =
     concat (map (\<lambda>c. if uri_unreserved c then [c]
                      else [CHR ''%'', hex_digit (of_char c div 16), hex_digit (of_char c mod 16)]) s)"

text \<open>\<^verbatim>\<open>generateAvatar(name)\<close>, client.js lines 21--23.\<close>

definition generate_avatar :: "string \<Rightarrow> string" where
  "generate_avatar name = ''https://api.dicebear.com/6.x/initials/svg?seed='' @ encode_uri_component name"

text \<open>\<^verbatim>\<open>s.replace(/x/g, r)\<close> for a one-character pattern.\<close>

definition replace_char :: "char \<Rightarrow> string \<Rightarrow> string \<Rightarrow> string" where
  "replace_char x r s = concat (map (\<lambda>c. if c = x then r else [c]) s)"

text \<open>\<^verbatim>\<open>escapeHtml(unsafe)\<close>, client.js lines 29--36: five global replacements, \<^verbatim>\<open>&\<close> first.\<close>

definition escape_html :: "string \<Rightarrow> string" where
  \<open>escape_html unsafe =
     replace_char (CHR 0x27) ''&#039;''
      (replace_char (CHR 0x22) ''&quot;''
        (replace_char (CHR ''>'') ''&gt;''
          (replace_char (CHR ''<'') ''&lt;''
            (replace_char (CHR ''&'') ''&amp;'' unsafe))))\<close>

text \<open>The reference escaping of one character, against which \<open>escape_html\<close> is proved equivalent.\<close>

definition escape_char :: "char \<Rightarrow> string" where
  \<open>escape_char c =
     (if c = CHR ''&'' then ''&amp;'' else if c = CHR ''<'' then ''&lt;''
      else if c = CHR ''>'' then ''&gt;'' else if c = CHR 0x22 then ''&quot;''
      else if c = CHR 0x27 then ''&#039;'' else [c])\<close>

text \<open>The browser's decoding of the five character references in text content: what a reader of the rendered page sees.\<close>

fun unescape_html :: "string \<Rightarrow> string" where
  "unescape_html [] = []"
| "unescape_html (c # s) =
     (if c = CHR ''&'' \<and> take 4 s = ''amp;'' then CHR ''&'' # unescape_html (drop 4 s)
      else if c = CHR ''&'' \<and> take 3 s = ''lt;'' then CHR ''<'' # unescape_html (drop 3 s)
      else if c = CHR ''&'' \<and> take 3 s = ''gt;'' then CHR ''>'' # unescape_html (drop 3 s)
      else if c = CHR ''&'' \<and> take 5 s = ''quot;'' then CHR 0x22 # unescape_html (drop 5 s)
      else if c = CHR ''&'' \<and> take 5 s = ''#039;'' then CHR 0x27 # unescape_html (drop 5 s)
      else c # unescape_html s)"

text \<open>Decimal rendering of numbers, for \<^verbatim>\<open>message-${id}\<close> and the clock.\<close>

definition digit_char :: "nat \<Rightarrow> char" where
  "digit_char d = ''0123456789'' ! (d mod 10)"

fun string_of_nat :: "nat \<Rightarrow> string" where
  "string_of_nat n = (if n < 10 then [digit_char n] else string_of_nat (n div 10) @ [digit_char (n mod 10)])"

declare string_of_nat.simps [simp del]

text \<open>JavaScript's string conversion of a value, as a template literal \<^verbatim>\<open>`${v}`\<close> applies it.\<close>

definition string_of_int :: "int \<Rightarrow> string" where
  "string_of_int i = (if i < 0 then CHR ''-'' # string_of_nat (nat (- i)) else string_of_nat (nat i))"

fun js_to_string :: "jsval \<Rightarrow> string" where
  "js_to_string JUndefined = ''undefined''"
| "js_to_string JNull = ''null''"
| "js_to_string (JBool b) = (if b then ''true'' else ''false'')"
| "js_to_string (JNum i) = string_of_int i"
| "js_to_string (JStr s) = s"
| "js_to_string (JObject s) = s"

definition two_digits :: "nat \<Rightarrow> string" where
  "two_digits n = [digit_char (n div 10), digit_char (n mod 10)]"

text \<open>\<^verbatim>\<open>formatTimestamp(timestamp)\<close>, client.js lines 25--27, for the locale \<^verbatim>\<open>en-GB\<close> in UTC: two-digit hour and minute.\<close>

definition format_timestamp :: "nat \<Rightarrow> string" where
  "format_timestamp t = two_digits ((t div 3600000) mod 24) @ '':'' @ two_digits ((t div 60000) mod 60)"

text \<open>The \<^verbatim>\<open>innerHTML\<close> template of \<^verbatim>\<open>addMessageToChat\<close>, client.js lines 53--62, character for character.\<close>

definition message_html :: "string \<Rightarrow> string \<Rightarrow> nat \<Rightarrow> string" where
  \<open>message_html username text timestamp = concat
     [[CHR 0x0A], ''        <img src="'', generate_avatar username, ''" alt="'', username,
      ''" class="message-avatar">'', [CHR 0x0A],
      ''        <div class="message-content">'', [CHR 0x0A],
      ''            <div class="message-header">'', [CHR 0x0A],
      ''                <span class="message-username">'', escape_html username, ''</span>'', [CHR 0x0A],
      ''                <span class="message-timestamp">'', format_timestamp timestamp, ''</span>'', [CHR 0x0A],
      ''            </div>'', [CHR 0x0A],
      ''            <div class="message-text">'', escape_html text, ''</div>'', [CHR 0x0A],
      ''        </div>'', [CHR 0x0A], ''    '']\<close>

subsection \<open>Lemmas\<close>

lemma replace_char_append: "replace_char x r (u @ v) = replace_char x r u @ replace_char x r v"
  by (simp add: replace_char_def)

lemma escape_html_append: "escape_html (u @ v) = escape_html u @ escape_html v"
  by (simp add: escape_html_def replace_char_append)

lemma escape_html_single: "escape_html [c] = escape_char c"
  by (simp add: escape_html_def escape_char_def replace_char_def)

lemma escape_html_concat: "escape_html s = concat (map escape_char s)"
proof (induction s)
  case Nil
  then show ?case by (simp add: escape_html_def replace_char_def)
next
  case (Cons c s)
  have "escape_html (c # s) = escape_html ([c] @ s)" by simp
  also have "\<dots> = escape_char c @ escape_html s"
    by (simp only: escape_html_append escape_html_single)
  finally show ?case using Cons.IH by simp
qed

lemma unescape_escape_char: "unescape_html (escape_char c @ rest) = c # unescape_html rest"
  by (simp add: escape_char_def)

text \<open>C14. Decoding the character references of escapeHtml's output gives back the original string: what a reader sees is exactly what was typed.\<close>

theorem unescape_escape: "unescape_html (escape_html s) = s"
proof (induction s)
  case Nil
  then show ?case by (simp add: escape_html_concat)
next
  case (Cons c s)
  then show ?case by (simp add: escape_html_concat unescape_escape_char)
qed

lemma escape_char_safe: "set (escape_char c) \<inter> {CHR ''<'', CHR ''>'', CHR 0x22, CHR 0x27} = {}"
  by (simp add: escape_char_def)

text \<open>C15. The output of escapeHtml never contains a markup character: no angle bracket, no double and no single quote.\<close>

theorem escape_html_safe: "set (escape_html s) \<inter> {CHR ''<'', CHR ''>'', CHR 0x22, CHR 0x27} = {}"
  using escape_char_safe by (auto simp: escape_html_concat)

lemma message_html_alt:
  \<open>sublist (''alt="'' @ username @ ''"'') (message_html username text timestamp)\<close>
proof -
  have \<open>message_html username text timestamp =
      ([CHR 0x0A] @ ''        <img src="'' @ generate_avatar username @ ''" '') @
      (''alt="'' @ username @ ''"'') @ drop 1 (concat (drop 5 [[CHR 0x0A], ''        <img src="'', generate_avatar username, ''" alt="'', username,
      ''" class="message-avatar">'', [CHR 0x0A],
      ''        <div class="message-content">'', [CHR 0x0A],
      ''            <div class="message-header">'', [CHR 0x0A],
      ''                <span class="message-username">'', escape_html username, ''</span>'', [CHR 0x0A],
      ''                <span class="message-timestamp">'', format_timestamp timestamp, ''</span>'', [CHR 0x0A],
      ''            </div>'', [CHR 0x0A],
      ''            <div class="message-text">'', escape_html text, ''</div>'', [CHR 0x0A],
      ''        </div>'', [CHR 0x0A], ''    '']))\<close>
    by (simp add: message_html_def)
  then show ?thesis by (metis sublist_appendI)
qed

lemma dropWhile_rev_dropWhile_rev:
  "t = [] \<or> \<not> P (hd t) \<Longrightarrow> dropWhile P (rev (dropWhile P (rev t))) = rev (dropWhile P (rev t))"
  by (metis (no_types, lifting) Nil_is_rev_conv dropWhile.simps(1) dropWhile_eq_Nil_conv
      dropWhile_eq_self_iff dropWhile_last hd_rev last_rev)

lemma dropWhile_idem: "dropWhile P (dropWhile P xs) = dropWhile P xs"
  by (induction xs) auto

lemma trim_idem: "trim (trim s) = trim s"
proof -
  let ?t = "dropWhile js_space s"
  have hd: "?t = [] \<or> \<not> js_space (hd ?t)"
    using hd_dropWhile by blast
  have "dropWhile js_space (trim s) = trim s"
    unfolding trim_def by (rule dropWhile_rev_dropWhile_rev [of ?t js_space, OF hd])
  then show ?thesis
    by (simp add: trim_def dropWhile_idem)
qed

lemma hex_digit_set: "hex_digit d \<in> set ''0123456789ABCDEF''"
  unfolding hex_digit_def by (rule nth_mem) simp

lemma encode_uri_component_chars:
  "set (encode_uri_component s) \<subseteq> {c. uri_unreserved c} \<union> insert (CHR ''%'') (set ''0123456789ABCDEF'')"
  using hex_digit_set by (auto simp: encode_uri_component_def split: if_splits)

text \<open>C16. The username is written unescaped into the alt attribute of the message's avatar: a name containing a double quote adds attributes (here an event handler) to the img tag.\<close>

theorem alt_attribute_injection:
  \<open>sublist ''alt="x" onerror="alert(1)"'' (message_html ''x" onerror="alert(1)'' text timestamp)\<close>
proof -
  have \<open>sublist (''alt="'' @ ''x" onerror="alert(1)'' @ ''"'') (message_html ''x" onerror="alert(1)'' text timestamp)\<close>
    by (rule message_html_alt)
  then show ?thesis by simp
qed

text \<open>The avatar URL built by generateAvatar contains no double quote, angle bracket or space, whatever the name: it cannot break out of the src attribute it is written into.\<close>

theorem avatar_url_safe:
  "set (generate_avatar name) \<inter> {CHR 0x22, CHR ''<'', CHR ''>'', CHR '' ''} = {}"
proof -
  have "set (encode_uri_component name) \<inter> {CHR 0x22, CHR ''<'', CHR ''>'', CHR '' ''} = {}"
    using encode_uri_component_chars [of name] by (auto simp: uri_unreserved_def)
  then show ?thesis by (simp add: generate_avatar_def)
qed

end
