(* ===== verification/Client.thy ===== *)
theory Client
  imports Client_Render Transport
begin

text \<open>
  The browser client (\<^verbatim>\<open>src/nodeServer/public/client.js\<close>): its state (the module
  variables \<^verbatim>\<open>username\<close> and \<^verbatim>\<open>typingTimeout\<close> and the DOM elements it writes), the
  prompt loop, the user-side functions (\<^verbatim>\<open>sendMessage\<close>, \<^verbatim>\<open>handleTyping\<close> and
  its timer) and one handler per socket event. A handler returns the new state, the events
  it emits to the server, and the exception it throws, if any: an exception in a
  listener does not undo the DOM changes made before it. The lemmas give each handler's
  behaviour, the prompt loop's liveness, the typing debounce, and the failure of the
  history replay on a message without author.
\<close>

datatype js_error = TypeError  \<comment> \<open>\<^verbatim>\<open>unsafe.replace is not a function\<close>, on \<^verbatim>\<open>undefined\<close>\<close>

datatype element =
    SystemMessage string                 \<comment> \<open>\<^verbatim>\<open>div.system-message\<close> with its text\<close>
  | ChatMessage string bool string       \<comment> \<open>\<^verbatim>\<open>div.message\<close>: DOM id, outgoing, innerHTML\<close>

record client =
  cl_username :: string                  \<comment> \<open>\<^verbatim>\<open>let username = ''\<close>\<close>
  username_text :: string                \<comment> \<open>\<^verbatim>\<open>usernameElement.textContent\<close>\<close>
  avatar_src :: string                   \<comment> \<open>\<^verbatim>\<open>userAvatar.src\<close>\<close>
  message_area :: "element list"         \<comment> \<open>children of \<^verbatim>\<open>messageArea\<close>\<close>
  typing_indicator :: string             \<comment> \<open>\<^verbatim>\<open>typingIndicator.textContent\<close>\<close>
  online_count :: nat                    \<comment> \<open>\<^verbatim>\<open>onlineCountElement.textContent\<close>\<close>
  message_input :: string                \<comment> \<open>\<^verbatim>\<open>messageInput.value\<close>\<close>
  typing_timeout :: "nat option"         \<comment> \<open>deadline of the pending \<^verbatim>\<open>setTimeout\<close>, if any\<close>
  blocked :: bool                        \<comment> \<open>the page is stuck in the synchronous prompt loop\<close>

definition client_init :: client where
  "client_init = \<lparr>cl_username = [], username_text = [], avatar_src = [], message_area = [],
     typing_indicator = [], online_count = 0, message_input = [], typing_timeout = None,
     blocked = False\<rparr>"

subsection \<open>DOM updates\<close>

text \<open>\<^verbatim>\<open>addSystemMessage(text)\<close>, lines 68--74.\<close>

definition add_system_message :: "string \<Rightarrow> client \<Rightarrow> client" where
  "add_system_message text st = st\<lparr>message_area := message_area st @ [SystemMessage text]\<rparr>"

text \<open>
  \<^verbatim>\<open>addMessageToChat(messageData, isOutgoing)\<close>, lines 47--66. Unless
  \<^verbatim>\<open>username\<close> and \<^verbatim>\<open>text\<close> are strings, the template throws at
  \<^verbatim>\<open>escapeHtml\<close> (\<^verbatim>\<open>unsafe.replace\<close> is not a function, or a property of
  \<^verbatim>\<open>undefined\<close>/\<^verbatim>\<open>null\<close>), before the element is appended.
\<close>

definition add_message_to_chat :: "message \<Rightarrow> bool \<Rightarrow> client \<Rightarrow> js_error + client" where
  "add_message_to_chat messageData isOutgoing st =
     (case (msg_username messageData, msg_text messageData) of
        (JStr username, JStr text) \<Rightarrow>
          Inr (st\<lparr>message_area := message_area st @
                 [ChatMessage (''message-'' @ string_of_nat (msg_id messageData)) isOutgoing
                    (message_html username text (msg_timestamp messageData))]\<rparr>)
      | _ \<Rightarrow> Inl TypeError)"

text \<open>\<^verbatim>\<open>msg.username === username\<close>: strict equality with the own name, a string.\<close>

definition is_outgoing :: "client \<Rightarrow> message \<Rightarrow> bool" where
  "is_outgoing st m \<longleftrightarrow> msg_username m = JStr (cl_username st)"

text \<open>\<^verbatim>\<open>updateOnlineCount(count)\<close>, lines 39--41.\<close>

definition update_online_count :: "nat \<Rightarrow> client \<Rightarrow> client" where
  "update_online_count count st = st\<lparr>online_count := count\<rparr>"

text \<open>\<^verbatim>\<open>updateTypingIndicator(isTyping ? username : null)\<close>, lines 43--45 and 158--160.\<close>

definition typing_text :: "jsval \<Rightarrow> string" where
  "typing_text typingUser =
     (if js_truthy typingUser then js_to_string typingUser @ '' is typing...'' else [])"

subsection \<open>The prompt loop and the user's actions\<close>

text \<open>
  \<^verbatim>\<open>promptForUsername()\<close>, lines 77--86: the answers to successive \<^verbatim>\<open>prompt\<close>
  calls (\<open>None\<close> for a cancelled prompt) until one is non-blank. If the user never gives a
  name the promise never resolves: \<open>None\<close> once the answers run out.
\<close>

fun prompt_for_username :: "string option list \<Rightarrow> string option" where
  "prompt_for_username [] = None"
| "prompt_for_username (answer # answers) =
     (case answer of
        Some name \<Rightarrow> if trim name \<noteq> [] then Some (trim name) else prompt_for_username answers
      | None \<Rightarrow> prompt_for_username answers)"

text \<open>\<^verbatim>\<open>initializeUser()\<close> after the prompt resolved, lines 88--93.\<close>

definition initialize_user :: "string \<Rightarrow> client \<Rightarrow> client \<times> client_msg list" where
  "initialize_user name st =
     (st\<lparr>cl_username := name, username_text := name, avatar_src := generate_avatar name\<rparr>, [Join (JStr name)])"

text \<open>\<^verbatim>\<open>sendMessage()\<close>, lines 95--102.\<close>

definition send_message :: "client \<Rightarrow> client \<times> client_msg list" where
  "send_message st =
     (let message = trim (message_input st)
      in if message \<noteq> [] then (st\<lparr>message_input := []\<rparr>, [SendMessage (JStr message), Typing (JBool False)])
         else (st, []))"

text \<open>
  \<^verbatim>\<open>handleTyping()\<close> at time \<open>now\<close>, lines 104--108: the pending timer is cleared and
  a new one set for \<open>now + 1000\<close>.
\<close>

definition handle_typing :: "nat \<Rightarrow> client \<Rightarrow> client \<times> client_msg list" where
  "handle_typing now st = (st\<lparr>typing_timeout := Some (now + 1000)\<rparr>, [Typing (JBool True)])"

text \<open>The timer callback \<^verbatim>\<open>() => socket.emit('typing', false)\<close>, run once its deadline is reached.\<close>

definition timer_tick :: "nat \<Rightarrow> client \<Rightarrow> client \<times> client_msg list" where
  "timer_tick now st =
     (case typing_timeout st of
        Some deadline \<Rightarrow> if deadline \<le> now then (st\<lparr>typing_timeout := None\<rparr>, [Typing (JBool False)]) else (st, [])
      | None \<Rightarrow> (st, []))"

subsection \<open>Socket event handlers\<close>

text \<open>
  \<^verbatim>\<open>messages.forEach(msg => addMessageToChat(msg, msg.username === username))\<close>:
  the first exception stops the loop, the elements appended before it stay.
\<close>

fun render_history :: "message list \<Rightarrow> client \<Rightarrow> client \<times> js_error option" where
  "render_history [] st = (st, None)"
| "render_history (msg # messages) st =
     (case add_message_to_chat msg (is_outgoing st msg) st of
        Inl e \<Rightarrow> (st, Some e)
      | Inr st' \<Rightarrow> render_history messages st')"

text \<open>The listeners of lines 137--160, one per server event.\<close>

fun on_server_event :: "server_event \<Rightarrow> client \<Rightarrow> client \<times> js_error option" where
  "on_server_event (ChatHistory messages) st = render_history messages (st\<lparr>message_area := []\<rparr>)"
| "on_server_event (NewMessage messageData) st =
     (case add_message_to_chat messageData (is_outgoing st messageData) st of
        Inl e \<Rightarrow> (st, Some e)
      | Inr st' \<Rightarrow> (st', None))"
| "on_server_event (UserJoined name) st = (add_system_message (js_to_string name @ '' joined the chat'') st, None)"
| "on_server_event (UserLeft name) st = (add_system_message (js_to_string name @ '' left the chat'') st, None)"
| "on_server_event (UpdateOnlineCount count) st = (update_online_count count st, None)"
| "on_server_event (UserTyping username isTyping) st =
     (st\<lparr>typing_indicator := typing_text (if js_truthy isTyping then username else JNull)\<rparr>, None)"

text \<open>
  What happens to the client: socket events (\<^verbatim>\<open>connect\<close> with the answers the user
  will give to the prompts, \<^verbatim>\<open>disconnect\<close>, \<^verbatim>\<open>reconnect\<close>, errors, server events),
  DOM events (page loaded, an \<^verbatim>\<open>input\<close> at a time, a form submit) and the clock.
\<close>

datatype client_input =
    SocketConnect "string option list"
  | SocketDisconnect string
  | SocketReconnect
  | ConnectError string
  | SocketError
  | ServerSays server_event
  | DomContentLoaded
  | InputAt nat
  | SubmitForm
  | ClockAt nat

fun client_handle :: "client \<Rightarrow> client_input \<Rightarrow> client \<times> client_msg list \<times> js_error option" where
  "client_handle st (SocketConnect answers) =
     (let st1 = add_system_message ''Connected to the chat server.'' st
      in case prompt_for_username answers of
           None \<Rightarrow> (st1\<lparr>blocked := True\<rparr>, [], None)
         | Some name \<Rightarrow> (let (st2, out) = initialize_user name st1 in (st2, out, None)))"
| "client_handle st (SocketDisconnect reason) =
     (add_system_message (''Disconnected from the chat server. Reason: '' @ reason) st, [], None)"
| "client_handle st SocketReconnect =
     (add_system_message ''Reconnected to the chat server.'' st, [Join (JStr (cl_username st))], None)"
| "client_handle st (ConnectError msg) =
     (add_system_message (''Error connecting to the server: '' @ msg) st, [], None)"
| "client_handle st SocketError =
     (add_system_message ''An error occurred. Please try refreshing the page.'' st, [], None)"
| "client_handle st (ServerSays ev) = (let (st1, err) = on_server_event ev st in (st1, [], err))"
| "client_handle st DomContentLoaded =
     (add_system_message ''Welcome to Wassup 2.0! Connecting to the server...'' st, [], None)"
| "client_handle st (InputAt now) = (let (st1, out) = handle_typing now st in (st1, out, None))"
| "client_handle st SubmitForm = (let (st1, out) = send_message st in (st1, out, None))"
| "client_handle st (ClockAt now) = (let (st1, out) = timer_tick now st in (st1, out, None))"

text \<open>
  \<^verbatim>\<open>promptForUsername\<close> recurses synchronously inside the \<^verbatim>\<open>connect\<close> listener:
  while the user gives no name, no other event is handled.
\<close>

definition client_step :: "client \<Rightarrow> client_input \<Rightarrow> client \<times> client_msg list \<times> js_error option" where
  "client_step st i = (if blocked st then (st, [], None) else client_handle st i)"

text \<open>A sequence of inputs; the emitted events accumulate in order, the exceptions are collected.\<close>

fun client_run :: "client \<Rightarrow> client_input list \<Rightarrow> client \<times> client_msg list \<times> js_error list" where
  "client_run st [] = (st, [], [])"
| "client_run st (i # ins) =
     (case client_step st i of
        (st1, out1, err1) \<Rightarrow>
          (case client_run st1 ins of
             (st2, out2, errs) \<Rightarrow> (st2, out1 @ out2, (case err1 of None \<Rightarrow> errs | Some e \<Rightarrow> e # errs))))"

text \<open>The messages the client displays, in order: the chat elements of the message area.\<close>

fun chat_elements :: "element list \<Rightarrow> (string \<times> bool \<times> string) list" where
  "chat_elements [] = []"
| "chat_elements (ChatMessage i out html # es) = (i, out, html) # chat_elements es"
| "chat_elements (SystemMessage t # es) = chat_elements es"

text \<open>What the message area shows for one message, as \<open>add_message_to_chat\<close> renders it for the client \<open>st\<close>.\<close>

definition render_entry :: "client \<Rightarrow> message \<Rightarrow> string \<times> bool \<times> string" where
  "render_entry st m = (''message-'' @ string_of_nat (msg_id m), is_outgoing st m,
     message_html (js_to_string (msg_username m)) (js_to_string (msg_text m)) (msg_timestamp m))"

subsection \<open>Lemmas\<close>

lemma client_run_Cons_eq:
  "client_run st (i # ins) =
     (fst (client_run (fst (client_step st i)) ins),
      fst (snd (client_step st i)) @ fst (snd (client_run (fst (client_step st i)) ins)),
      (case snd (snd (client_step st i)) of None \<Rightarrow> [] | Some e \<Rightarrow> [e]) @
        snd (snd (client_run (fst (client_step st i)) ins)))"
  by (simp split: prod.split option.split)

declare client_run.simps(2) [simp del]

lemma prompt_for_username_result:
  "prompt_for_username answers = Some name \<Longrightarrow> name \<noteq> [] \<and> trim name = name"
  by (induction answers) (auto simp: trim_idem split: option.splits if_splits)

text \<open>C17. As soon as one of the user's answers to the name prompt is non-blank, the prompt loop returns a non-blank, trimmed name.\<close>

theorem prompt_for_username_returns:
  assumes "Some name \<in> set answers" and "trim name \<noteq> []"
  shows "\<exists>n. prompt_for_username answers = Some n \<and> n \<noteq> [] \<and> trim n = n"
  using assms
proof (induction answers)
  case Nil
  then show ?case by simp
next
  case (Cons a answers)
  show ?case
  proof (cases "\<exists>n. prompt_for_username (a # answers) = Some n")
    case True
    then show ?thesis using prompt_for_username_result by blast
  next
    case False
    with Cons show ?thesis by (auto split: option.splits if_splits)
  qed
qed

lemma client_step_sends:
  "SendMessage v \<in> set (fst (snd (client_step st i))) \<Longrightarrow> \<exists>m. v = JStr m \<and> m \<noteq> [] \<and> trim m = m"
  by (cases i) (auto simp: client_step_def send_message_def initialize_user_def handle_typing_def
      timer_tick_def Let_def trim_idem split: option.splits if_splits prod.splits)

text \<open>C18. Whatever the user does, every send-message the client emits carries a string, and that string is non-blank and trimmed.\<close>

theorem client_run_sends:
  "SendMessage v \<in> set (fst (snd (client_run st ins))) \<Longrightarrow> \<exists>m. v = JStr m \<and> m \<noteq> [] \<and> trim m = m"
proof (induction ins arbitrary: st)
  case Nil
  then show ?case by simp
next
  case (Cons i ins)
  then show ?case by (auto simp: client_run_Cons_eq dest: client_step_sends)
qed

lemma render_history_authored:
  assumes "list_all authored ms"
  shows "\<exists>st'. render_history (ms @ rest) st = render_history rest st' \<and>
      length (message_area st') = length (message_area st) + length ms"
  using assms
proof (induction ms arbitrary: st)
  case Nil
  then show ?case by auto
next
  case (Cons m ms)
  from Cons.prems obtain u t where u: "msg_username m = JStr u" "msg_text m = JStr t"
    by (auto simp: authored_def is_str_iff)
  let ?st1 = "st\<lparr>message_area := message_area st @
        [ChatMessage (''message-'' @ string_of_nat (msg_id m)) (is_outgoing st m)
           (message_html u t (msg_timestamp m))]\<rparr>"
  have step: "render_history ((m # ms) @ rest) st = render_history (ms @ rest) ?st1"
    using u by (simp add: add_message_to_chat_def)
  from Cons.prems have "list_all authored ms" by simp
  then obtain st' where r: "render_history (ms @ rest) ?st1 = render_history rest st'"
    and l: "length (message_area st') = length (message_area ?st1) + length ms"
    using Cons.IH by blast
  have len: "length (message_area st') = length (message_area st) + length (m # ms)"
    using l by simp
  have eq: "render_history ((m # ms) @ rest) st = render_history rest st'"
    using step r by (rule trans)
  from eq len show ?case by (intro exI [of _ st'] conjI)
qed

lemma typing_burst:
  assumes "\<not> blocked st"
  shows "ts \<noteq> [] \<Longrightarrow> client_run st (map InputAt ts) =
     (st\<lparr>typing_timeout := Some (last ts + 1000)\<rparr>, replicate (length ts) (Typing (JBool True)), [])"
  using assms
proof (induction ts arbitrary: st)
  case Nil
  then show ?case by simp
next
  case (Cons t ts)
  have step: "client_step st (InputAt t) = (st\<lparr>typing_timeout := Some (t + 1000)\<rparr>, [Typing (JBool True)], None)"
    using Cons.prems(2) by (simp add: client_step_def handle_typing_def)
  show ?case
  proof (cases "ts = []")
    case True
    then show ?thesis by (simp add: client_run_Cons_eq step)
  next
    case False
    have "client_run (st\<lparr>typing_timeout := Some (t + 1000)\<rparr>) (map InputAt ts) =
      (st\<lparr>typing_timeout := Some (last ts + 1000)\<rparr>, replicate (length ts) (Typing (JBool True)), [])"
      using Cons.IH [OF False] Cons.prems(2) by simp
    with False show ?thesis by (simp add: client_run_Cons_eq step)
  qed
qed

lemma client_run_append:
  "client_run st (xs @ ys) =
     (fst (client_run (fst (client_run st xs)) ys),
      fst (snd (client_run st xs)) @ fst (snd (client_run (fst (client_run st xs)) ys)),
      snd (snd (client_run st xs)) @ snd (snd (client_run (fst (client_run st xs)) ys)))"
proof (induction xs arbitrary: st)
  case Nil
  then show ?case by simp
next
  case (Cons x xs)
  then show ?case by (simp add: client_run_Cons_eq)
qed

lemma chat_elements_append [chat_simps]: "chat_elements (xs @ ys) = chat_elements xs @ chat_elements ys"
  by (induction xs rule: chat_elements.induct) auto

lemma on_server_event_plain:
  assumes "plain_event ev"
  shows "snd (on_server_event ev st) = None \<and>
    cl_username (fst (on_server_event ev st)) = cl_username st \<and>
    blocked (fst (on_server_event ev st)) = blocked st \<and>
    chat_elements (message_area (fst (on_server_event ev st))) =
      chat_elements (message_area st) @ map (render_entry st) (new_messages [ev])"
  using assms
  by (cases ev) (auto simp: authored_def is_str_iff add_message_to_chat_def add_system_message_def
      update_online_count_def render_entry_def chat_simps)

lemma client_run_plain:
  assumes "list_all plain_event evs" and "\<not> blocked st"
  shows "snd (snd (client_run st (map ServerSays evs))) = [] \<and>
    chat_elements (message_area (fst (client_run st (map ServerSays evs)))) =
      chat_elements (message_area st) @ map (render_entry st) (new_messages evs)"
  using assms
proof (induction evs arbitrary: st)
  case Nil
  then show ?case by simp
next
  case (Cons ev evs)
  let ?st1 = "fst (on_server_event ev st)"
  from Cons.prems have p: "plain_event ev" and ps: "list_all plain_event evs" by simp_all
  note one = on_server_event_plain [OF p, of st]
  have step: "client_step st (ServerSays ev) = (?st1, [], None)"
    using Cons.prems(2) one by (simp add: client_step_def split_def)
  have re: "render_entry ?st1 = render_entry st"
    using one by (simp add: render_entry_def is_outgoing_def fun_eq_iff)
  have IH: "snd (snd (client_run ?st1 (map ServerSays evs))) = [] \<and>
    chat_elements (message_area (fst (client_run ?st1 (map ServerSays evs)))) =
      chat_elements (message_area ?st1) @ map (render_entry ?st1) (new_messages evs)"
    using ps Cons.prems(2) one by (intro Cons.IH) simp_all
  have nm: "new_messages (ev # evs) = new_messages [ev] @ new_messages evs"
    using new_messages_append [of "[ev]" evs] by simp
  show ?case
    using IH one re by (simp add: client_run_Cons_eq step nm)
qed

lemma render_history_authored_all:
  assumes "list_all authored ms"
  shows "snd (render_history ms st) = None \<and>
    cl_username (fst (render_history ms st)) = cl_username st \<and>
    blocked (fst (render_history ms st)) = blocked st \<and>
    chat_elements (message_area (fst (render_history ms st))) =
      chat_elements (message_area st) @ map (render_entry st) ms"
  using assms
proof (induction ms arbitrary: st)
  case Nil
  then show ?case by simp
next
  case (Cons m ms)
  then obtain u t where u: "msg_username m = JStr u" and t: "msg_text m = JStr t"
    by (auto simp: authored_def is_str_iff)
  let ?st1 = "st\<lparr>message_area := message_area st @
        [ChatMessage (''message-'' @ string_of_nat (msg_id m)) (is_outgoing st m)
           (message_html u t (msg_timestamp m))]\<rparr>"
  have step: "render_history (m # ms) st = render_history ms ?st1"
    using u t by (simp add: add_message_to_chat_def)
  have re: "render_entry ?st1 = render_entry st"
    by (simp add: render_entry_def is_outgoing_def fun_eq_iff)
  have IH: "snd (render_history ms ?st1) = None \<and>
    cl_username (fst (render_history ms ?st1)) = cl_username ?st1 \<and>
    blocked (fst (render_history ms ?st1)) = blocked ?st1 \<and>
    chat_elements (message_area (fst (render_history ms ?st1))) =
      chat_elements (message_area ?st1) @ map (render_entry ?st1) ms"
    using Cons.prems by (intro Cons.IH) simp
  have e: "render_entry st m = (''message-'' @ string_of_nat (msg_id m), is_outgoing st m,
      message_html u t (msg_timestamp m))"
    using u t by (simp add: render_entry_def)
  show ?case unfolding step using IH re by (simp add: e chat_simps)
qed

lemma render_entry_cong: "cl_username st' = cl_username st \<Longrightarrow> render_entry st' = render_entry st"
  by (simp add: render_entry_def is_outgoing_def fun_eq_iff)

lemma client_run_after_history:
  assumes nb: "\<not> blocked st" and auth: "list_all authored H" and pl: "list_all plain_event R"
  shows "snd (snd (client_run st (map ServerSays (ChatHistory H # R)))) = [] \<and>
    chat_elements (message_area (fst (client_run st (map ServerSays (ChatHistory H # R))))) =
      map (render_entry st) (H @ new_messages R)"
proof -
  let ?st1 = "fst (render_history H (st\<lparr>message_area := []\<rparr>))"
  note h = render_history_authored_all [OF auth, of "st\<lparr>message_area := []\<rparr>"]
  have step: "client_step st (ServerSays (ChatHistory H)) = (?st1, [], None)"
    using nb h by (simp add: client_step_def split_def)
  have nb1: "\<not> blocked ?st1" using h nb by simp
  have re: "render_entry ?st1 = render_entry st"
    using h by (intro render_entry_cong) simp
  have re0: "render_entry (st\<lparr>message_area := []\<rparr>) = render_entry st"
    by (intro render_entry_cong) simp
  note r = client_run_plain [OF pl nb1]
  show ?thesis using r h re re0 by (simp add: client_run_Cons_eq step)
qed

lemma client_run_join_events:
  assumes nb: "\<not> blocked st" and auth: "list_all authored H" and pl: "list_all plain_event R"
  shows "snd (snd (client_run st (map ServerSays (UserJoined u # ChatHistory H # R)))) = [] \<and>
    chat_elements (message_area (fst (client_run st (map ServerSays (UserJoined u # ChatHistory H # R))))) =
      map (render_entry st) (H @ new_messages R)"
proof -
  let ?st1 = "fst (on_server_event (UserJoined u) st)"
  note one = on_server_event_plain [of "UserJoined u" st]
  have step: "client_step st (ServerSays (UserJoined u)) = (?st1, [], None)"
    using nb one by (simp add: client_step_def split_def)
  have nb1: "\<not> blocked ?st1" using one nb by simp
  have re: "render_entry ?st1 = render_entry st"
    using one by (intro render_entry_cong) simp
  show ?thesis
    using client_run_after_history [OF nb1 auth pl] re by (simp add: client_run_Cons_eq step)
qed

subsection \<open>Properties\<close>

text \<open>C19. A chat-history containing a message whose author or text is not a string (a message without author, for instance) stops rendering at that message with a TypeError: only the messages before it are shown.\<close>

theorem history_replay_aborts:
  assumes "list_all authored ms1" and "\<not> authored m"
  shows "snd (on_server_event (ChatHistory (ms1 @ m # ms2)) st) = Some TypeError \<and>
    length (message_area (fst (on_server_event (ChatHistory (ms1 @ m # ms2)) st))) = length ms1"
proof -
  obtain st' where r: "render_history (ms1 @ m # ms2) (st\<lparr>message_area := []\<rparr>) = render_history (m # ms2) st'"
    and l: "length (message_area st') = length (message_area (st\<lparr>message_area := []\<rparr>)) + length ms1"
    using render_history_authored [OF assms(1)] by blast
  have "render_history (m # ms2) st' = (st', Some TypeError)"
    using assms(2) by (auto simp: add_message_to_chat_def authored_def is_str_iff split: jsval.splits)
  with r l show ?thesis by simp
qed

text \<open>C20. Typing debounce: after a burst of input events the client has emitted typing(true) once per input, and it emits a single typing(false) exactly when the clock reaches the last input's time plus 1000 ms.\<close>

theorem typing_debounce:
  assumes "\<not> blocked st" and "ts \<noteq> []"
  shows "client_run st (map InputAt ts @ [ClockAt T]) =
    (if last ts + 1000 \<le> T
     then (st\<lparr>typing_timeout := None\<rparr>, replicate (length ts) (Typing (JBool True)) @ [Typing (JBool False)], [])
     else (st\<lparr>typing_timeout := Some (last ts + 1000)\<rparr>, replicate (length ts) (Typing (JBool True)), []))"
  using typing_burst [OF assms(1) assms(2)] assms(1)
  by (simp add: client_run_append client_run_Cons_eq client_step_def timer_tick_def)

text \<open>C21. A new-message whose author is the client's own name is appended as an outgoing message with DOM id message-<id> and the rendered template.\<close>

theorem own_message_outgoing:
  assumes "msg_username m = JStr (cl_username st)" and "msg_text m = JStr t"
  shows "on_server_event (NewMessage m) st =
    (st\<lparr>message_area := message_area st @
       [ChatMessage (''message-'' @ string_of_nat (msg_id m)) True
          (message_html (cl_username st) t (msg_timestamp m))]\<rparr>, None)"
  using assms by (simp add: add_message_to_chat_def is_outgoing_def)

subsection \<open>Witnesses\<close>

theorem prompt_for_username_returns_witness:
  "Some '' Ann '' \<in> set [None, Some '' '', Some '' Ann ''] \<and> trim '' Ann '' \<noteq> [] \<and>
   prompt_for_username [None, Some '' '', Some '' Ann ''] = Some ''Ann''"
proof -
  have h1: "Some '' Ann '' \<in> set [None, Some '' '', Some '' Ann '']" by simp
  have h2: "trim '' Ann '' \<noteq> []" by (simp add: trim_def js_space_def)
  have "prompt_for_username [None, Some '' '', Some '' Ann ''] = Some ''Ann''"
    by (simp add: trim_def js_space_def)
  with prompt_for_username_returns [OF h1 h2] h1 h2 show ?thesis by simp
qed

theorem client_run_sends_witness:
  "SendMessage (JStr ''hi'') \<in> set (fst (snd (client_run (client_init\<lparr>message_input := '' hi ''\<rparr>) [SubmitForm]))) \<and>
   ''hi'' \<noteq> [] \<and> trim ''hi'' = ''hi''"
proof -
  have h: "SendMessage (JStr ''hi'') \<in> set (fst (snd (client_run (client_init\<lparr>message_input := '' hi ''\<rparr>) [SubmitForm])))"
    by (simp add: client_run.simps client_step_def client_init_def send_message_def trim_def js_space_def)
  show ?thesis using client_run_sends [OF h] h by simp
qed

theorem history_replay_aborts_witness:
  "list_all authored [\<lparr>msg_id = 1, msg_username = JStr ''A'', msg_text = JStr ''x'', msg_timestamp = 1\<rparr>] \<and>
   \<not> authored \<lparr>msg_id = 2, msg_username = JUndefined, msg_text = JStr ''y'', msg_timestamp = 2\<rparr> \<and>
   snd (on_server_event (ChatHistory [\<lparr>msg_id = 1, msg_username = JStr ''A'', msg_text = JStr ''x'', msg_timestamp = 1\<rparr>,
      \<lparr>msg_id = 2, msg_username = JUndefined, msg_text = JStr ''y'', msg_timestamp = 2\<rparr>,
      \<lparr>msg_id = 3, msg_username = JStr ''B'', msg_text = JStr ''z'', msg_timestamp = 3\<rparr>]) client_init) = Some TypeError"
proof -
  have h1: "list_all authored [\<lparr>msg_id = 1, msg_username = JStr ''A'', msg_text = JStr ''x'', msg_timestamp = 1\<rparr>]"
    by (simp add: authored_def)
  have h2: "\<not> authored \<lparr>msg_id = 2, msg_username = JUndefined, msg_text = JStr ''y'', msg_timestamp = 2\<rparr>"
    by (simp add: authored_def)
  show ?thesis
    using history_replay_aborts [OF h1 h2, of "[\<lparr>msg_id = 3, msg_username = JStr ''B'', msg_text = JStr ''z'', msg_timestamp = 3\<rparr>]" client_init] h1 h2
    by simp
qed

theorem typing_debounce_witness:
  "\<not> blocked client_init \<and> [100, 400, 900] \<noteq> ([] :: nat list) \<and>
   fst (snd (client_run client_init (map InputAt [100, 400, 900] @ [ClockAt 1900]))) =
     [Typing (JBool True), Typing (JBool True), Typing (JBool True), Typing (JBool False)]"
proof -
  have h1: "\<not> blocked client_init" by (simp add: client_init_def)
  have h2: "[100, 400, 900] \<noteq> ([] :: nat list)" by simp
  show ?thesis using typing_debounce [OF h1 h2, of 1900] h1 h2 by simp
qed

theorem own_message_outgoing_witness:
  "msg_username \<lparr>msg_id = 5, msg_username = JStr ''Bob'', msg_text = JStr ''hi'', msg_timestamp = 0\<rparr> =
     JStr (cl_username (client_init\<lparr>cl_username := ''Bob''\<rparr>)) \<and>
   msg_text \<lparr>msg_id = 5, msg_username = JStr ''Bob'', msg_text = JStr ''hi'', msg_timestamp = 0\<rparr> = JStr ''hi'' \<and>
   map fst (chat_elements (message_area (fst (on_server_event
     (NewMessage \<lparr>msg_id = 5, msg_username = JStr ''Bob'', msg_text = JStr ''hi'', msg_timestamp = 0\<rparr>)
     (client_init\<lparr>cl_username := ''Bob''\<rparr>))))) = [''message-5'']"
proof -
  have h: "msg_username \<lparr>msg_id = 5, msg_username = JStr ''Bob'', msg_text = JStr ''hi'', msg_timestamp = 0\<rparr> =
     JStr (cl_username (client_init\<lparr>cl_username := ''Bob''\<rparr>))" by simp
  have h2: "msg_text \<lparr>msg_id = 5, msg_username = JStr ''Bob'', msg_text = JStr ''hi'', msg_timestamp = 0\<rparr> = JStr ''hi''" by simp
  show ?thesis using own_message_outgoing [OF h h2] h h2
    by (simp add: client_init_def digit_char_def string_of_nat.simps)
qed

end
