(* ===== verification/Reconnect.thy ===== *)
theory Reconnect
  imports Client "HOL-Library.Extended_Nat"
begin

text \<open>
  The client's connection manager. \<^verbatim>\<open>io('http://localhost:8000', {reconnectionAttempts: 5,
  timeout: 10000})\<close> (\<^verbatim>\<open>src/nodeServer/public/client.js\<close>, lines 2--5) configures
  socket.io's reconnection loop. The loop itself is library code, so its rules come from
  socket.io-client's documentation: after the link closes, attempt \<open>n = 1, 2, \<dots>\<close> opens a
  new link. An attempt fails with a transport error, or with \<^verbatim>\<open>timeout\<close> when the
  handshake takes \<^verbatim>\<open>timeout\<close> ms or more, and each failure fires the socket's
  \<^verbatim>\<open>connect_error\<close>. When \<^verbatim>\<open>reconnectionAttempts\<close> attempts have failed, the
  manager gives up and fires \<^verbatim>\<open>reconnect_failed\<close> on itself. A successful attempt fires
  \<^verbatim>\<open>reconnect\<close> on the manager and \<^verbatim>\<open>connect\<close> on the socket. Since socket.io 3
  the socket no longer forwards \<^verbatim>\<open>reconnect\<close>, and the server's \<^verbatim>\<open>cors\<close> option
  (\<^verbatim>\<open>index.js\<close>, lines 9--14) is the socket.io 3 API. The loop is
  \<^theory_text>\<open>partial_function (option)\<close>: with socket.io's default of infinitely many attempts
  it need not return.
\<close>

record socket_options =
  so_url :: string
  reconnection_attempts :: enat          \<comment> \<open>\<^verbatim>\<open>reconnectionAttempts\<close>, default \<^verbatim>\<open>Infinity\<close>\<close>
  so_timeout :: nat                      \<comment> \<open>\<^verbatim>\<open>timeout\<close> in ms, default 20000\<close>

definition client_socket_options :: socket_options where
  "client_socket_options =
     \<lparr>so_url = ''http://localhost:8000'', reconnection_attempts = 5, so_timeout = 10000\<rparr>"

definition default_socket_options :: socket_options where
  "default_socket_options = \<lparr>so_url = [], reconnection_attempts = \<infinity>, so_timeout = 20000\<rparr>"

text \<open>What the network does with one attempt: the handshake completes after some ms, or fails.\<close>

datatype handshake =
    Answered nat
  | Refused string                       \<comment> \<open>e.g. \<^verbatim>\<open>xhr poll error\<close>\<close>

definition attempt_error :: "socket_options \<Rightarrow> handshake \<Rightarrow> string option" where
  "attempt_error opts h =
     (case h of
        Answered t \<Rightarrow> if t < so_timeout opts then None else Some ''timeout''
      | Refused msg \<Rightarrow> Some msg)"

datatype manager_result = Reconnected nat | GaveUp

text \<open>
  \<^verbatim>\<open>Manager.reconnect()\<close> after \<open>attempts\<close> failed attempts, with \<open>net n\<close> the
  fate of attempt \<open>n\<close>. The result is the list of events the socket hands to the
  client's listeners (\<open>answers\<close> are the user's answers to the prompt in the
  \<^verbatim>\<open>connect\<close> listener), and how the loop ended.
\<close>

partial_function (option) reconnect ::
  "socket_options \<Rightarrow> (nat \<Rightarrow> handshake) \<Rightarrow> string option list \<Rightarrow> nat \<Rightarrow>
   (client_input list \<times> manager_result) option" where
  "reconnect opts net answers attempts =
     (if reconnection_attempts opts \<le> enat attempts then Some ([], GaveUp)
      else (case attempt_error opts (net (Suc attempts)) of
              None \<Rightarrow> Some ([SocketConnect answers], Reconnected (Suc attempts))
            | Some err \<Rightarrow>
                Option.bind (reconnect opts net answers (Suc attempts))
                  (\<lambda>(evs, r). Some (ConnectError err # evs, r))))"

text \<open>The shape of a returned result: the errors of the failed attempts, then the outcome.\<close>

definition reconnect_ok :: "socket_options \<Rightarrow> string option list \<Rightarrow> nat \<Rightarrow>
    client_input list \<times> manager_result \<Rightarrow> bool" where
  "reconnect_ok opts answers a res \<longleftrightarrow>
     (\<exists>errs. fst res = map ConnectError errs @
        (case snd res of GaveUp \<Rightarrow> [] | Reconnected k \<Rightarrow> [SocketConnect answers]) \<and>
      (case snd res of GaveUp \<Rightarrow> reconnection_attempts opts \<le> enat (a + length errs)
       | Reconnected k \<Rightarrow> k = Suc (a + length errs) \<and> enat k \<le> reconnection_attempts opts) \<and>
      (errs \<noteq> [] \<longrightarrow> enat (a + length errs) \<le> reconnection_attempts opts))"

subsection \<open>The loop, one attempt at a time\<close>

lemma reconnect_gave_up:
  "reconnection_attempts opts \<le> enat a \<Longrightarrow> reconnect opts net answers a = Some ([], GaveUp)"
  by (simp add: reconnect.simps)

lemma reconnect_opened:
  "\<not> reconnection_attempts opts \<le> enat a \<Longrightarrow> attempt_error opts (net (Suc a)) = None \<Longrightarrow>
   reconnect opts net answers a = Some ([SocketConnect answers], Reconnected (Suc a))"
  by (simp add: reconnect.simps)

lemma reconnect_failed:
  "\<not> reconnection_attempts opts \<le> enat a \<Longrightarrow> attempt_error opts (net (Suc a)) = Some err \<Longrightarrow>
   reconnect opts net answers a =
     map_option (\<lambda>(evs, r). (ConnectError err # evs, r)) (reconnect opts net answers (Suc a))"
  by (subst reconnect.simps) (simp add: map_option_case split: option.split)

lemmas reconnect_eval = reconnect_gave_up reconnect_opened reconnect_failed

lemma reconnect_total:
  "reconnection_attempts opts = enat L \<Longrightarrow> \<exists>res. reconnect opts net answers a = Some res"
proof (induction "L - a" arbitrary: a)
  case 0
  then show ?case by (simp add: reconnect_gave_up)
next
  case (Suc k)
  then have "k = L - Suc a" by arith
  with Suc obtain res where "reconnect opts net answers (Suc a) = Some res" by blast
  then show ?case by (subst reconnect.simps) (auto split: option.splits prod.splits)
qed

lemma reconnect_shape:
  assumes ret: "reconnect opts net answers a = Some res"
  shows "reconnect_ok opts answers a res"
proof (rule reconnect.raw_induct [where P = "\<lambda>opts net answers a res. reconnect_ok opts answers a res",
      OF _ ret])
  fix f :: "socket_options \<Rightarrow> (nat \<Rightarrow> handshake) \<Rightarrow> string option list \<Rightarrow> nat \<Rightarrow>
      (client_input list \<times> manager_result) option"
  fix opts net answers a res
  assume IH: "\<And>opts net answers a res. f opts net answers a = Some res \<Longrightarrow> reconnect_ok opts answers a res"
    and eq: "(if reconnection_attempts opts \<le> enat a then Some ([], GaveUp)
      else (case attempt_error opts (net (Suc a)) of
              None \<Rightarrow> Some ([SocketConnect answers], Reconnected (Suc a))
            | Some err \<Rightarrow>
                Option.bind (f opts net answers (Suc a))
                  (\<lambda>(evs, r). Some (ConnectError err # evs, r)))) = Some res"
  show "reconnect_ok opts answers a res"
  proof (cases "reconnection_attempts opts \<le> enat a")
    case True
    with eq show ?thesis by (auto simp: reconnect_ok_def)
  next
    case False
    then have lt: "enat (Suc a) \<le> reconnection_attempts opts"
      by (simp add: Suc_ile_eq)
    show ?thesis
    proof (cases "attempt_error opts (net (Suc a))")
      case None
      with eq False lt show ?thesis by (auto simp: reconnect_ok_def intro: exI [of _ "[]"])
    next
      case (Some err)
      with eq False obtain evs r where
        rec: "f opts net answers (Suc a) = Some (evs, r)" and res: "res = (ConnectError err # evs, r)"
        by (auto split: Option.bind_splits)
      from IH [OF rec] obtain errs where
        e: "evs = map ConnectError errs @
          (case r of GaveUp \<Rightarrow> [] | Reconnected k \<Rightarrow> [SocketConnect answers])"
        and c: "case r of GaveUp \<Rightarrow> reconnection_attempts opts \<le> enat (Suc a + length errs)
          | Reconnected k \<Rightarrow> k = Suc (Suc a + length errs) \<and> enat k \<le> reconnection_attempts opts"
        and b: "errs \<noteq> [] \<longrightarrow> enat (Suc a + length errs) \<le> reconnection_attempts opts"
        unfolding reconnect_ok_def by auto
      have "enat (a + length (err # errs)) \<le> reconnection_attempts opts"
        using b lt by (cases errs) auto
      then show ?thesis
        unfolding reconnect_ok_def res using e c
        by (intro exI [of _ "err # errs"]) (auto split: manager_result.splits)
    qed
  qed
qed

text \<open>With infinitely many attempts allowed and a network that never completes a handshake, the loop does not return.\<close>

lemma reconnect_forever:
  assumes inf: "reconnection_attempts opts = \<infinity>" and dead: "\<And>n. attempt_error opts (net n) \<noteq> None"
  shows "reconnect opts net answers a = None"
proof (rule ccontr)
  assume "reconnect opts net answers a \<noteq> None"
  then obtain res where ret: "reconnect opts net answers a = Some res" by blast
  have "reconnection_attempts opts = \<infinity> \<longrightarrow> (\<forall>n. attempt_error opts (net n) \<noteq> None) \<longrightarrow> False"
  proof (rule reconnect.raw_induct [where P = "\<lambda>opts net answers a res.
      reconnection_attempts opts = \<infinity> \<longrightarrow> (\<forall>n. attempt_error opts (net n) \<noteq> None) \<longrightarrow> False", OF _ ret])
    fix f :: "socket_options \<Rightarrow> (nat \<Rightarrow> handshake) \<Rightarrow> string option list \<Rightarrow> nat \<Rightarrow>
        (client_input list \<times> manager_result) option"
    fix opts net answers a res
    assume IH: "\<And>opts net answers a res. f opts net answers a = Some res \<Longrightarrow>
        reconnection_attempts opts = \<infinity> \<longrightarrow> (\<forall>n. attempt_error opts (net n) \<noteq> None) \<longrightarrow> False"
      and eq: "(if reconnection_attempts opts \<le> enat a then Some ([], GaveUp)
        else (case attempt_error opts (net (Suc a)) of
                None \<Rightarrow> Some ([SocketConnect answers], Reconnected (Suc a))
              | Some err \<Rightarrow>
                  Option.bind (f opts net answers (Suc a))
                    (\<lambda>(evs, r). Some (ConnectError err # evs, r)))) = Some res"
    show "reconnection_attempts opts = \<infinity> \<longrightarrow> (\<forall>n. attempt_error opts (net n) \<noteq> None) \<longrightarrow> False"
    proof (intro impI)
      assume i: "reconnection_attempts opts = \<infinity>" and d: "\<forall>n. attempt_error opts (net n) \<noteq> None"
      then obtain err where e: "attempt_error opts (net (Suc a)) = Some err" by blast
      with eq i obtain res' where "f opts net answers (Suc a) = Some res'"
        by (auto split: Option.bind_splits)
      with IH i d show False by blast
    qed
  qed
  with inf dead show False by blast
qed

subsection \<open>What the client shows\<close>

lemma client_run_connect_errors:
  "\<not> blocked st \<Longrightarrow> client_run st (map ConnectError errs) =
     (st\<lparr>message_area := message_area st @
        map (\<lambda>e. SystemMessage (''Error connecting to the server: '' @ e)) errs\<rparr>, [], [])"
proof (induction errs arbitrary: st)
  case Nil
  then show ?case by simp
next
  case (Cons e errs)
  then show ?case by (simp add: client_run_Cons_eq client_step_def add_system_message_def)
qed

lemma client_run_reconnected:
  assumes "\<not> blocked st" and "prompt_for_username answers = Some name"
  shows "client_run st (SocketDisconnect reason # map ConnectError errs @ [SocketConnect answers]) =
    (st\<lparr>message_area := message_area st @
        [SystemMessage (''Disconnected from the chat server. Reason: '' @ reason)] @
        map (\<lambda>e. SystemMessage (''Error connecting to the server: '' @ e)) errs @
        [SystemMessage ''Connected to the chat server.''],
      cl_username := name, username_text := name, avatar_src := generate_avatar name\<rparr>, [Join (JStr name)], [])"
  using assms
  by (simp add: client_run_Cons_eq client_run_append client_run_connect_errors client_step_def
      add_system_message_def initialize_user_def)

subsection \<open>Properties\<close>

text \<open>C27. With the options of client.js (reconnectionAttempts: 5) the reconnection loop returns whatever the network does: it hands the client one connect_error per failed attempt, at most five of them, and then either gives up after exactly five failures or connects at the attempt after the last failure.\<close>

theorem reconnect_terminates:
  "\<exists>errs r. reconnect client_socket_options net answers 0 =
      Some (map ConnectError errs @ (case r of GaveUp \<Rightarrow> [] | Reconnected k \<Rightarrow> [SocketConnect answers]), r) \<and>
    length errs \<le> 5 \<and>
    (case r of GaveUp \<Rightarrow> length errs = 5 | Reconnected k \<Rightarrow> k = Suc (length errs) \<and> k \<le> 5)"
proof -
  have "reconnection_attempts client_socket_options = enat 5"
    by (simp add: client_socket_options_def numeral_eq_enat)
  from reconnect_total [OF this] obtain res where ret: "reconnect client_socket_options net answers 0 = Some res"
    by blast
  obtain evs r where res: "res = (evs, r)" by fastforce
  have lim: "reconnection_attempts client_socket_options = 5" by (simp add: client_socket_options_def)
  obtain errs where
    e: "evs = map ConnectError errs @ (case r of GaveUp \<Rightarrow> [] | Reconnected k \<Rightarrow> [SocketConnect answers])"
    and c: "case r of GaveUp \<Rightarrow> 5 \<le> enat (length errs) | Reconnected k \<Rightarrow> k = Suc (length errs) \<and> enat k \<le> 5"
    and b: "errs \<noteq> [] \<longrightarrow> enat (length errs) \<le> 5"
    using reconnect_shape [OF ret] unfolding reconnect_ok_def res lim
    by (simp only: fst_conv snd_conv add.left_neutral) blast
  have "length errs \<le> 5 \<and>
    (case r of GaveUp \<Rightarrow> length errs = 5 | Reconnected k \<Rightarrow> k = Suc (length errs) \<and> k \<le> 5)"
  proof (cases r)
    case GaveUp
    with c b show ?thesis by (cases errs) (auto simp: numeral_eq_enat)
  next
    case (Reconnected k)
    with c show ?thesis by (auto simp: numeral_eq_enat)
  qed
  with ret res e show ?thesis by blast
qed

text \<open>C28. After the link drops and the k-th reconnection attempt succeeds (k at most 5), the client shows the disconnect notice, one error per failed attempt and the connected notice, prompts for a name again and emits join with the new answer: the reconnect listener, which would re-send the old name, never runs.\<close>

theorem reconnect_prompts_again:
  assumes "reconnect client_socket_options net answers 0 = Some (evs, Reconnected k)"
    and "\<not> blocked st" and "prompt_for_username answers = Some name"
  shows "\<exists>errs. k = Suc (length errs) \<and> k \<le> 5 \<and>
    client_run st (SocketDisconnect reason # evs) =
    (st\<lparr>message_area := message_area st @
        [SystemMessage (''Disconnected from the chat server. Reason: '' @ reason)] @
        map (\<lambda>e. SystemMessage (''Error connecting to the server: '' @ e)) errs @
        [SystemMessage ''Connected to the chat server.''],
      cl_username := name, username_text := name, avatar_src := generate_avatar name\<rparr>, [Join (JStr name)], [])"
proof -
  obtain errs where e: "evs = map ConnectError errs @ [SocketConnect answers]"
    and k: "k = Suc (length errs)" and b: "enat k \<le> 5"
    using reconnect_shape [OF assms(1)] by (auto simp: reconnect_ok_def client_socket_options_def)
  from b have "k \<le> 5" by (simp add: numeral_eq_enat)
  with k e show ?thesis
    using client_run_reconnected [OF assms(2,3)] by blast
qed

text \<open>C29. When all five attempts fail the manager gives up: the client shows the disconnect notice and exactly five connection errors, emits nothing, and nothing tells the user that it stopped retrying.\<close>

theorem reconnect_gives_up_silently:
  assumes "reconnect client_socket_options net answers 0 = Some (evs, GaveUp)" and "\<not> blocked st"
  shows "\<exists>errs. length errs = 5 \<and>
    client_run st (SocketDisconnect reason # evs) =
    (st\<lparr>message_area := message_area st @
        [SystemMessage (''Disconnected from the chat server. Reason: '' @ reason)] @
        map (\<lambda>e. SystemMessage (''Error connecting to the server: '' @ e)) errs\<rparr>, [], [])"
proof -
  obtain errs where e: "evs = map ConnectError errs" and lo: "5 \<le> enat (length errs)"
    and hi: "errs \<noteq> [] \<longrightarrow> enat (length errs) \<le> 5"
    using reconnect_shape [OF assms(1)] by (auto simp: reconnect_ok_def client_socket_options_def)
  from lo hi have "length errs = 5" by (cases errs) (auto simp: numeral_eq_enat)
  moreover have "client_run st (SocketDisconnect reason # evs) =
    (st\<lparr>message_area := message_area st @
        [SystemMessage (''Disconnected from the chat server. Reason: '' @ reason)] @
        map (\<lambda>e. SystemMessage (''Error connecting to the server: '' @ e)) errs\<rparr>, [], [])"
    using assms(2) by (simp add: e client_run_Cons_eq client_run_connect_errors client_step_def
        add_system_message_def)
  ultimately show ?thesis by blast
qed

subsection \<open>Witnesses\<close>

theorem reconnect_prompts_again_witness:
  "reconnect client_socket_options (\<lambda>i. if i < 3 then Refused ''xhr poll error'' else Answered 20)
     [Some ''Bo''] 0 =
     Some ([ConnectError ''xhr poll error'', ConnectError ''xhr poll error'', SocketConnect [Some ''Bo'']],
       Reconnected 3) \<and>
   \<not> blocked client_init \<and> prompt_for_username [Some ''Bo''] = Some ''Bo'' \<and>
   fst (snd (client_run client_init (SocketDisconnect ''transport close'' #
     [ConnectError ''xhr poll error'', ConnectError ''xhr poll error'', SocketConnect [Some ''Bo'']]))) =
     [Join (JStr ''Bo'')]"
proof -
  have h1: "reconnect client_socket_options (\<lambda>i. if i < 3 then Refused ''xhr poll error'' else Answered 20)
     [Some ''Bo''] 0 =
     Some ([ConnectError ''xhr poll error'', ConnectError ''xhr poll error'', SocketConnect [Some ''Bo'']],
       Reconnected 3)"
    by (simp add: reconnect_eval client_socket_options_def attempt_error_def numeral_eq_enat)
  have h2: "\<not> blocked client_init" by (simp add: client_init_def)
  have h3: "prompt_for_username [Some ''Bo''] = Some ''Bo''" by (simp add: trim_def js_space_def)
  show ?thesis
    using reconnect_prompts_again [OF h1 h2 h3, of "''transport close''"] h1 h2 h3 by auto
qed

theorem reconnect_gives_up_silently_witness:
  "reconnect client_socket_options (\<lambda>i. Answered 20000) [] 0 =
     Some ([ConnectError ''timeout'', ConnectError ''timeout'', ConnectError ''timeout'',
            ConnectError ''timeout'', ConnectError ''timeout''], GaveUp) \<and>
   \<not> blocked client_init \<and>
   length (message_area (fst (client_run client_init (SocketDisconnect ''ping timeout'' #
     [ConnectError ''timeout'', ConnectError ''timeout'', ConnectError ''timeout'',
      ConnectError ''timeout'', ConnectError ''timeout''])))) = 6"
proof -
  have h1: "reconnect client_socket_options (\<lambda>i. Answered 20000) [] 0 =
     Some ([ConnectError ''timeout'', ConnectError ''timeout'', ConnectError ''timeout'',
            ConnectError ''timeout'', ConnectError ''timeout''], GaveUp)"
    by (simp add: reconnect_eval client_socket_options_def attempt_error_def numeral_eq_enat)
  have h2: "\<not> blocked client_init" by (simp add: client_init_def)
  show ?thesis
    using reconnect_gives_up_silently [OF h1 h2, of "''ping timeout''"] h1 h2 by (auto simp: client_init_def)
qed

end
