(* ===== verification/Http.thy ===== *)
theory Http
  imports Chat_Prelude
begin

text \<open>
  The HTTP side of \<^verbatim>\<open>src/nodeServer/index.js\<close> (lines 7--28): an express app behind
  \<^verbatim>\<open>http.createServer(app)\<close>, with socket.io attached to the same server. A request
  whose path starts with \<^verbatim>\<open>/socket.io/\<close> goes to socket.io's engine, which answers with
  the CORS headers of the \<^verbatim>\<open>cors\<close> option. Every other request runs through the
  middleware chain in the order of the \<^verbatim>\<open>app.use\<close>/\<^verbatim>\<open>app.get\<close> calls: \<^verbatim>\<open>cors()\<close>,
  then \<^verbatim>\<open>express.static(public)\<close>, then the route for \<^verbatim>\<open>/\<close>, then express's final
  handler (404). A middleware either answers or calls \<^verbatim>\<open>next()\<close> with the headers
  set so far. The libraries are not under \<^verbatim>\<open>src/\<close>, so their rules come from their
  documentation: \<^verbatim>\<open>cors\<close> (defaults), \<^verbatim>\<open>serve-static\<close> and \<^verbatim>\<open>send\<close> (path
  normalisation, the \<^verbatim>\<open>..\<close> check, hidden dot-files, \<^verbatim>\<open>index.html\<close>, directory
  redirect, fall-through on every 4xx), \<^verbatim>\<open>res.sendFile\<close>, and Node's
  \<^verbatim>\<open>path.normalize\<close>. The request path is the pathname after percent-decoding.
  The express major version is a parameter, since the two differ on dot-files.
  The file system is the list of absolute paths of its regular files; a directory is a
  strict prefix of one of them.
\<close>

datatype http_method = GET | HEAD | POST | PUT | PATCH | DELETE | OPTIONS

record request =
  req_method :: http_method
  req_path :: string                      \<comment> \<open>pathname, percent-decoded\<close>

datatype body =
    FileBody "string list"                \<comment> \<open>the file at this absolute path\<close>
  | RedirectTo string                     \<comment> \<open>\<^verbatim>\<open>301\<close>, \<^verbatim>\<open>Location\<close>\<close>
  | EmptyBody                             \<comment> \<open>\<^verbatim>\<open>204\<close> of a CORS preflight\<close>
  | CannotGet http_method string          \<comment> \<open>finalhandler without error: \<^verbatim>\<open>Cannot GET /path\<close>\<close>
  | ErrorPage                             \<comment> \<open>finalhandler for \<^verbatim>\<open>next(err)\<close>: the error's page\<close>

type_synonym headers = "(string \<times> string) list"

record response =
  status :: nat
  resp_headers :: headers
  body :: body

text \<open>Who answers: socket.io's engine (with the headers it sets), or the express app.\<close>

datatype http_result = Engine headers | App response

type_synonym files = "string list list"

definition is_file :: "files \<Rightarrow> string list \<Rightarrow> bool" where
  "is_file fs p \<longleftrightarrow> p \<in> set fs"

definition is_dir :: "files \<Rightarrow> string list \<Rightarrow> bool" where
  "is_dir fs p \<longleftrightarrow> list_ex (strict_prefix p) fs"

text \<open>An absolute directory as \<^verbatim>\<open>__dirname\<close> gives it: proper names only.\<close>

definition abs_dir :: "string list \<Rightarrow> bool" where
  "abs_dir d \<longleftrightarrow> list_all (\<lambda>s. s \<noteq> [] \<and> s \<noteq> ''.'' \<and> s \<noteq> ''..'' \<and> CHR ''/'' \<notin> set s) d"

text \<open>A segment that normalisation leaves alone.\<close>

definition clean_seg :: "string \<Rightarrow> bool" where
  "clean_seg s \<longleftrightarrow> s \<noteq> [] \<and> s \<noteq> ''.'' \<and> s \<noteq> ''..''"

subsection \<open>Paths\<close>

text \<open>\<^verbatim>\<open>String.prototype.split\<close> with a one-character separator.\<close>

fun split_on :: "char \<Rightarrow> string \<Rightarrow> string list" where
  "split_on d [] = [[]]"
| "split_on d (c # cs) =
     (if c = d then [] # split_on d cs
      else (case split_on d cs of w # ws \<Rightarrow> (c # w) # ws | [] \<Rightarrow> [[c]]))"

text \<open>
  Node's \<^verbatim>\<open>normalizeString\<close>: empty and \<^verbatim>\<open>.\<close> segments vanish, \<^verbatim>\<open>..\<close> removes
  the segment before it; at the start it is kept in a relative path
  (\<open>allow_up\<close>) and dropped in an absolute one. \<open>acc\<close> holds the result reversed.
\<close>

fun normalize_segs :: "bool \<Rightarrow> string list \<Rightarrow> string list \<Rightarrow> string list" where
  "normalize_segs allow_up [] acc = rev acc"
| "normalize_segs allow_up (s # ss) acc =
     (if s = [] \<or> s = ''.'' then normalize_segs allow_up ss acc
      else if s = ''..'' then
        (case acc of
           x # acc' \<Rightarrow> if x = ''..'' then normalize_segs allow_up ss (s # acc) else normalize_segs allow_up ss acc'
         | [] \<Rightarrow> if allow_up then normalize_segs allow_up ss [s] else normalize_segs allow_up ss [])
      else normalize_segs allow_up ss (s # acc))"

text \<open>\<^verbatim>\<open>send\<close>'s \<^verbatim>\<open>UP_PATH_REGEXP = /(?:^|[\\/])\.\.(?:[\\/]|$)/\<close> on the normalised path.\<close>

definition up_path :: "string list \<Rightarrow> bool" where
  "up_path parts \<longleftrightarrow> list_ex (\<lambda>s. ''..'' \<in> set (split_on (CHR 0x5C) s)) parts"

text \<open>\<^verbatim>\<open>send\<close>'s \<^verbatim>\<open>containsDotFile(parts)\<close>.\<close>

definition contains_dotfile :: "string list \<Rightarrow> bool" where
  "contains_dotfile parts \<longleftrightarrow> list_ex (\<lambda>p. 1 < length p \<and> hd p = CHR ''.'') parts"

subsection \<open>The middleware\<close>

type_synonym middleware = "headers \<Rightarrow> request \<Rightarrow> headers + response"

text \<open>\<^verbatim>\<open>app.use(cors())\<close>, line 16, with the package's defaults.\<close>

definition cors_mw :: middleware where
  "cors_mw hs req =
     (if req_method req = OPTIONS then
        Inr \<lparr>status = 204,
             resp_headers = hs @ [(''Access-Control-Allow-Origin'', ''*''),
               (''Access-Control-Allow-Methods'', ''GET,HEAD,PUT,PATCH,POST,DELETE'')],
             body = EmptyBody\<rparr>
      else Inl (hs @ [(''Access-Control-Allow-Origin'', ''*'')]))"

datatype static_result = Serve "string list" | Redirect | Fallthrough

text \<open>
  The repository does not pin the express version, and the two current majors treat
  dot-files differently when \<^verbatim>\<open>dotfiles\<close> is not set. Express 4 (\<^verbatim>\<open>send\<close> 0.x)
  keeps its legacy rule: the path is ignored only when its last part starts with a dot.
  Express 5 (\<^verbatim>\<open>send\<close> 1.x) ignores a path with any dot-file part.
\<close>

datatype express_major = Express4 | Express5

definition dotfile_ignored :: "express_major \<Rightarrow> string list \<Rightarrow> bool \<Rightarrow> bool" where
  "dotfile_ignored v parts trailing \<longleftrightarrow> contains_dotfile parts \<and>
     (v = Express5 \<or> (\<not> trailing \<and> parts \<noteq> [] \<and> hd (last parts) = CHR ''.''))"

text \<open>
  \<^verbatim>\<open>send(req, path, {root})\<close> as \<^verbatim>\<open>serve-static\<close> calls it: a NUL byte (400), an
  up-path (403) and a dot-file (404) fall through to the next middleware. A path ending in
  \<^verbatim>\<open>/\<close> is served \<^verbatim>\<open>index.html\<close>, and a directory is redirected.
\<close>

definition serve_static :: "express_major \<Rightarrow> files \<Rightarrow> string list \<Rightarrow> string \<Rightarrow> static_result" where
  "serve_static v fs root path =
     (if CHR 0x00 \<in> set path then Fallthrough
      else
        (let parts = normalize_segs True (split_on (CHR ''/'') path) []
         in if up_path parts then Fallthrough
            else
              (let p = normalize_segs False (root @ parts) []
               in if dotfile_ignored v parts (path \<noteq> [] \<and> last path = CHR ''/'') then Fallthrough
                  else if path \<noteq> [] \<and> last path = CHR ''/'' then
                    (if is_file fs (p @ [''index.html'']) then Serve (p @ [''index.html'']) else Fallthrough)
                  else if is_file fs p then Serve p
                  else if is_dir fs p then Redirect
                  else Fallthrough)))"

definition public_dir :: "string list \<Rightarrow> string list" where
  "public_dir dirname = dirname @ [''public'']"

text \<open>\<^verbatim>\<open>app.use(express.static(path.join(__dirname, 'public')))\<close>, line 22.\<close>

definition static_mw :: "express_major \<Rightarrow> files \<Rightarrow> string list \<Rightarrow> middleware" where
  "static_mw v fs root hs req =
     (if req_method req \<noteq> GET \<and> req_method req \<noteq> HEAD then Inl hs
      else case serve_static v fs root (req_path req) of
        Serve f \<Rightarrow> Inr \<lparr>status = 200, resp_headers = hs, body = FileBody f\<rparr>
      | Redirect \<Rightarrow> Inr \<lparr>status = 301, resp_headers = hs @ [(''Location'', req_path req @ ''/'')],
                         body = RedirectTo (req_path req @ ''/'')\<rparr>
      | Fallthrough \<Rightarrow> Inl hs)"

text \<open>
  \<^verbatim>\<open>app.get('/', ...)\<close> with \<^verbatim>\<open>res.sendFile(path.join(__dirname, 'public', 'index.html'))\<close>,
  lines 26--28 (express routes a GET route for HEAD too). \<^verbatim>\<open>res.sendFile\<close>'s callback
  turns \<^verbatim>\<open>EISDIR\<close> into \<^verbatim>\<open>next()\<close>, so a directory falls through to the final
  handler, and any other error into \<^verbatim>\<open>next(err)\<close>: a missing file is \<^verbatim>\<open>send\<close>'s
  404 error, which no error middleware catches, so finalhandler renders its error page
  with status 404.
\<close>

definition get_root_mw :: "files \<Rightarrow> string list \<Rightarrow> middleware" where
  "get_root_mw fs dirname hs req =
     (if (req_method req = GET \<or> req_method req = HEAD) \<and> req_path req = ''/'' then
        (let f = public_dir dirname @ [''index.html'']
         in if is_file fs f then Inr \<lparr>status = 200, resp_headers = hs, body = FileBody f\<rparr>
            else if is_dir fs f then Inl hs
            else Inr \<lparr>status = 404, resp_headers = hs, body = ErrorPage\<rparr>)
      else Inl hs)"

text \<open>Express's final handler when no middleware answered: \<^verbatim>\<open>404 Cannot <METHOD> <path>\<close>.\<close>

definition final_handler :: "headers \<Rightarrow> request \<Rightarrow> response" where
  "final_handler hs req = \<lparr>status = 404, resp_headers = hs, body = CannotGet (req_method req) (req_path req)\<rparr>"

fun run_chain :: "middleware list \<Rightarrow> headers \<Rightarrow> request \<Rightarrow> response" where
  "run_chain [] hs req = final_handler hs req"
| "run_chain (m # ms) hs req = (case m hs req of Inl hs' \<Rightarrow> run_chain ms hs' req | Inr r \<Rightarrow> r)"

text \<open>The app of lines 7--28, its middleware in registration order.\<close>

definition app_chain :: "express_major \<Rightarrow> files \<Rightarrow> string list \<Rightarrow> middleware list" where
  "app_chain v fs dirname = [cors_mw, static_mw v fs (public_dir dirname), get_root_mw fs dirname]"

text \<open>The headers of socket.io's \<^verbatim>\<open>cors: {origin: "*", methods: ["GET", "POST"]}\<close>, lines 9--14.\<close>

definition io_cors_headers :: "request \<Rightarrow> headers" where
  "io_cors_headers req =
     [(''Access-Control-Allow-Origin'', ''*'')] @
     (if req_method req = OPTIONS then [(''Access-Control-Allow-Methods'', ''GET,POST'')] else [])"

text \<open>\<^verbatim>\<open>http.createServer(app)\<close> with socket.io attached (lines 8--9): the engine takes the paths under \<^verbatim>\<open>/socket.io/\<close>.\<close>

definition http_handle :: "express_major \<Rightarrow> files \<Rightarrow> string list \<Rightarrow> request \<Rightarrow> http_result" where
  "http_handle v fs dirname req =
     (if prefix ''/socket.io/'' (req_path req) then Engine (io_cors_headers req)
      else App (run_chain (app_chain v fs dirname) [] req))"

text \<open>\<^verbatim>\<open>const PORT = process.env.PORT || 8000\<close>, line 18: the variable's string when it is set and non-empty.\<close>

datatype js_port = PortString string | PortNumber nat

definition port_of :: "string option \<Rightarrow> js_port" where
  "port_of env = (if js_truthy (js_of_option (map_option JStr env)) then PortString (the env) else PortNumber 8000)"

subsection \<open>Lemmas\<close>

lemma normalize_segs_clean:
  "list_all clean_seg xs \<Longrightarrow> normalize_segs b xs acc = rev acc @ xs"
  by (induction xs arbitrary: acc) (auto simp: clean_seg_def)

lemma normalize_segs_no_dots:
  "list_all (\<lambda>s. s \<noteq> [] \<and> s \<noteq> ''.'') acc \<Longrightarrow>
   list_all (\<lambda>s. s \<noteq> [] \<and> s \<noteq> ''.'') (normalize_segs b xs acc)"
  by (induction b xs acc rule: normalize_segs.induct) (auto split: list.splits)

lemma dotdot_split: "''..'' \<in> set (split_on (CHR 0x5C) ''..'')"
  by simp

lemma not_up_path_clean:
  assumes "\<not> up_path parts" and "list_all (\<lambda>s. s \<noteq> [] \<and> s \<noteq> ''.'') parts"
  shows "list_all clean_seg parts"
  using assms dotdot_split by (auto simp: up_path_def clean_seg_def list_ex_iff list_all_iff)

lemma abs_dir_clean: "abs_dir d \<Longrightarrow> list_all clean_seg d"
  by (auto simp: abs_dir_def clean_seg_def list_all_iff)

lemma public_dir_clean: "abs_dir d \<Longrightarrow> list_all clean_seg (public_dir d)"
  by (simp add: public_dir_def abs_dir_clean clean_seg_def)

lemma dotfile_last:
  assumes "list_all (\<lambda>s. s \<noteq> [] \<and> s \<noteq> ''.'') parts" and "parts \<noteq> []"
    and "\<not> dotfile_ignored v parts False"
  shows "hd (last parts) \<noteq> CHR ''.''"
proof
  assume h: "hd (last parts) = CHR ''.''"
  have l: "last parts \<in> set parts" using assms(2) by simp
  with assms(1) have "last parts \<noteq> []" "last parts \<noteq> ''.''" by (auto simp: list_all_iff)
  with h have "1 < length (last parts)" by (cases "last parts") auto
  with h l have "contains_dotfile parts" by (auto simp: contains_dotfile_def list_ex_iff)
  with h assms(2,3) show False by (cases v) (auto simp: dotfile_ignored_def)
qed

lemma serve_static_Serve:
  assumes "serve_static v fs root path = Serve f" and "list_all clean_seg root"
    and "root \<noteq> []" and "hd (last root) \<noteq> CHR ''.''"
  shows "is_file fs f \<and> prefix root f \<and> hd (last f) \<noteq> CHR ''.'' \<and>
    (v = Express5 \<longrightarrow> \<not> contains_dotfile (drop (length root) f))"
proof -
  let ?parts = "normalize_segs True (split_on (CHR ''/'') path) []"
  let ?tr = "path \<noteq> [] \<and> last path = CHR ''/''"
  have nd: "list_all (\<lambda>s. s \<noteq> [] \<and> s \<noteq> ''.'') ?parts"
    by (rule normalize_segs_no_dots) simp
  from assms(1) have up: "\<not> up_path ?parts" and dot: "\<not> dotfile_ignored v ?parts ?tr"
    by (auto simp: serve_static_def Let_def split: if_splits)
  have cl: "list_all clean_seg (root @ ?parts)"
    using assms(2) not_up_path_clean [OF up nd] by simp
  have p: "normalize_segs False (root @ ?parts) [] = root @ ?parts"
    using normalize_segs_clean [OF cl] by simp
  have e5: "v = Express5 \<longrightarrow> \<not> contains_dotfile ?parts"
    using dot by (auto simp: dotfile_ignored_def)
  show ?thesis
  proof (cases ?tr)
    case True
    with assms(1) have "f = root @ ?parts @ [''index.html''] \<and> is_file fs f"
      by (auto simp: serve_static_def Let_def p split: if_splits)
    with e5 show ?thesis by (auto simp: contains_dotfile_def)
  next
    case False
    with assms(1) have f: "f = root @ ?parts \<and> is_file fs f"
      by (auto simp: serve_static_def Let_def p split: if_splits)
    have "hd (last f) \<noteq> CHR ''.''"
    proof (cases "?parts = []")
      case True
      with f assms(4) show ?thesis by simp
    next
      case ne: False
      have "\<not> dotfile_ignored v ?parts False" using dot False by simp
      from dotfile_last [OF nd ne this] f ne show ?thesis by simp
    qed
    with f e5 show ?thesis by auto
  qed
qed

lemma static_mw_headers:
  "static_mw v fs root hs req = Inl hs' \<Longrightarrow> hs' = hs"
  "static_mw v fs root hs req = Inr r \<Longrightarrow> prefix hs (resp_headers r)"
  by (auto simp: static_mw_def split: if_splits static_result.splits)

lemma get_root_mw_headers:
  "get_root_mw fs d hs req = Inl hs' \<Longrightarrow> hs' = hs"
  "get_root_mw fs d hs req = Inr r \<Longrightarrow> prefix hs (resp_headers r)"
  by (auto simp: get_root_mw_def Let_def split: if_splits)

lemma static_mw_FileBody:
  "static_mw v fs root hs req = Inr r \<Longrightarrow> body r = FileBody f \<Longrightarrow> serve_static v fs root (req_path req) = Serve f"
  by (auto simp: static_mw_def split: if_splits static_result.splits)

lemma get_root_mw_FileBody:
  "get_root_mw fs d hs req = Inr r \<Longrightarrow> body r = FileBody f \<Longrightarrow>
   f = public_dir d @ [''index.html''] \<and> is_file fs f"
  by (auto simp: get_root_mw_def Let_def split: if_splits)


lemma run_chain_keeps_headers:
  "prefix hs (resp_headers (run_chain [static_mw v fs root, get_root_mw fs d] hs req))"
proof (cases "static_mw v fs root hs req")
  case (Inl hs1)
  with static_mw_headers(1) have h1: "hs1 = hs" by blast
  show ?thesis
  proof (cases "get_root_mw fs d hs1 req")
    case (Inl hs2)
    with get_root_mw_headers(1) have "hs2 = hs1" by blast
    with Inl \<open>static_mw v fs root hs req = Inl hs1\<close> h1 show ?thesis by (simp add: final_handler_def)
  next
    case (Inr r)
    with get_root_mw_headers(2) have "prefix hs1 (resp_headers r)" by blast
    with Inr \<open>static_mw v fs root hs req = Inl hs1\<close> h1 show ?thesis by simp
  qed
next
  case (Inr r)
  with static_mw_headers(2) have "prefix hs (resp_headers r)" by blast
  with Inr show ?thesis by simp
qed

lemma app_chain_cors:
  "(''Access-Control-Allow-Origin'', ''*'') \<in> set (resp_headers (run_chain (app_chain v fs d) [] req))"
proof (cases "req_method req = OPTIONS")
  case True
  then show ?thesis by (simp add: app_chain_def cors_mw_def)
next
  case False
  have "prefix [(''Access-Control-Allow-Origin'', ''*'')]
      (resp_headers (run_chain [static_mw v fs (public_dir d), get_root_mw fs d]
        [(''Access-Control-Allow-Origin'', ''*'')] req))"
    by (rule run_chain_keeps_headers)
  then have "(''Access-Control-Allow-Origin'', ''*'') \<in>
      set (resp_headers (run_chain [static_mw v fs (public_dir d), get_root_mw fs d]
        [(''Access-Control-Allow-Origin'', ''*'')] req))"
    using set_mono_prefix by fastforce
  with False show ?thesis by (simp add: app_chain_def cors_mw_def)
qed

subsection \<open>Properties\<close>



text \<open>C32. Whatever the request path (.. segments, backslashes, dot-files), every file the HTTP server sends is a regular file under public/ whose name does not start with a dot; with express 5 no part of its path below public/ is a dot-file either.\<close>

theorem http_serves_only_public:
  assumes "abs_dir dirname" and "http_handle v fs dirname req = App r" and "body r = FileBody f"
  shows "is_file fs f \<and> prefix (public_dir dirname) f \<and> hd (last f) \<noteq> CHR ''.'' \<and>
    (v = Express5 \<longrightarrow> \<not> contains_dotfile (drop (length (public_dir dirname)) f))"
proof -
  have cl: "list_all clean_seg (public_dir dirname)" using assms(1) by (rule public_dir_clean)
  have "serve_static v fs (public_dir dirname) (req_path req) = Serve f \<or>
      (f = public_dir dirname @ [''index.html''] \<and> is_file fs f)"
    using assms(2,3)
    by (auto simp: http_handle_def app_chain_def cors_mw_def final_handler_def
        dest: static_mw_FileBody get_root_mw_FileBody split: if_splits sum.splits)
  moreover have "public_dir dirname \<noteq> []" "hd (last (public_dir dirname)) \<noteq> CHR ''.''"
    by (simp_all add: public_dir_def)
  ultimately show ?thesis
    using serve_static_Serve [OF _ cl] by (auto simp: contains_dotfile_def)
qed

text \<open>Every HTTP answer, of the express app or of socket.io's engine, allows every origin: it carries Access-Control-Allow-Origin: *.\<close>

theorem http_cors_any_origin:
  "(''Access-Control-Allow-Origin'', ''*'') \<in>
     set (case http_handle v fs dirname req of Engine hs \<Rightarrow> hs | App r \<Rightarrow> resp_headers r)"
  using app_chain_cors by (simp add: http_handle_def io_cors_headers_def)

subsection \<open>Witnesses\<close>

theorem http_serves_only_public_witness:
  "abs_dir [''srv''] \<and>
   http_handle Express4 [[''srv'', ''index.js''], [''srv'', ''public'', ''client.js'']] [''srv'']
     \<lparr>req_method = GET, req_path = ''/img/../client.js''\<rparr> =
     App \<lparr>status = 200, resp_headers = [(''Access-Control-Allow-Origin'', ''*'')],
          body = FileBody [''srv'', ''public'', ''client.js'']\<rparr> \<and>
   prefix (public_dir [''srv'']) [''srv'', ''public'', ''client.js'']"
proof -
  have h1: "abs_dir [''srv'']" by (simp add: abs_dir_def)
  have h2: "http_handle Express4 [[''srv'', ''index.js''], [''srv'', ''public'', ''client.js'']] [''srv'']
     \<lparr>req_method = GET, req_path = ''/img/../client.js''\<rparr> =
     App \<lparr>status = 200, resp_headers = [(''Access-Control-Allow-Origin'', ''*'')],
          body = FileBody [''srv'', ''public'', ''client.js'']\<rparr>"
    by (simp add: http_handle_def app_chain_def cors_mw_def static_mw_def serve_static_def
        public_dir_def is_file_def up_path_def dotfile_ignored_def contains_dotfile_def)
  have h3: "body \<lparr>status = 200, resp_headers = [(''Access-Control-Allow-Origin'', ''*'')],
          body = FileBody [''srv'', ''public'', ''client.js'']\<rparr> = FileBody [''srv'', ''public'', ''client.js'']"
    by simp
  show ?thesis using http_serves_only_public [OF h1 h2 h3] h1 h2 by simp
qed



end
