(* ===== verification/Listen.thy ===== *)
theory Listen
  imports Complex_Main Http Client_Render
begin

text \<open>
  \<^verbatim>\<open>server.listen(PORT, ...)\<close> of \<^verbatim>\<open>src/nodeServer/index.js\<close> (lines 95--97), with
  \<open>PORT\<close> from line 18 (\<open>port_of\<close>): the environment string, or the number 8000.
  Node's \<^verbatim>\<open>net.Server.listen\<close> is a library, so its rules are modelled from its
  documentation and source: a string whose \<^verbatim>\<open>Number(...)\<close> is not \<open>\<ge> 0\<close> is a pipe
  name (\<^verbatim>\<open>isPipeName\<close>); any other value must pass \<^verbatim>\<open>validatePort\<close> (an integer in
  0..65535, not a blank string), or \<^verbatim>\<open>listen\<close> throws \<^verbatim>\<open>ERR_SOCKET_BAD_PORT\<close>, a
  \<^verbatim>\<open>RangeError\<close> that nothing catches, so the process exits at start-up.
  \<open>string_to_number\<close> is ECMAScript's StringToNumber: white space trimmed, the empty
  string is 0, decimal literals with sign, fraction and exponent, \<^verbatim>\<open>Infinity\<close>, and
  \<^verbatim>\<open>0x\<close>/\<^verbatim>\<open>0o\<close>/\<^verbatim>\<open>0b\<close> literals; everything else is NaN. Values are kept as exact
  rationals rather than rounded to doubles.
\<close>

datatype js_number = NaN | Finite rat | PosInf | NegInf

text \<open>The value of a digit character (\<^verbatim>\<open>0-9\<close>, then \<^verbatim>\<open>a-z\<close>/\<^verbatim>\<open>A-Z\<close> from 10); 36 for any other character.\<close>

definition digit_val :: "char \<Rightarrow> nat" where
  "digit_val c =
     (let n = (of_char c :: nat) in
      if 48 \<le> n \<and> n \<le> 57 then n - 48
      else if 97 \<le> n \<and> n \<le> 122 then n - 87
      else if 65 \<le> n \<and> n \<le> 90 then n - 55 else 36)"

definition digits_value :: "nat \<Rightarrow> string \<Rightarrow> nat" where
  "digits_value b ds = foldl (\<lambda>acc c. acc * b + digit_val c) 0 ds"

text \<open>\<open>ExponentPart\<close>: empty, or \<^verbatim>\<open>e\<close>/\<^verbatim>\<open>E\<close>, an optional sign and decimal digits.\<close>

definition parse_exponent :: "string \<Rightarrow> int option" where
  "parse_exponent r =
     (if r = [] then Some 0
      else if hd r \<notin> {CHR ''e'', CHR ''E''} then None
      else (let t = tl r;
                neg = (t \<noteq> [] \<and> hd t = CHR ''-'');
                ds = (if t \<noteq> [] \<and> hd t \<in> {CHR ''+'', CHR ''-''} then tl t else t)
            in if ds \<noteq> [] \<and> list_all (\<lambda>c. digit_val c < 10) ds
               then Some ((if neg then -1 else 1) * int (digits_value 10 ds)) else None))"

definition dec_value :: "nat \<Rightarrow> int \<Rightarrow> rat" where
  "dec_value m k = (if 0 \<le> k then of_nat m * 10 ^ nat k else of_nat m / 10 ^ nat (- k))"

text \<open>\<open>StrUnsignedDecimalLiteral\<close>: \<^verbatim>\<open>Infinity\<close>, or digits with an optional fraction and exponent.\<close>

definition parse_unsigned_decimal :: "string \<Rightarrow> js_number option" where
  "parse_unsigned_decimal s =
     (if s = ''Infinity'' then Some PosInf
      else (let isd = (\<lambda>c. digit_val c < 10);
                ip = takeWhile isd s; r1 = dropWhile isd s;
                dot = (r1 \<noteq> [] \<and> hd r1 = CHR ''.'');
                fp = (if dot then takeWhile isd (tl r1) else []);
                r2 = (if dot then dropWhile isd (tl r1) else r1)
            in if ip = [] \<and> fp = [] then None
               else map_option (\<lambda>e. Finite (dec_value (digits_value 10 (ip @ fp)) (e - int (length fp))))
                      (parse_exponent r2)))"

text \<open>\<open>StrDecimalLiteral\<close>: an optional sign before the unsigned literal.\<close>

definition parse_decimal :: "string \<Rightarrow> js_number option" where
  "parse_decimal s =
     (if s \<noteq> [] \<and> hd s = CHR ''+'' then parse_unsigned_decimal (tl s)
      else if s \<noteq> [] \<and> hd s = CHR ''-'' then
        map_option (\<lambda>v. case v of Finite q \<Rightarrow> Finite (- q) | PosInf \<Rightarrow> NegInf | NegInf \<Rightarrow> PosInf | NaN \<Rightarrow> NaN)
          (parse_unsigned_decimal (tl s))
      else parse_unsigned_decimal s)"

text \<open>\<open>NonDecimalIntegerLiteral\<close>: \<^verbatim>\<open>0x\<close>, \<^verbatim>\<open>0o\<close> or \<^verbatim>\<open>0b\<close> (either case) and at least one digit of that base.\<close>

definition parse_non_decimal :: "string \<Rightarrow> js_number option" where
  "parse_non_decimal s =
     (case s of
        z # c # ds \<Rightarrow>
          (let b = (if c \<in> {CHR ''x'', CHR ''X''} then 16 else if c \<in> {CHR ''o'', CHR ''O''} then 8
                    else if c \<in> {CHR ''b'', CHR ''B''} then 2 else 0)
           in if z = CHR ''0'' \<and> b \<noteq> 0 \<and> ds \<noteq> [] \<and> list_all (\<lambda>c. digit_val c < b) ds
              then Some (Finite (of_nat (digits_value b ds))) else None)
      | _ \<Rightarrow> None)"

definition string_to_number :: "string \<Rightarrow> js_number" where
  "string_to_number s =
     (let t = trim s in
      if t = [] then Finite 0
      else (case parse_non_decimal t of
              Some v \<Rightarrow> v
            | None \<Rightarrow> (case parse_decimal t of Some v \<Rightarrow> v | None \<Rightarrow> NaN)))"

text \<open>\<^verbatim>\<open>Number(x) >= 0\<close>: false for NaN.\<close>

fun js_nonneg :: "js_number \<Rightarrow> bool" where
  "js_nonneg (Finite q) = (0 \<le> q)"
| "js_nonneg PosInf = True"
| "js_nonneg _ = False"

text \<open>
  \<^verbatim>\<open>validatePort(port)\<close>: a blank string, a value that is not an unsigned 32-bit
  integer (\<^verbatim>\<open>+port !== (+port >>> 0)\<close>) or one above \<^verbatim>\<open>0xFFFF\<close> is refused;
  otherwise the port is \<^verbatim>\<open>port | 0\<close>.
\<close>

definition valid_port :: "js_port \<Rightarrow> nat option" where
  "valid_port p =
     (let v = (case p of PortNumber n \<Rightarrow> Finite (of_nat n) | PortString s \<Rightarrow> string_to_number s);
          blank = (case p of PortString s \<Rightarrow> trim s = [] | PortNumber n \<Rightarrow> False)
      in if blank then None
         else (case v of
                 Finite q \<Rightarrow> if of_int \<lfloor>q\<rfloor> = q \<and> 0 \<le> q \<and> q \<le> 65535 then Some (nat \<lfloor>q\<rfloor>) else None
               | _ \<Rightarrow> None))"

text \<open>What \<^verbatim>\<open>listen\<close> does with its first argument.\<close>

datatype listen_result = ListenTcp nat | ListenPipe string | ErrSocketBadPort

definition server_listen :: "js_port \<Rightarrow> listen_result" where
  "server_listen p =
     (case p of
        PortString s \<Rightarrow>
          if \<not> js_nonneg (string_to_number s) then ListenPipe s
          else (case valid_port p of Some n \<Rightarrow> ListenTcp n | None \<Rightarrow> ErrSocketBadPort)
      | PortNumber n \<Rightarrow> (case valid_port p of Some n \<Rightarrow> ListenTcp n | None \<Rightarrow> ErrSocketBadPort))"

subsection \<open>Lemmas\<close>

lemma digit_not_space: "digit_val c < 10 \<Longrightarrow> \<not> js_space c"
  by (auto simp: digit_val_def js_space_def Let_def split: if_splits)

lemma dropWhile_none: "(\<forall>c \<in> set xs. \<not> P c) \<Longrightarrow> dropWhile P xs = xs"
  by (induction xs) auto

lemma takeWhile_all: "(\<forall>c \<in> set xs. P c) \<Longrightarrow> takeWhile P xs = xs"
  by (induction xs) auto

lemma trim_digits: "list_all (\<lambda>c. digit_val c < 10) ds \<Longrightarrow> trim ds = ds"
  by (simp add: trim_def list_all_iff dropWhile_none digit_not_space)

lemma digit_val_signs [simp]:
  "digit_val CHR ''+'' = 36" "digit_val CHR ''-'' = 36" "digit_val CHR ''I'' = 18"
  "digit_val CHR ''x'' = 33" "digit_val CHR ''X'' = 33" "digit_val CHR ''o'' = 24"
  "digit_val CHR ''O'' = 24" "digit_val CHR ''b'' = 11" "digit_val CHR ''B'' = 11"
  by (simp_all add: digit_val_def)

lemma parse_non_decimal_digits:
  assumes "list_all (\<lambda>c. digit_val c < 10) ds"
  shows "parse_non_decimal ds = None"
proof (cases ds)
  case (Cons z r)
  show ?thesis
  proof (cases r)
    case (Cons c t)
    from assms \<open>ds = z # r\<close> Cons have "digit_val c < 10" by simp
    then have "c \<notin> {CHR ''x'', CHR ''X'', CHR ''o'', CHR ''O'', CHR ''b'', CHR ''B''}" by auto
    with \<open>ds = z # r\<close> Cons show ?thesis by (simp add: parse_non_decimal_def)
  qed (simp add: \<open>ds = z # r\<close> parse_non_decimal_def)
qed (simp add: parse_non_decimal_def)

lemma string_to_number_digits:
  assumes "ds \<noteq> []" and d: "list_all (\<lambda>c. digit_val c < 10) ds"
  shows "string_to_number ds = Finite (of_nat (digits_value 10 ds))"
proof -
  from assms obtain c r where ds: "ds = c # r" and c: "digit_val c < 10" by (cases ds) auto
  have "c \<noteq> CHR ''+''" "c \<noteq> CHR ''-''" "c \<noteq> CHR ''I''" using c by auto
  then have "parse_decimal ds = Some (Finite (of_nat (digits_value 10 ds)))"
    using d by (simp add: ds parse_decimal_def parse_unsigned_decimal_def parse_exponent_def
        dec_value_def list_all_iff takeWhile_all dropWhile_eq_Nil_conv)
  with assms show ?thesis
    by (simp add: string_to_number_def trim_digits parse_non_decimal_digits)
qed

lemma valid_port_bound: "valid_port p = Some n \<Longrightarrow> n \<le> 65535"
  by (auto simp: valid_port_def Let_def split: if_splits js_number.splits)

text \<open>The port \<^verbatim>\<open>listen\<close> binds is a 16-bit one.\<close>

lemma server_listen_tcp_bound: "server_listen p = ListenTcp n \<Longrightarrow> n \<le> 65535"
  by (auto simp: server_listen_def valid_port_bound split: js_port.splits option.splits if_splits)

text \<open>Without \<^verbatim>\<open>PORT\<close>, or with it empty, the server listens on 8000.\<close>

lemma listen_default: "server_listen (port_of None) = ListenTcp 8000 \<and> server_listen (port_of (Some [])) = ListenTcp 8000"
  by (simp add: port_of_def server_listen_def valid_port_def)

text \<open>C36. A PORT of decimal digits makes server.listen bind the TCP port those digits spell when it is at most 65535; a larger one makes listen throw ERR_SOCKET_BAD_PORT at start-up, which nothing catches.\<close>

theorem listen_decimal_port:
  assumes "ds \<noteq> []" and "list_all (\<lambda>c. digit_val c < 10) ds"
  shows "server_listen (port_of (Some ds)) =
    (if digits_value 10 ds \<le> 65535 then ListenTcp (digits_value 10 ds) else ErrSocketBadPort)"
  using assms
  by (simp add: port_of_def server_listen_def valid_port_def string_to_number_digits trim_digits)

text \<open>A \<^verbatim>\<open>PORT\<close> that is not a number is taken as the path of a pipe (a Unix domain socket).\<close>

lemma listen_nan_pipe:
  "s \<noteq> [] \<Longrightarrow> string_to_number s = NaN \<Longrightarrow> server_listen (port_of (Some s)) = ListenPipe s"
  by (simp add: port_of_def server_listen_def)

lemma floor_numeral_div: "\<lfloor>(numeral a :: rat) / numeral b\<rfloor> = numeral a div numeral b"
  using floor_divide_of_int_eq [of "numeral a" "numeral b", where 'a = rat] by simp

lemmas listen_eval = port_of_def server_listen_def valid_port_def string_to_number_def trim_def js_space_def
  parse_non_decimal_def parse_decimal_def parse_unsigned_decimal_def parse_exponent_def dec_value_def
  digits_value_def digit_val_def Let_def floor_numeral_div

text \<open>
  What \<^verbatim>\<open>PORT\<close> values do: a hexadecimal literal or an exponent is a port, a fraction,
  a value above 65535 or a blank string throws at start-up, a negative number is a pipe
  name, and \<^verbatim>\<open>-0\<close> asks the system for any free port.
\<close>

lemma listen_examples:
  "server_listen (port_of (Some ''0x1F90'')) = ListenTcp 8080 \<and>
   server_listen (port_of (Some ''1e3'')) = ListenTcp 1000 \<and>
   server_listen (port_of (Some ''80.5'')) = ErrSocketBadPort \<and>
   server_listen (port_of (Some ''70000'')) = ErrSocketBadPort \<and>
   server_listen (port_of (Some ''  '')) = ErrSocketBadPort \<and>
   server_listen (port_of (Some ''-1'')) = ListenPipe ''-1'' \<and>
   server_listen (port_of (Some ''-0'')) = ListenTcp 0"
  by (simp add: listen_eval)

theorem listen_decimal_port_witness:
  "''8080'' \<noteq> [] \<and> list_all (\<lambda>c. digit_val c < 10) ''8080'' \<and>
   server_listen (port_of (Some ''8080'')) = ListenTcp 8080 \<and>
   ''70000'' \<noteq> [] \<and> list_all (\<lambda>c. digit_val c < 10) ''70000'' \<and>
   server_listen (port_of (Some ''70000'')) = ErrSocketBadPort"
proof -
  have h1: "''8080'' \<noteq> []" "list_all (\<lambda>c. digit_val c < 10) ''8080''" by (simp_all add: digit_val_def)
  have h2: "''70000'' \<noteq> []" "list_all (\<lambda>c. digit_val c < 10) ''70000''" by (simp_all add: digit_val_def)
  have v: "digits_value 10 ''8080'' = 8080" "digits_value 10 ''70000'' = 70000"
    by (simp_all add: digits_value_def digit_val_def)
  show ?thesis using listen_decimal_port [OF h1] listen_decimal_port [OF h2] h1 h2 v by simp
qed

end
