(* ===== verification/Payloads.thy ===== *)
theory Payloads
  imports Server Client
begin

text \<open>
  The types of the event payloads. Neither \<^verbatim>\<open>src/nodeServer/index.js\<close> nor
  \<^verbatim>\<open>client.js\<close> checks the type of what arrives: a payload is any JavaScript value
  (\<open>jsval\<close>). The spec's interface table (section 6) gives each event a payload type
  (\<^verbatim>\<open>join\<close> and \<^verbatim>\<open>send-message\<close> a string, \<^verbatim>\<open>typing\<close> a boolean). This theory writes
  those types as a small type system over \<open>jsval\<close> (\<open>ty\<close>, \<open>has_ty\<close>), types the
  inbound and outbound events and the server state, and proves that the server
  preserves the typing: well-typed inbound events keep the state well typed and make
  it emit only well-typed events. The author of a stored message gets the type
  \<open>string | undefined\<close>, the result type of \<^verbatim>\<open>users.get\<close>; the client of
  \<^verbatim>\<open>client.js\<close> emits only well-typed payloads. Without the typing the server relays
  whatever it is given, and a send-message whose payload is not a string makes every
  client's \<^verbatim>\<open>new-message\<close> listener throw.
\<close>

datatype ty = TyString | TyBoolean | TyNumber | TyOptional ty

fun has_ty :: "jsval \<Rightarrow> ty \<Rightarrow> bool" where
  "has_ty (JStr s) TyString = True"
| "has_ty (JBool b) TyBoolean = True"
| "has_ty (JNum i) TyNumber = True"
| "has_ty JUndefined (TyOptional t) = True"
| "has_ty v (TyOptional t) = has_ty v t"
| "has_ty v t = False"

text \<open>Inbound payloads (spec, section 6: join, send-message, typing).\<close>

fun wt_client_msg :: "client_msg \<Rightarrow> bool" where
  "wt_client_msg (Join displayName) = has_ty displayName TyString"
| "wt_client_msg (SendMessage text) = has_ty text TyString"
| "wt_client_msg (Typing isTyping) = has_ty isTyping TyBoolean"

fun wt_net_event :: "net_event \<Rightarrow> bool" where
  "wt_net_event (Recv c clk m) = wt_client_msg m"
| "wt_net_event _ = True"

text \<open>A stored message: the author is the result of \<^verbatim>\<open>users.get\<close>, the text a string.\<close>

definition wt_message :: "message \<Rightarrow> bool" where
  "wt_message m \<longleftrightarrow> has_ty (msg_username m) (TyOptional TyString) \<and> has_ty (msg_text m) TyString"

text \<open>Outbound payloads (spec, section 6), with the author of user-typing as \<^verbatim>\<open>users.get\<close> gives it.\<close>

fun wt_event :: "server_event \<Rightarrow> bool" where
  "wt_event (ChatHistory ms) = list_all wt_message ms"
| "wt_event (NewMessage m) = wt_message m"
| "wt_event (UserJoined displayName) = has_ty displayName TyString"
| "wt_event (UserLeft displayName) = has_ty displayName TyString"
| "wt_event (UpdateOnlineCount n) = True"
| "wt_event (UserTyping username isTyping) =
     (has_ty username (TyOptional TyString) \<and> has_ty isTyping TyBoolean)"

text \<open>The server state is well typed when the registry maps to strings and the history holds well-typed messages.\<close>

definition wt_server :: "server \<Rightarrow> bool" where
  "wt_server s \<longleftrightarrow> list_all (\<lambda>(c, u). has_ty u TyString) (users s) \<and> list_all wt_message (chatMessages s)"

text \<open>The messages an event carries to a client.\<close>

fun event_messages :: "server_event \<Rightarrow> message list" where
  "event_messages (ChatHistory ms) = ms"
| "event_messages (NewMessage m) = [m]"
| "event_messages _ = []"

definition wt_deliveries :: "delivery list \<Rightarrow> bool" where
  "wt_deliveries ds \<longleftrightarrow> list_all (\<lambda>(c, ev). wt_event ev) ds"

subsection \<open>Lemmas\<close>

lemma has_ty_optional: "has_ty v (TyOptional t) \<longleftrightarrow> v = JUndefined \<or> has_ty v t"
  by (cases v) simp_all

lemma has_ty_string: "has_ty v TyString \<longleftrightarrow> is_str v"
  by (cases v) simp_all

lemma wt_deliveries_Nil [simp]: "wt_deliveries []"
  by (simp add: wt_deliveries_def)

lemma wt_deliveries_append [simp]: "wt_deliveries (xs @ ys) \<longleftrightarrow> wt_deliveries xs \<and> wt_deliveries ys"
  by (simp add: wt_deliveries_def)

lemma wt_deliveries_emit [simp]:
  "wt_deliveries (io_emit cs ev) \<longleftrightarrow> cs = [] \<or> wt_event ev"
  "wt_deliveries (socket_emit c ev) \<longleftrightarrow> wt_event ev"
  "wt_deliveries (broadcast_emit cs c ev) \<longleftrightarrow> (\<forall>c' \<in> set cs. c' = c) \<or> wt_event ev"
  by (auto simp: wt_deliveries_def io_emit_def socket_emit_def broadcast_emit_def list_all_iff)

lemma users_get_typed:
  "list_all (\<lambda>(c, u). has_ty u t) us \<Longrightarrow> has_ty (js_of_option (users_get c us)) (TyOptional t)"
  by (cases "users_get c us") (auto simp: users_get_def list_all_iff has_ty_optional dest: map_of_SomeD)

lemma users_set_typed:
  "list_all (\<lambda>(c, u). has_ty u t) us \<Longrightarrow> has_ty v t \<Longrightarrow> list_all (\<lambda>(c, u). has_ty u t) (users_set c v us)"
  unfolding users_set_def by (induction us) auto

lemma users_delete_typed:
  "list_all (\<lambda>(c, u). has_ty u t) us \<Longrightarrow> list_all (\<lambda>(c, u). has_ty u t) (users_delete c us)"
  by (auto simp: users_delete_def list_all_iff AList.delete_eq)

lemma push_message_typed:
  "list_all P ms \<Longrightarrow> P m \<Longrightarrow> list_all P (push_message m ms)"
  by (auto simp: list_all_iff dest: set_push_message [THEN subsetD])

lemmas wt_lemmas = users_get_typed users_set_typed users_delete_typed push_message_typed

lemma server_step_wt:
  assumes wt: "wt_server s" and e: "wt_net_event e"
  shows "wt_server (fst (server_step s e)) \<and> wt_deliveries (snd (server_step s e))"
proof (cases e)
  case (Recv c clk m)
  with wt e show ?thesis
    by (cases m) (auto simp: wt_server_def handler_defs Let_def wt_message_def wt_lemmas)
next
  case (Disconnect c)
  have "has_ty (js_of_option (users_get c (users s))) (TyOptional TyString)"
    using wt by (simp add: wt_server_def users_get_typed)
  with wt Disconnect show ?thesis
    by (auto simp: wt_server_def on_disconnect_def Let_def users_delete_typed has_ty_optional)
qed (use wt in \<open>simp add: wt_server_def\<close>)

lemma client_step_wt: "list_all wt_client_msg (fst (snd (client_step st i)))"
  by (cases i) (auto simp: client_step_def send_message_def initialize_user_def handle_typing_def
      timer_tick_def Let_def split: option.splits if_splits prod.splits)

lemma wt_message_authored:
  "wt_message m \<Longrightarrow> msg_username m \<noteq> JUndefined \<Longrightarrow> authored m"
  by (simp add: wt_message_def authored_def has_ty_optional has_ty_string)

subsection \<open>Properties\<close>

text \<open>C33. Type preservation: from a well-typed state, a trace of events whose payloads have the types of the spec's interface table (join and send-message a string, typing a boolean) leaves the registry mapping connections to strings and the history holding messages whose text is a string and whose author is a string or undefined, and every event the server emits has its interface type.\<close>

theorem server_run_preserves_types:
  assumes "wt_server s" and "list_all wt_net_event evs"
  shows "wt_server (fst (server_run s evs)) \<and> wt_deliveries (snd (server_run s evs))"
  using assms
proof (induction evs arbitrary: s)
  case Nil
  then show ?case by (simp add: wt_deliveries_def)
next
  case (Cons e evs)
  note one = server_step_wt [OF Cons.prems(1), of e]
  from Cons.prems(2) one have "wt_server (fst (server_run (fst (server_step s e)) evs)) \<and>
      wt_deliveries (snd (server_run (fst (server_step s e)) evs))"
    by (intro Cons.IH) simp_all
  with Cons.prems(2) one show ?case by (simp add: server_run_Cons_eq)
qed

text \<open>The client of \<^verbatim>\<open>client.js\<close> gives the server well-typed payloads only: whatever the user and the socket do, every event it emits has its interface type.\<close>

lemma client_run_wt: "list_all wt_client_msg (fst (snd (client_run st ins)))"
proof (induction ins arbitrary: st)
  case Nil
  then show ?case by simp
next
  case (Cons i ins)
  then show ?case using client_step_wt [of st i] by (simp add: client_run_Cons_eq)
qed

text \<open>C35. Progress on the client: a well-typed server event (the interface types of the spec, with authors of type string or undefined) whose messages all have a defined author never makes a listener of client.js throw. With the type preservation of the server, the one way left to a TypeError in a client is a message whose author is undefined, sent before its connection joined.\<close>

theorem client_progress:
  assumes wt: "wt_event ev" and def: "list_all (\<lambda>m. msg_username m \<noteq> JUndefined) (event_messages ev)"
  shows "snd (on_server_event ev st) = None"
proof (cases ev)
  case (ChatHistory ms)
  with wt def have "list_all authored ms"
    by (auto simp: list_all_iff wt_message_authored)
  with ChatHistory show ?thesis
    using render_history_authored_all [of ms "st\<lparr>message_area := []\<rparr>"] by simp
next
  case (NewMessage m)
  with wt def have "authored m" by (simp add: wt_message_authored)
  with NewMessage show ?thesis
    by (auto simp: add_message_to_chat_def authored_def is_str_iff)
qed simp_all

text \<open>C25. The server does not check the type of a send-message payload: a value that is not a string (a number, a boolean, null, an object) is stored as the text of the new history entry and broadcast to every connection, and the new-message listener of every client that receives it throws a TypeError in escapeHtml and shows nothing.\<close>

theorem ill_typed_text_breaks_clients:
  assumes "c \<in> set (conns s)" and "\<not> has_ty v TyString"
  shows "\<exists>m. msg_text m = v \<and> m = last (chatMessages (fst (server_step s (Recv c clk (SendMessage v))))) \<and>
    snd (server_step s (Recv c clk (SendMessage v))) = map (\<lambda>c'. (c', NewMessage m)) (conns s) \<and>
    (\<forall>st. on_server_event (NewMessage m) st = (st, Some TypeError))"
proof -
  let ?m = "\<lparr>msg_id = fst clk, msg_username = js_of_option (users_get c (users s)),
            msg_text = v, msg_timestamp = snd clk\<rparr>"
  have "last (push_message ?m (chatMessages s)) = ?m"
    by (cases "chatMessages s") (simp_all add: push_message_def Let_def MAX_MESSAGES_def)
  moreover have "on_server_event (NewMessage ?m) st = (st, Some TypeError)" for st
    using assms(2) by (auto simp: add_message_to_chat_def is_str_iff split: jsval.splits)
  ultimately show ?thesis
    using assms(1) by (auto simp: on_send_message_def io_emit_def Let_def)
qed

subsection \<open>Witnesses\<close>

theorem server_run_preserves_types_witness:
  "wt_server server_init \<and>
   list_all wt_net_event [Connect 1, Connect 2, Recv 1 (1, 1) (Join (JStr ''A'')),
     Recv 2 (2, 2) (Typing (JBool True)), Recv 2 (3, 3) (SendMessage (JStr ''hi''))] \<and>
   wt_deliveries (snd (server_run server_init [Connect 1, Connect 2, Recv 1 (1, 1) (Join (JStr ''A'')),
     Recv 2 (2, 2) (Typing (JBool True)), Recv 2 (3, 3) (SendMessage (JStr ''hi''))]))"
proof -
  have h1: "wt_server server_init" by (simp add: wt_server_def server_init_def)
  have h2: "list_all wt_net_event [Connect 1, Connect 2, Recv 1 (1, 1) (Join (JStr ''A'')),
     Recv 2 (2, 2) (Typing (JBool True)), Recv 2 (3, 3) (SendMessage (JStr ''hi''))]" by simp
  show ?thesis using server_run_preserves_types [OF h1 h2] h1 h2 by simp
qed

theorem ill_typed_text_breaks_clients_witness:
  "(1::conn) \<in> set (conns \<lparr>conns = [1, 2], users = [(1, JStr ''A'')], chatMessages = []\<rparr>) \<and>
   \<not> has_ty (JNum 5) TyString \<and>
   (\<exists>m. msg_text m = JNum 5 \<and>
     snd (server_step \<lparr>conns = [1, 2], users = [(1, JStr ''A'')], chatMessages = []\<rparr>
       (Recv 1 (7, 7) (SendMessage (JNum 5)))) = [(1, NewMessage m), (2, NewMessage m)] \<and>
     on_server_event (NewMessage m) client_init = (client_init, Some TypeError))"
proof -
  have h1: "(1::conn) \<in> set (conns \<lparr>conns = [1, 2], users = [(1, JStr ''A'')], chatMessages = []\<rparr>)" by simp
  have h2: "\<not> has_ty (JNum 5) TyString" by simp
  show ?thesis
    using ill_typed_text_breaks_clients [OF h1 h2, of "(7, 7)"] h1 h2 by auto
qed

theorem client_progress_witness:
  "wt_event (ChatHistory [\<lparr>msg_id = 1, msg_username = JStr ''A'', msg_text = JStr ''hi'', msg_timestamp = 0\<rparr>,
     \<lparr>msg_id = 2, msg_username = JStr ''B'', msg_text = JStr ''yo'', msg_timestamp = 0\<rparr>]) \<and>
   list_all (\<lambda>m. msg_username m \<noteq> JUndefined) (event_messages (ChatHistory
     [\<lparr>msg_id = 1, msg_username = JStr ''A'', msg_text = JStr ''hi'', msg_timestamp = 0\<rparr>,
      \<lparr>msg_id = 2, msg_username = JStr ''B'', msg_text = JStr ''yo'', msg_timestamp = 0\<rparr>])) \<and>
   snd (on_server_event (ChatHistory [\<lparr>msg_id = 1, msg_username = JStr ''A'', msg_text = JStr ''hi'', msg_timestamp = 0\<rparr>,
     \<lparr>msg_id = 2, msg_username = JStr ''B'', msg_text = JStr ''yo'', msg_timestamp = 0\<rparr>]) client_init) = None"
proof -
  let ?ev = "ChatHistory [\<lparr>msg_id = 1, msg_username = JStr ''A'', msg_text = JStr ''hi'', msg_timestamp = 0\<rparr>,
     \<lparr>msg_id = 2, msg_username = JStr ''B'', msg_text = JStr ''yo'', msg_timestamp = 0\<rparr>]"
  have h1: "wt_event ?ev" by (simp add: wt_message_def)
  have h2: "list_all (\<lambda>m. msg_username m \<noteq> JUndefined) (event_messages ?ev)" by simp
  show ?thesis using client_progress [OF h1 h2, of client_init] h1 h2 by simp
qed

end
