(* ===== verification/Engine_Spec.thy ===== *)
theory Engine_Spec
  imports Server
begin

text \<open>
  An abstract broadcast engine in the terms of the spec (sections 3--5): the session
  registry is a finite map from connection to display name, the history buffer is the
  sequence of every message ever sent, of which a client is shown the last
  \<open>MAX_MESSAGES\<close>, and the online count is the size of the registry's domain. Its handlers
  make the same decisions as the code's (the engine keeps the code's behaviour, guards
  and gaps included); only the data differs. \<open>engine_sim\<close> relates an engine to a
  server state of \<^verbatim>\<open>index.js\<close>: the association list \<open>users\<close> represents the map
  (\<open>map_of\<close>) and \<open>chatMessages\<close> is the last 50 messages of the log. The lemmas show
  that each handler of the server simulates the engine's, with the same deliveries, so
  that neither the insertion order of the JavaScript \<^verbatim>\<open>Map\<close> nor the push-and-shift
  of the array is ever observable.
\<close>

record engine =
  e_conns :: "conn list"
  registry :: "conn \<rightharpoonup> jsval"
  log :: "message list"

definition engine_init :: engine where
  "engine_init = \<lparr>e_conns = [], registry = Map.empty, log = []\<rparr>"

definition engine_history :: "engine \<Rightarrow> message list" where
  "engine_history E = last_n MAX_MESSAGES (log E)"

definition engine_count :: "engine \<Rightarrow> nat" where
  "engine_count E = card (dom (registry E))"

definition e_join :: "conn \<Rightarrow> jsval \<Rightarrow> engine \<Rightarrow> engine \<times> delivery list" where
  "e_join c u E =
     (let E1 = E\<lparr>registry := (registry E)(c \<mapsto> u)\<rparr>
      in (E1, io_emit (e_conns E1) (UserJoined u)
              @ socket_emit c (ChatHistory (engine_history E1))
              @ io_emit (e_conns E1) (UpdateOnlineCount (engine_count E1))))"

definition e_send :: "clock \<Rightarrow> conn \<Rightarrow> jsval \<Rightarrow> engine \<Rightarrow> engine \<times> delivery list" where
  "e_send clk c text E =
     (let m = \<lparr>msg_id = fst clk, msg_username = js_of_option (registry E c),
               msg_text = text, msg_timestamp = snd clk\<rparr>;
          E1 = E\<lparr>log := log E @ [m]\<rparr>
      in (E1, io_emit (e_conns E1) (NewMessage m)))"

definition e_disconnect :: "conn \<Rightarrow> engine \<Rightarrow> engine \<times> delivery list" where
  "e_disconnect c E =
     (let u = js_of_option (registry E c)
      in if js_truthy u then
           (let E1 = E\<lparr>registry := (registry E)(c := None)\<rparr>
            in (E1, io_emit (e_conns E1) (UserLeft u)
                    @ io_emit (e_conns E1) (UpdateOnlineCount (engine_count E1))))
         else (E, []))"

definition e_typing :: "conn \<Rightarrow> jsval \<Rightarrow> engine \<Rightarrow> engine \<times> delivery list" where
  "e_typing c b E = (E, broadcast_emit (e_conns E) c (UserTyping (js_of_option (registry E c)) b))"

fun engine_step :: "engine \<Rightarrow> net_event \<Rightarrow> engine \<times> delivery list" where
  "engine_step E (Connect c) =
     (if c \<in> set (e_conns E) then (E, []) else (E\<lparr>e_conns := e_conns E @ [c]\<rparr>, []))"
| "engine_step E (Recv c clk m) =
     (if c \<notin> set (e_conns E) then (E, [])
      else (case m of
              Join u \<Rightarrow> e_join c u E
            | SendMessage text \<Rightarrow> e_send clk c text E
            | Typing b \<Rightarrow> e_typing c b E))"
| "engine_step E (Disconnect c) =
     (if c \<notin> set (e_conns E) then (E, [])
      else e_disconnect c (E\<lparr>e_conns := removeAll c (e_conns E)\<rparr>))"

fun engine_run :: "engine \<Rightarrow> net_event list \<Rightarrow> engine \<times> delivery list" where
  "engine_run E [] = (E, [])"
| "engine_run E (e # es) =
     (let (E1, out1) = engine_step E e; (E2, out2) = engine_run E1 es in (E2, out1 @ out2))"

definition engine_sim :: "engine \<Rightarrow> server \<Rightarrow> bool" where
  "engine_sim E s \<longleftrightarrow> e_conns E = conns s \<and> users_wf (users s) \<and>
     registry E = map_of (users s) \<and> chatMessages s = last_n MAX_MESSAGES (log E)"

subsection \<open>The data refinement of the registry and the buffer\<close>

lemma map_of_users_set: "map_of (users_set c u us) = (map_of us)(c \<mapsto> u)"
  by (simp add: users_set_def update_conv')

lemma map_of_users_delete: "map_of (users_delete c us) = (map_of us)(c := None)"
  by (simp add: users_delete_def delete_conv')

lemma users_size_dom: "users_wf us \<Longrightarrow> users_size us = card (dom (map_of us))"
  by (simp add: users_size_card users_get_def dom_def)

lemma push_message_last_n:
  "push_message m (last_n MAX_MESSAGES xs) = last_n MAX_MESSAGES (xs @ [m])"
  by (simp add: push_message_refines_last_n length_last_n last_n_append_last_n)

lemmas engine_refines = map_of_users_set map_of_users_delete users_size_dom push_message_last_n
  users_wf_set users_wf_delete

lemma engine_sim_init: "engine_sim engine_init server_init"
  by (simp add: engine_sim_def engine_init_def server_init_def users_wf_def last_n_def)

subsection \<open>Each handler simulates the engine's\<close>

lemma join_sim:
  assumes "engine_sim E s"
  shows "engine_sim (fst (e_join c u E)) (fst (on_join c u s)) \<and> snd (e_join c u E) = snd (on_join c u s)"
  using assms by (simp add: engine_sim_def e_join_def on_join_def engine_history_def engine_count_def engine_refines)

lemma send_sim:
  assumes "engine_sim E s"
  shows "engine_sim (fst (e_send clk c m E)) (fst (on_send_message clk c m s)) \<and>
    snd (e_send clk c m E) = snd (on_send_message clk c m s)"
  using assms by (simp add: engine_sim_def e_send_def on_send_message_def users_get_def Let_def engine_refines)

lemma disconnect_sim:
  assumes "engine_sim E s"
  shows "engine_sim (fst (e_disconnect c E)) (fst (on_disconnect c s)) \<and>
    snd (e_disconnect c E) = snd (on_disconnect c s)"
  using assms by (simp add: engine_sim_def e_disconnect_def on_disconnect_def users_get_def
      engine_count_def Let_def engine_refines)

lemma typing_sim:
  assumes "engine_sim E s"
  shows "engine_sim (fst (e_typing c b E)) (fst (on_typing c b s)) \<and> snd (e_typing c b E) = snd (on_typing c b s)"
  using assms by (simp add: engine_sim_def e_typing_def on_typing_def users_get_def)

lemma step_sim:
  assumes sim: "engine_sim E s"
  shows "engine_sim (fst (engine_step E e)) (fst (server_step s e)) \<and>
    snd (engine_step E e) = snd (server_step s e)"
proof -
  from sim have cs: "e_conns E = conns s" by (simp add: engine_sim_def)
  show ?thesis
  proof (cases e)
    case (Connect c)
    with sim show ?thesis by (auto simp: engine_sim_def)
  next
    case (Recv c clk m)
    with sim cs show ?thesis
      by (cases m) (simp_all add: join_sim send_sim typing_sim)
  next
    case (Disconnect c)
    have "engine_sim (E\<lparr>e_conns := removeAll c (e_conns E)\<rparr>) (s\<lparr>conns := removeAll c (conns s)\<rparr>)"
      using sim by (simp add: engine_sim_def)
    with Disconnect sim cs show ?thesis by (simp add: disconnect_sim)
  qed
qed

lemma engine_run_Cons_eq:
  "engine_run E (e # es) =
     (fst (engine_run (fst (engine_step E e)) es),
      snd (engine_step E e) @ snd (engine_run (fst (engine_step E e)) es))"
  by (simp split: prod.split)

declare engine_run.simps(2) [simp del]

lemma run_sim:
  "engine_sim E s \<Longrightarrow> engine_sim (fst (engine_run E evs)) (fst (server_run s evs)) \<and>
    snd (engine_run E evs) = snd (server_run s evs)"
proof (induction evs arbitrary: E s)
  case Nil
  then show ?case by simp
next
  case (Cons e evs)
  from step_sim [OF Cons.prems, of e] show ?case
    by (simp add: engine_run_Cons_eq server_run_Cons_eq Cons.IH)
qed

subsection \<open>Properties\<close>

text \<open>C13. Refinement of the engine: on every trace of events from server start, the server of index.js issues exactly the deliveries of the abstract engine whose registry is a finite map and whose history is the last 50 messages of the log; its users list represents the engine's registry, users.size is the number of registered connections, and chatMessages is the engine's history.\<close>

theorem server_refines_engine:
  "snd (server_run server_init evs) = snd (engine_run engine_init evs) \<and>
   map_of (users (fst (server_run server_init evs))) = registry (fst (engine_run engine_init evs)) \<and>
   users_size (users (fst (server_run server_init evs))) = engine_count (fst (engine_run engine_init evs)) \<and>
   chatMessages (fst (server_run server_init evs)) = engine_history (fst (engine_run engine_init evs))"
proof -
  from run_sim [OF engine_sim_init, of evs]
  have sim: "engine_sim (fst (engine_run engine_init evs)) (fst (server_run server_init evs))"
    and out: "snd (engine_run engine_init evs) = snd (server_run server_init evs)" by simp_all
  from sim show ?thesis
    using out by (simp add: engine_sim_def engine_count_def engine_history_def users_size_dom)
qed

end
