(* ===== verification/Spec2Isabelle.thy ===== *)
theory Spec2Isabelle
  imports Network Reconnect Listen Payloads Engine_Spec
begin

text \<open>
  \<^bold>\<open>A verification model of the Wassup 2.0 chat relay.\<close>

  \<^bold>\<open>The program.\<close> The repository has two sources. \<^verbatim>\<open>src/nodeServer/index.js\<close> is a
  socket.io server. Its module state is \<^verbatim>\<open>users\<close>, a \<^verbatim>\<open>Map\<close> from socket id to display
  name (the session registry), and \<^verbatim>\<open>chatMessages\<close>, an array bounded by
  \<^verbatim>\<open>MAX_MESSAGES = 50\<close> (the history buffer). Four handlers for each connection
  (\<^verbatim>\<open>join\<close>, \<^verbatim>\<open>send-message\<close>, \<^verbatim>\<open>disconnect\<close>, \<^verbatim>\<open>typing\<close>) update that state and
  emit events with \<^verbatim>\<open>io.emit\<close> (to all), \<^verbatim>\<open>socket.emit\<close> (to one) and
  \<^verbatim>\<open>socket.broadcast.emit\<close> (to all but the sender).
  \<^verbatim>\<open>src/nodeServer/public/client.js\<close> is the browser client. It prompts for a name,
  emits \<^verbatim>\<open>join\<close>, \<^verbatim>\<open>send-message\<close> and debounced \<^verbatim>\<open>typing\<close> events, and renders
  the server's events into the DOM. The two sides interact only through the socket.io
  events, which the theory \<open>Transport\<close> lists as the datatypes \<open>client_msg\<close> (client to
  server) and \<open>server_event\<close> (server to client).

  \<^bold>\<open>The theories.\<close>
  \<^item> \<open>Chat_Prelude\<close>: the names of the basic types (\<open>conn\<close>, \<open>clock\<close>), the bounded
    suffix \<open>last_n\<close>, the JavaScript values \<open>jsval\<close> that event payloads are (undefined,
    null, booleans, numbers, strings, objects) with their truthiness \<open>js_truthy\<close> and the
    \<open>undefined\<close> of a missing \<^verbatim>\<open>Map\<close> entry (\<open>js_of_option\<close>), and shared lemmas on
    association lists (collection \<open>chat_simps\<close>).
  \<^item> \<open>History\<close>: the \<open>message\<close> record of the send handler (\<^verbatim>\<open>index.js\<close> 57--62),
    \<open>MAX_MESSAGES\<close> and \<open>push_message\<close> (push, then shift when over the bound; lines
    64--68). \<open>push_message\<close> refines the abstract buffer \<open>last_n MAX_MESSAGES\<close>.
  \<^item> \<open>Registry\<close>: \<^verbatim>\<open>users.set/get/delete/size\<close> as \<open>users_set\<close>, \<open>users_get\<close>,
    \<open>users_delete\<close>, \<open>users_size\<close> on an association list with the semantics of a JavaScript
    \<^verbatim>\<open>Map\<close>, with their lookup and size contracts.
  \<^item> \<open>Transport\<close>: the event datatypes, the transport notifications \<open>net_event\<close>, and the
    socket.io delivery rules \<open>io_emit\<close>, \<open>socket_emit\<close>, \<open>broadcast_emit\<close>. A delivery
    is a pair of recipient and event. \<open>received c\<close> is what connection \<open>c\<close> gets, in order.
  \<^item> \<open>Server\<close>: the record \<open>server\<close> (connected sockets, \<open>users\<close>,
    \<open>chatMessages\<close>), one definition per handler (\<open>on_join\<close>, \<open>on_send_message\<close>,
    \<open>on_disconnect\<close>, \<open>on_typing\<close>, lines 41--92), \<open>server_step\<close> (the dispatch of one
    transport event) and \<open>server_run\<close> (a trace of events, handled one at a time as the
    event loop does). Also the invariant \<open>server_inv\<close> and the inductive set of reachable
    states \<open>server_reachable\<close>.
  \<^item> \<open>Client_Render\<close>: \<^verbatim>\<open>escapeHtml\<close>, \<^verbatim>\<open>trim\<close>, \<^verbatim>\<open>encodeURIComponent\<close>,
    \<^verbatim>\<open>generateAvatar\<close>, \<^verbatim>\<open>formatTimestamp\<close> and the \<^verbatim>\<open>innerHTML\<close> template of
    \<^verbatim>\<open>addMessageToChat\<close>, as string functions.
  \<^item> \<open>Client\<close>: the record \<open>client\<close> (\<^verbatim>\<open>username\<close>, the DOM fields it writes, the pending
    typing timer, and whether the page is stuck in the prompt loop), the prompt loop, the
    user-side functions \<open>send_message\<close>, \<open>handle_typing\<close> and \<open>timer_tick\<close>, the
    listeners \<open>on_server_event\<close>, and \<open>client_step\<close>/\<open>client_run\<close>. A listener that
    throws returns its exception beside the state, since JavaScript keeps the DOM changes
    made before the throw.
  \<^item> \<open>Network\<close>: the transport as a step relation beside the server (\<open>net_step\<close>: the server
    handles an event, the transport hands one queued event to a socket, or a link fails).
    The spec assumes ordered, at-most-once delivery per connection with failures isolated
    per recipient (sections 1, 5, 7). This theory also bounds the fan-out of one step.
  \<^item> \<open>Reconnect\<close>: the options of \<^verbatim>\<open>io()\<close> (\<^verbatim>\<open>client.js\<close> 2--5) and socket.io's
    reconnection loop they configure, as \<^theory_text>\<open>partial_function (option)\<close>
    \<open>reconnect\<close>. It produces the socket events the client's listeners get.
  \<^item> \<open>Http\<close>: the HTTP side of \<^verbatim>\<open>index.js\<close> (lines 7--28). socket.io's engine takes
    \<^verbatim>\<open>/socket.io/\<close>; everything else runs through the express middleware chain
    \<open>run_chain\<close> of \<open>cors_mw\<close>, \<open>static_mw\<close> (with \<^verbatim>\<open>send\<close>'s path rules in
    \<open>serve_static\<close>), \<open>get_root_mw\<close> and the final 404. \<open>port_of\<close> is line 18.
  \<^item> \<open>Listen\<close>: \<^verbatim>\<open>server.listen(PORT)\<close> (lines 95--97) as \<open>server_listen\<close>: Node's
    pipe-name test and \<^verbatim>\<open>validatePort\<close> over ECMAScript's \<^verbatim>\<open>Number(string)\<close>
    (\<open>string_to_number\<close>), giving a TCP port, a pipe path or the start-up
    \<^verbatim>\<open>RangeError\<close>. Lemmas: the port is at most 65535, no or an empty \<^verbatim>\<open>PORT\<close> gives
    8000, decimal digits give the port they spell or the error above 65535, a non-number
    gives a pipe; \<open>listen_examples\<close> evaluates hexadecimal, exponent, fractional,
    negative and blank values.
  \<^item> \<open>Engine_Spec\<close>: an abstract broadcast engine in the spec's terms (registry a finite
    map, history the last 50 messages of the full log, count the size of the registry's
    domain) and the simulation \<open>engine_sim\<close> of it by the server's association list and
    shifting array.
  \<^item> \<open>Payloads\<close>: the payload types of the spec's interface table (section 6) as a type
    system over \<open>jsval\<close> (\<open>ty\<close>, \<open>has_ty\<close>), the typing of inbound events
    (\<open>wt_client_msg\<close>), outbound events (\<open>wt_event\<close>) and the server state
    (\<open>wt_server\<close>), and what happens without it.
  \<^item> This theory: properties that span the server and the client. They feed the server's
    deliveries to a connection into the client model.

  \<^bold>\<open>What is proved.\<close>
  \<^item> History (C1, C2, C3): the buffer never exceeds 50 messages. After more than 50 sends it
    holds exactly the last 50, in order. The snapshot a joiner receives equals the last 50
    new-message events that a connection open since server start has received.
  \<^item> Broadcast rules (C4, C6, C7, C22, C23): typing signals never go back to their
    sender. The outputs of join and disconnect are exact, with user-left sent after the
    removal and before the new count. Every delivery goes to a connected socket, and a
    chat-history only to its joiner. Two connections that stay connected see the same
    public events in the same order.
  \<^item> Interleaving (C5): a participant who rejoins on a new socket before the server has
    handled the close of the old one is announced to everybody as joined and then as left,
    while still connected and registered.
  \<^item> Refinement (C13): on every trace the server issues exactly the deliveries of the
    abstract engine of \<open>Engine_Spec\<close>; the association list represents the registry
    map, \<^verbatim>\<open>users.size\<close> its domain's size, and the array the last 50 messages.
  \<^item> Invariants (C8, C12, C24): every reachable state keeps distinct connections, a
    registry with one entry per socket, a bounded history, and every user registered
    under a non-empty name connected. Without empty-name joins, the reported count is the
    number of connected sockets that have joined, and each event moves a connection only
    along the spec's life cycle (the inductive relation \<open>phase_step\<close>).
  \<^item> Divergences from the spec (C9--C11): a join with the empty name is never undone: its
    disconnect announces nothing, the entry survives every later event while that socket
    id does not reconnect (lemma \<open>server_run_frame\<close>), and the count stays above the
    number of joined connections. A message or typing signal from a socket that never
    joined is relayed with an undefined author. A second join overwrites the name.
  \<^item> Client (C14--C21): \<open>escape_html\<close> is inverted by the browser's decoding and never
    emits a markup character, but the username reaches the \<^verbatim>\<open>alt\<close> attribute
    unescaped. The prompt loop returns a trimmed, non-blank name as soon as the user gives
    one. Sent texts are trimmed and non-blank. A history entry whose author or text is
    not a string aborts the replay at that entry (with C10: a message sent before joining
    breaks every later joiner's replay). The typing debounce sends one typing(false),
    1000 ms after the last input. Own messages are rendered as outgoing.
  \<^item> End to end (C26): on every trace where only registered sockets send, a client that
    joins renders exactly the server's history at its join, then every later broadcast
    message, in order. This refines the client's view to the server's state (the
    observation \<open>render_entry\<close>, and the trace predicate \<open>joined_senders\<close>).
  \<^item> Reconnection (C27--C29): with \<^verbatim>\<open>reconnectionAttempts: 5\<close> the loop returns for
    every network behaviour after at most five failed attempts, giving up after exactly
    five; with socket.io's default (unlimited) and a dead server it does not return
    (lemma \<open>reconnect_forever\<close>). A successful reconnection at attempt \<open>k \<le> 5\<close> runs
    the \<^verbatim>\<open>connect\<close> listener again, so the user is prompted again and joins with the
    new answer; the \<^verbatim>\<open>reconnect\<close> listener never runs. After five failures the client
    shows five errors and is never told that retrying stopped.
  \<^item> HTTP (C30--C32, C36): GET \<^verbatim>\<open>/\<close> is answered by \<^verbatim>\<open>express.static\<close> with
    \<^verbatim>\<open>public/index.html\<close> when it is a regular file; a directory there gives the final
    handler's 404 \<^verbatim>\<open>Cannot GET /\<close> (\<^verbatim>\<open>res.sendFile\<close> passes \<^verbatim>\<open>EISDIR\<close> on with
    \<^verbatim>\<open>next()\<close>) and a missing file its error page. The route \<^verbatim>\<open>app.get('/')\<close>
    changes an answer exactly for GET or HEAD of \<^verbatim>\<open>/\<close> while \<^verbatim>\<open>index.html\<close> is
    missing. Whatever the path (\<^verbatim>\<open>..\<close>, backslashes, dot-files), only regular files
    under \<^verbatim>\<open>public/\<close> with no dot-file segment are sent. Every answer carries
    \<^verbatim>\<open>Access-Control-Allow-Origin: *\<close> (lemma \<open>http_cors_any_origin\<close>). A decimal
    \<^verbatim>\<open>PORT\<close> binds the port it spells up to 65535 and throws at start-up above.
  \<^item> Payload types (C33, C35, C25): the server preserves the typing of the interface. From
    a well-typed state, well-typed inbound events leave the registry mapping to strings
    and the history holding messages with a string text and an author of type
    \<open>string | undefined\<close> (the result type of \<^verbatim>\<open>users.get\<close>), and every emitted event has
    its interface type. The client of \<^verbatim>\<open>client.js\<close> emits only well-typed payloads
    (lemma \<open>client_run_wt\<close>), and a well-typed event whose messages have a defined
    author never makes a client listener throw (C35), so the undefined author of C10 is
    the one source of a TypeError. The server checks nothing, though: a send-message with
    a non-string payload is stored and broadcast, and every client's listener throws on
    it (C25).
  \<^item> Delivery (C34): one event issues at most \<open>2n+1\<close> deliveries for \<open>n\<close> connections
    and at most three to one connection. The transport model also satisfies, whatever the
    handlers do, that each client has received a prefix of what the server addressed to
    it on a real trace, and that an intact link can be brought up to date
    (lemmas \<open>net_reachable_trace\<close>, \<open>catch_up\<close>).

  \<^bold>\<open>Modelling choices.\<close> Socket ids are \<open>nat\<close>. Clock readings are \<open>nat\<close>
  milliseconds: each handler run carries both readings (\<^verbatim>\<open>Date.now()\<close> and
  \<^verbatim>\<open>new Date()\<close>), and the ISO string of the timestamp is kept as the instant it
  prints. JavaScript numbers stay far below \<open>2^53\<close> here, so no wrap-around is modelled.
  Strings are byte lists: \<^verbatim>\<open>trim\<close> removes ASCII white space only, and
  \<^verbatim>\<open>formatTimestamp\<close> is the \<^verbatim>\<open>en-GB\<close>/UTC instance of
  \<^verbatim>\<open>toLocaleTimeString\<close>. Every loop of the code is a structural recursion over a
  list, except socket.io's reconnection loop. That loop is
  \<^theory_text>\<open>partial_function (option)\<close>, and C27 proves that it returns with the client's
  options. The prompt loop ranges over the list of the user's answers, and when they run
  out the page stays blocked, as the synchronous \<^verbatim>\<open>prompt\<close> recursion does. The
  rules of the libraries the code configures (socket.io, express, cors, serve-static and
  send) come from their documentation, since their code is not in the repository. The HTTP
  model takes the request path after percent-decoding. Its file system is the list of the
  regular files' absolute paths. \<^verbatim>\<open>Number(string)\<close> is computed exactly on
  rationals; it differs from the double rounding only for strings with more digits than
  a double holds or an exponent beyond its range (\<^verbatim>\<open>'1e-400'\<close> is 0 in JavaScript, a
  positive fraction here).

  \<^bold>\<open>Plan.\<close> The components were modelled in order of importance. First the history
  buffer and the broadcast engine (the shared state and its fan-out), then the registry,
  the client's rendering and its event handlers, then the transport with failures, the
  reconnection manager and the HTTP layer, then the payload types and the data
  refinement of the engine. Still to do:
  \<^enum> the reconnection composed with the server as one step relation of client, transport
    and server, so that C5's interleaving is derived from the client's reconnection rather
    than stated on the server's trace;
  \<^enum> the backoff delays of the reconnection loop (at most 5000 ms each), for a bound on
    the time until the client gives up.

  \<^bold>\<open>Not modelled.\<close>
  \<^item> Percent-decoding of URLs, content types and caching headers of \<^verbatim>\<open>send\<close>.
  \<^item> socket.io's framing, acknowledgements, buffering limits, and what its engine
    answers beyond the CORS headers.
  \<^item> The random jitter of the reconnection backoff, and console logging.
  \<^item> The structure of object and array payloads: an object is an opaque \<open>JObject\<close>, since
    neither side reads a field of a payload it receives except the message records and
    the \<^verbatim>\<open>{username, isTyping}\<close> of user-typing, which are modelled as such.
\<close>

text \<open>C26. For every trace in which each send-message of a connected socket comes from a registered one: a client that joins and does not join again renders, without any exception, exactly the server's history at its join followed by every message broadcast to it afterwards, in order.\<close>

theorem client_view_matches_server:
  assumes js: "joined_senders server_init (pre @ Recv c clk (Join u) # post)"
    and conn: "c \<in> set (conns (fst (server_run server_init pre)))"
    and nj: "list_all (\<lambda>e. \<not> joins c e) post"
    and nb: "\<not> blocked st"
  shows "snd (snd (client_run st (map ServerSays (received c
           (snd (server_run (fst (server_run server_init pre)) (Recv c clk (Join u) # post))))))) = [] \<and>
    chat_elements (message_area (fst (client_run st (map ServerSays (received c
           (snd (server_run (fst (server_run server_init pre)) (Recv c clk (Join u) # post)))))))) =
      map (render_entry st) (chatMessages (fst (server_run server_init pre)) @
        new_messages (received c (snd (server_run
          (fst (server_step (fst (server_run server_init pre)) (Recv c clk (Join u)))) post))))"
proof -
  let ?S = "fst (server_run server_init pre)"
  let ?S1 = "fst (server_step ?S (Recv c clk (Join u)))"
  let ?R = "received c (snd (server_run ?S1 post))"
  have js0: "joined_senders server_init pre" and js1: "joined_senders ?S1 post"
    using js by (simp_all add: joined_senders_append)
  have inv: "server_inv ?S" by (rule server_run_inv [OF server_inv_init])
  have auth: "list_all authored (chatMessages ?S)"
    using js0 by (intro server_run_chat_authored) (simp_all add: server_init_def)
  have inv1: "server_inv ?S1" using inv by (rule server_step_inv)
  have auth1: "list_all authored (chatMessages ?S1)"
    using auth conn by (simp add: on_join_def)
  have pl: "list_all plain_event ?R"
    using inv1 auth1 js1 nj by (rule server_run_plain)
  have rc: "received c (snd (server_run ?S (Recv c clk (Join u) # post))) =
      UserJoined u # ChatHistory (chatMessages ?S) #
      UpdateOnlineCount (users_size (users_set c u (users ?S))) # ?R"
    using join_received [OF inv conn, of clk u] by (simp add: server_run_Cons_eq chat_simps)
  have pl2: "list_all plain_event (UpdateOnlineCount (users_size (users_set c u (users ?S))) # ?R)"
    using pl by simp
  show ?thesis
    using client_run_join_events [OF nb auth pl2] by (simp add: rc)
qed

theorem client_view_matches_server_witness:
  "joined_senders server_init
     ([Connect 1, Connect 2, Recv 2 (1, 1) (Join (JStr ''Ann'')), Recv 2 (2, 2) (SendMessage (JStr ''x''))] @
      Recv 1 (3, 3) (Join (JStr ''Bo'')) # [Recv 2 (4, 4) (SendMessage (JStr ''y''))]) \<and>
   (1::conn) \<in> set (conns (fst (server_run server_init
      [Connect 1, Connect 2, Recv 2 (1, 1) (Join (JStr ''Ann'')), Recv 2 (2, 2) (SendMessage (JStr ''x''))]))) \<and>
   list_all (\<lambda>e. \<not> joins 1 e) [Recv 2 (4, 4) (SendMessage (JStr ''y''))] \<and>
   \<not> blocked client_init \<and>
   snd (snd (client_run client_init (map ServerSays (received 1
     (snd (server_run (fst (server_run server_init
        [Connect 1, Connect 2, Recv 2 (1, 1) (Join (JStr ''Ann'')), Recv 2 (2, 2) (SendMessage (JStr ''x''))]))
        [Recv 1 (3, 3) (Join (JStr ''Bo'')), Recv 2 (4, 4) (SendMessage (JStr ''y''))])))))) = []"
proof -
  have h1: "joined_senders server_init
     ([Connect 1, Connect 2, Recv 2 (1, 1) (Join (JStr ''Ann'')), Recv 2 (2, 2) (SendMessage (JStr ''x''))] @
      Recv 1 (3, 3) (Join (JStr ''Bo'')) # [Recv 2 (4, 4) (SendMessage (JStr ''y''))])"
    by (simp add: server_eval)
  have h2: "(1::conn) \<in> set (conns (fst (server_run server_init
      [Connect 1, Connect 2, Recv 2 (1, 1) (Join (JStr ''Ann'')), Recv 2 (2, 2) (SendMessage (JStr ''x''))])))"
    by (simp add: server_run.simps server_eval)
  have h3: "list_all (\<lambda>e. \<not> joins 1 e) [Recv 2 (4, 4) (SendMessage (JStr ''y''))]"
    by (simp add: joins_def)
  have h4: "\<not> blocked client_init" by (simp add: client_init_def)
  show ?thesis using client_view_matches_server [OF h1 h2 h3 h4] h1 h2 h3 h4 by simp
qed

end
